theory Spec2Isabelle
  imports Complex_Main "HOL-Library.Multiset"
begin

section \<open>Gate attendance: the server routes and the gate screens\<close>

text \<open>
  The development embeds the attendance routes of the Express server
  (\<^verbatim>\<open>/api/gate/entry\<close>, \<^verbatim>\<open>/api/gate/present\<close>, \<^verbatim>\<open>/api/gate/bulk-out\<close>,
  \<^verbatim>\<open>/api/reports\<close>, \<^verbatim>\<open>/api/reports/export\<close>, \<^verbatim>\<open>DELETE /api/rosters\<close>) and the
  handlers of the gate-entry, gate-out and reports screens that call them.

  Conventions of the embedding.
  \<^item> A JavaScript \<^verbatim>\<open>Date\<close> is its \<^verbatim>\<open>getTime()\<close> value, an \<open>int\<close> of milliseconds
    since the epoch. The server reads the clock several times in one request
    (\<^verbatim>\<open>new Date()\<close>); the model takes one reading \<open>now\<close> per request.
  \<^item> An ISO calendar date (\<^verbatim>\<open>toISOString().split("T")[0]\<close>) is the number of days
    since 1970-01-01; the lexicographic comparison of such strings by the database
    is the order of the day numbers.
  \<^item> Hours are exact rationals. The source divides a whole number of milliseconds
    by \<^verbatim>\<open>1000 * 60 * 60\<close> in double precision; the quotient is rounded monotonically
    and \<open>1\<close> and \<open>9\<close> are doubles, so the comparisons \<^verbatim>\<open>hoursElapsed < 1\<close> and
    \<^verbatim>\<open>hoursElapsed >= 9\<close> agree with the exact ones. The decimal rendering
    \<^verbatim>\<open>toFixed\<close> acts on the double and is a parameter of the model.
  \<^item> Strings are Latin-1 strings: every UTF-16 code unit of a JavaScript string is below
    256 and is one \<open>char\<close>. \<^verbatim>\<open>toUpperCase\<close>, \<^verbatim>\<open>toLowerCase\<close> and \<^verbatim>\<open>trim\<close> are those of
    JavaScript on such strings, with one exception: the micro sign (181) and y with
    diaeresis (255), whose upper-case forms are single characters outside Latin-1, are
    left as they are.
  \<^item> The time zone of the host is a parameter of the model, in two functions: the weekday
    name of an instant in the server's locale, \<open>weekdayName\<close>
    (\<^verbatim>\<open>toLocaleDateString("en-US", { weekday: "long" })\<close>), and the instant one local
    calendar day after an instant, \<open>setNextDate\<close> (\<^verbatim>\<open>d.setDate(d.getDate() + 1)\<close>).
  \<^item> \<^verbatim>\<open>randomUUID()\<close> is an argument \<open>uuid\<close> of the request.
\<close>

subsection \<open>Strings\<close>

definition upper_char :: "char \<Rightarrow> char" where
  \<comment> \<open>a-z, and the Latin-1 letters from 224 to 254 but for the division sign 247\<close>
  "upper_char c =
     (let n = (of_char c :: nat)
      in if (97 \<le> n \<and> n \<le> 122) \<or> (224 \<le> n \<and> n \<le> 254 \<and> n \<noteq> 247)
         then char_of (n - 32) else c)"

definition lower_char :: "char \<Rightarrow> char" where
  \<comment> \<open>A-Z, and the Latin-1 letters from 192 to 222 but for the multiplication sign 215\<close>
  "lower_char c =
     (let n = (of_char c :: nat)
      in if (65 \<le> n \<and> n \<le> 90) \<or> (192 \<le> n \<and> n \<le> 222 \<and> n \<noteq> 215)
         then char_of (n + 32) else c)"

definition upper_chars :: "char \<Rightarrow> string" where
  \<comment> \<open>the sharp s, 223, has the two-letter upper-case form SS\<close>
  "upper_chars c = (if (of_char c :: nat) = 223 then ''SS'' else [upper_char c])"

definition toUpperCase :: "string \<Rightarrow> string" where
  "toUpperCase s = concat (map upper_chars s)"

definition toLowerCase :: "string \<Rightarrow> string" where
  "toLowerCase s = map lower_char s"



fun startsWith :: "string \<Rightarrow> string \<Rightarrow> bool" where
  "startsWith s [] = True"
| "startsWith [] (p # ps) = False"
| "startsWith (c # cs) (p # ps) = (c = p \<and> startsWith cs ps)"

fun str_includes :: "string \<Rightarrow> string \<Rightarrow> bool" where
  \<comment> \<open>\<^verbatim>\<open>String.prototype.includes\<close>\<close>
  "str_includes [] p = (p = [])"
| "str_includes (c # cs) p = (startsWith (c # cs) p \<or> str_includes cs p)"

definition or_else :: "string \<Rightarrow> string \<Rightarrow> string" where
  \<comment> \<open>\<^verbatim>\<open>s || d\<close> on strings: the empty string is falsy\<close>
  "or_else s d = (if s = [] then d else s)"

fun showNumber :: "nat \<Rightarrow> string" where
  \<comment> \<open>a count inside a template literal: its decimal digits\<close>
  "showNumber n =
     (if n < 10 then [char_of (48 + n)]
      else showNumber (n div 10) @ [char_of (48 + n mod 10)])"

declare showNumber.simps [simp del]

subsection \<open>Tables\<close>

type_synonym millis = int
type_synonym isodate = int

record employee =
  emp_id :: string
  emp_name :: string
  emp_slpid :: string
  emp_employeeId :: string
  emp_gender :: string
  emp_department :: string
  emp_designation :: string
  emp_dateOfJoining :: string
  emp_isActive :: bool

text \<open>Of a roster row the routes below read the employee reference, the shift and the
  rest day.\<close>

record roster =
  ros_id :: string
  ros_employeeId :: string
  ros_shiftName :: string
  ros_weekOff :: string

record attendance =
  att_id :: string
  att_employeeId :: string
  att_slpid :: string
  att_shiftName :: string
  att_department :: string
  att_isWeekOffEntry :: bool
  att_isOvertime :: bool
  att_date :: isodate
  att_gateInTime :: millis
  att_gateOutTime :: "millis option"

record tables =
  employees :: "employee list"
  rosters :: "roster list"
  attendances :: "attendance list"

subsection \<open>The database handle\<close>

text \<open>
  Every \<^verbatim>\<open>await db...\<close> is one call on the handle. The handle keeps the list of the
  calls made and a fault schedule: \<open>failAfter = Some n\<close> lets \<open>n\<close> more calls succeed
  and makes the call after them throw; \<open>None\<close> is storage that never fails. A call
  that throws changes no table. A handler body yields \<open>None\<close> when an exception leaves
  it; \<open>try_catch\<close> is the \<^verbatim>\<open>try { ... } catch\<close> around every route. A table is the list
  of its rows in the order in which a select without \<^verbatim>\<open>ORDER BY\<close> returns them, which the
  storage is free to choose; in the model an insert appends a row and an update leaves
  the row in its place.
\<close>

datatype db_call =
    SelectEmployees | SelectRosters | SelectAttendance
  | InsertAttendance | UpdateAttendance
  | DeleteAttendance | DeleteRosters | DeleteEmployees

record db =
  tabs :: tables
  calls :: "db_call list"
  failAfter :: "nat option"

definition db_select ::
  "db_call \<Rightarrow> (tables \<Rightarrow> 'a) \<Rightarrow> ('a \<Rightarrow> db \<Rightarrow> 'r option \<times> db) \<Rightarrow> db \<Rightarrow> 'r option \<times> db" where
  "db_select c q k d =
     (let d' = d\<lparr>calls := calls d @ [c]\<rparr>
      in case failAfter d of
           None \<Rightarrow> k (q (tabs d)) d'
         | Some 0 \<Rightarrow> (None, d')
         | Some (Suc n) \<Rightarrow> k (q (tabs d)) (d'\<lparr>failAfter := Some n\<rparr>))"

definition db_write ::
  "db_call \<Rightarrow> (tables \<Rightarrow> tables) \<Rightarrow> (db \<Rightarrow> 'r option \<times> db) \<Rightarrow> db \<Rightarrow> 'r option \<times> db" where
  "db_write c w k d =
     (let d' = d\<lparr>calls := calls d @ [c]\<rparr>
      in case failAfter d of
           None \<Rightarrow> k (d'\<lparr>tabs := w (tabs d)\<rparr>)
         | Some 0 \<Rightarrow> (None, d')
         | Some (Suc n) \<Rightarrow> k (d'\<lparr>tabs := w (tabs d), failAfter := Some n\<rparr>))"

definition respond :: "'r \<Rightarrow> db \<Rightarrow> 'r option \<times> db" where
  "respond r d = (Some r, d)"

definition db_bind ::
  "(db \<Rightarrow> 'a option \<times> db) \<Rightarrow> ('a \<Rightarrow> db \<Rightarrow> 'r option \<times> db) \<Rightarrow> db \<Rightarrow> 'r option \<times> db" where
  \<comment> \<open>run \<open>m\<close>, then the rest of the body; an exception in \<open>m\<close> skips the rest\<close>
  "db_bind m k d = (case m d of (Some a, d') \<Rightarrow> k a d' | (None, d') \<Rightarrow> (None, d'))"

definition try_catch :: "(db \<Rightarrow> 'r option \<times> db) \<Rightarrow> 'r \<Rightarrow> db \<Rightarrow> 'r \<times> db" where
  "try_catch body caught d =
     (case body d of (Some r, d') \<Rightarrow> (r, d') | (None, d') \<Rightarrow> (caught, d'))"

text \<open>
  Reading the fault schedule: \<open>answers d k\<close> says that the next \<open>k\<close> calls on the handle
  succeed (\<open>failAfter d = Some k\<close> says that they do and that the call after them throws),
  and \<open>tick c d\<close> is the handle after a call \<open>c\<close> that succeeded, before its result is
  used.
\<close>

definition answers :: "db \<Rightarrow> nat \<Rightarrow> bool" where
  "answers d k = (case failAfter d of None \<Rightarrow> True | Some n \<Rightarrow> k \<le> n)"

definition tick :: "db_call \<Rightarrow> db \<Rightarrow> db" where
  "tick c d =
     (case failAfter d of
        None \<Rightarrow> d\<lparr>calls := calls d @ [c]\<rparr>
      | Some n \<Rightarrow> d\<lparr>calls := calls d @ [c], failAfter := Some (n - 1)\<rparr>)"

subsection \<open>\<^verbatim>\<open>POST /api/gate/entry\<close>\<close>

record entry_body =
  body_slpid :: "string option"
  body_allowWeekOff :: bool

text \<open>The JSON object of a reply; a key the route leaves out is \<open>None\<close>.\<close>

record entry_res =
  res_status :: nat
  res_success :: "bool option"
  res_action :: "string option"
  res_message :: string
  res_employeeName :: "string option"
  res_hoursElapsed :: "string option"
  res_hoursWorked :: "string option"
  res_isWeekOff :: "bool option"

definition entry_json :: "nat \<Rightarrow> string \<Rightarrow> entry_res" where
  \<comment> \<open>\<^verbatim>\<open>res.status(n).json({ message })\<close>\<close>
  "entry_json n msg =
     \<lparr>res_status = n, res_success = None, res_action = None, res_message = msg,
      res_employeeName = None, res_hoursElapsed = None, res_hoursWorked = None,
      res_isWeekOff = None\<rparr>"

definition hoursElapsed :: "millis \<Rightarrow> millis \<Rightarrow> rat" where
  \<comment> \<open>\<^verbatim>\<open>(now.getTime() - gateInTime.getTime()) / (1000 * 60 * 60)\<close>\<close>
  "hoursElapsed now gateInTime = of_int (now - gateInTime) / (1000 * 60 * 60)"

definition today_of :: "millis \<Rightarrow> isodate" where
  \<comment> \<open>\<^verbatim>\<open>new Date().toISOString().split("T")[0]\<close>: the UTC calendar day\<close>
  "today_of now = now div 86400000"

definition set_gate_out :: "string \<Rightarrow> millis \<Rightarrow> bool \<Rightarrow> tables \<Rightarrow> tables" where
  \<comment> \<open>\<^verbatim>\<open>db.update(attendance).set({ gateOutTime, isOvertime }).where(eq(attendance.id, id))\<close>\<close>
  "set_gate_out aid now ot t =
     t\<lparr>attendances :=
         map (\<lambda>a. if att_id a = aid
                  then a\<lparr>att_gateOutTime := Some now, att_isOvertime := ot\<rparr> else a)
             (attendances t)\<rparr>"

definition insert_attendance :: "attendance \<Rightarrow> tables \<Rightarrow> tables" where
  "insert_attendance a t = t\<lparr>attendances := attendances t @ [a]\<rparr>"

text \<open>
  The route, in three parts: the branch taken when the employee has an open entry
  (\<^verbatim>\<open>activeEntry.length > 0\<close>), the rest of the body after that branch (a fresh scan),
  and the route itself. \<^verbatim>\<open>.limit(1)\<close> without an order is the first matching row in
  table order. The insert names neither \<^verbatim>\<open>gateInTime\<close> nor \<^verbatim>\<open>gateOutTime\<close>: the
  columns take the defaults of the schema, which is not among the source files.
  Modelled from the spec: the schema defaults of a new attendance row, "gate-in
  timestamp = now" and "gate-out = null".
\<close>

definition entry_active ::
  "(nat \<Rightarrow> rat \<Rightarrow> string) \<Rightarrow> millis \<Rightarrow> employee \<Rightarrow> attendance
     \<Rightarrow> db \<Rightarrow> entry_res option \<times> db" where
  "entry_active toFixed now emp active =
     (let elapsed = hoursElapsed now (att_gateInTime active)
      in if elapsed < 1
         then respond
           ((entry_json 400 ''Card already scanned'')
              \<lparr>res_action := Some ''none'',
               res_employeeName := Some (emp_name emp),
               res_hoursElapsed := Some (toFixed 2 elapsed)\<rparr>)
         else
           let isOvertime = (elapsed \<ge> 9)
           in db_write UpdateAttendance
                (set_gate_out (att_id active) now isOvertime)
                (respond
                  ((entry_json 200
                     (''Gate Out recorded - '' @ toFixed 1 elapsed @ '' hours worked''))
                     \<lparr>res_success := Some True,
                      res_action := Some ''gate_out'',
                      res_employeeName := Some (emp_name emp),
                      res_hoursWorked := Some (toFixed 1 elapsed)\<rparr>)))"

definition entry_fresh ::
  "(millis \<Rightarrow> string) \<Rightarrow> string \<Rightarrow> millis \<Rightarrow> bool \<Rightarrow> employee
     \<Rightarrow> db \<Rightarrow> entry_res option \<times> db" where
  "entry_fresh weekdayName uuid now allowWeekOff emp =
     db_select SelectRosters
       (\<lambda>t. find (\<lambda>r. ros_employeeId r = emp_id emp) (rosters t))
       (\<lambda>roster.
         let dayOfWeek = weekdayName now;
             isWeekOff =
               (case roster of
                  None \<Rightarrow> False
                | Some r \<Rightarrow> toLowerCase (ros_weekOff r) = toLowerCase dayOfWeek)
         in if isWeekOff \<and> \<not> allowWeekOff
            then respond
              ((entry_json 409 ''Employee is on week off. Confirmation required.'')
                 \<lparr>res_isWeekOff := Some True,
                  res_employeeName := Some (emp_name emp)\<rparr>)
            else
              db_write InsertAttendance
                (insert_attendance
                  \<lparr>att_id = uuid, att_employeeId = emp_id emp,
                   att_slpid = emp_slpid emp,
                   att_shiftName =
                     (case roster of None \<Rightarrow> ''General'' | Some r \<Rightarrow> ros_shiftName r),
                   att_department = emp_department emp,
                   att_isWeekOffEntry = (isWeekOff \<and> allowWeekOff),
                   att_isOvertime = False,
                   att_date = today_of now,
                   att_gateInTime = now,
                   att_gateOutTime = None\<rparr>)
                (respond
                  ((entry_json 200 ''Gate In recorded successfully'')
                     \<lparr>res_success := Some True,
                      res_action := Some ''gate_in'',
                      res_employeeName := Some (emp_name emp)\<rparr>)))"

definition gate_entry ::
  "(millis \<Rightarrow> string) \<Rightarrow> (nat \<Rightarrow> rat \<Rightarrow> string) \<Rightarrow> string \<Rightarrow> millis \<Rightarrow> entry_body
     \<Rightarrow> db \<Rightarrow> entry_res \<times> db" where
  "gate_entry weekdayName toFixed uuid now body =
     try_catch
       (case body_slpid body of
          None \<Rightarrow> respond (entry_json 400 ''SLPID is required'')
        | Some slpid \<Rightarrow>
            if slpid = [] then respond (entry_json 400 ''SLPID is required'')
            else
              db_select SelectEmployees
                (\<lambda>t. find (\<lambda>e. emp_slpid e = toUpperCase slpid) (employees t))
                (\<lambda>employee.
                  case employee of
                    None \<Rightarrow> respond (entry_json 404 ''Employee not found'')
                  | Some emp \<Rightarrow>
                      if \<not> emp_isActive emp
                      then respond (entry_json 403 ''Employee is inactive'')
                      else
                        db_select SelectAttendance
                          (\<lambda>t. find (\<lambda>a. att_employeeId a = emp_id emp
                                          \<and> att_gateOutTime a = None)
                                 (attendances t))
                          (\<lambda>activeEntry.
                            case activeEntry of
                              Some active \<Rightarrow> entry_active toFixed now emp active
                            | None \<Rightarrow>
                                entry_fresh weekdayName uuid now
                                  (body_allowWeekOff body) emp)))
       (entry_json 500 ''Failed to record entry'')"

text \<open>A badge presented again and again: the same body posted once per element of
  \<open>scans\<close>, each with its own clock reading and UUID, the replies in order.\<close>

fun scan_all ::
  "(millis \<Rightarrow> string) \<Rightarrow> (nat \<Rightarrow> rat \<Rightarrow> string) \<Rightarrow> entry_body \<Rightarrow> (string \<times> millis) list
     \<Rightarrow> db \<Rightarrow> entry_res list \<times> db" where
  "scan_all weekdayName toFixed body [] d = ([], d)"
| "scan_all weekdayName toFixed body ((uuid, now) # scans) d =
     (let (r, d1) = gate_entry weekdayName toFixed uuid now body d;
          (rs, d2) = scan_all weekdayName toFixed body scans d1
      in (r # rs, d2))"

subsection \<open>\<^verbatim>\<open>GET /api/gate/present\<close>\<close>

record present_row =
  pr_id :: string
  pr_attendanceId :: string
  pr_slpid :: string
  pr_name :: string
  pr_department :: string
  pr_shift :: string
  pr_gateInTime :: millis
  pr_hoursWorked :: rat
  pr_date :: isodate

definition present_item :: "millis \<Rightarrow> attendance \<Rightarrow> employee option \<Rightarrow> present_row" where
  "present_item now att emp =
     (let hoursWorked = hoursElapsed now (att_gateInTime att)
      in \<lparr>pr_id = (case emp of None \<Rightarrow> [] | Some e \<Rightarrow> emp_id e),
          pr_attendanceId = att_id att,
          pr_slpid = att_slpid att,
          pr_name = (case emp of None \<Rightarrow> ''Unknown'' | Some e \<Rightarrow> or_else (emp_name e) ''Unknown''),
          pr_department = att_department att,
          pr_shift = or_else (att_shiftName att) ''General'',
          pr_gateInTime = att_gateInTime att,
          pr_hoursWorked = max 0 hoursWorked,
          pr_date = att_date att\<rparr>)"

text \<open>\<^verbatim>\<open>Promise.all(activeEntries.map(async (att) => ...))\<close>: one employee lookup per open
  entry, taken here in the order of the entries. The server starts all the lookups
  before the first of them has answered; when one of them fails, the list of calls of
  the model stops there, while the server has issued the others too. The reply is the
  same.\<close>

fun present_items :: "millis \<Rightarrow> attendance list \<Rightarrow> db \<Rightarrow> present_row list option \<times> db" where
  "present_items now [] = respond []"
| "present_items now (att # rest) =
     db_select SelectEmployees
       (\<lambda>t. find (\<lambda>e. emp_id e = att_employeeId att) (employees t))
       (\<lambda>emp. db_bind (present_items now rest)
                (\<lambda>result. respond (present_item now att emp # result)))"

text \<open>The reply is the list of rows with status 200, or the status 500 of the
  \<^verbatim>\<open>catch\<close>. \<^verbatim>\<open>orderBy(desc(attendance.gateInTime))\<close> is a stable sort, latest first.\<close>

definition gate_present :: "millis \<Rightarrow> db \<Rightarrow> (nat \<times> present_row list) \<times> db" where
  "gate_present now =
     try_catch
       (db_select SelectAttendance
          (\<lambda>t. sort_key (\<lambda>a. - att_gateInTime a)
                 (filter (\<lambda>a. att_gateOutTime a = None) (attendances t)))
          (\<lambda>activeEntries.
            db_bind (present_items now activeEntries) (\<lambda>result. respond (200, result))))
       (500, [])"

subsection \<open>\<^verbatim>\<open>POST /api/gate/bulk-out\<close>\<close>

record bulk_res =
  bulk_status :: nat
  bulk_success :: "bool option"
  bulk_count :: "nat option"
  bulk_message :: string

text \<open>The \<^verbatim>\<open>for (const attId of attendanceIds)\<close> loop, with the running \<^verbatim>\<open>count\<close>, here \<open>count'\<close>.\<close>

fun bulk_loop :: "millis \<Rightarrow> string list \<Rightarrow> nat \<Rightarrow> db \<Rightarrow> nat option \<times> db" where
  "bulk_loop now [] count' = respond count'"
| "bulk_loop now (attId # rest) count' =
     db_select SelectAttendance
       (\<lambda>t. find (\<lambda>a. att_id a = attId) (attendances t))
       (\<lambda>att.
         case att of
           Some a \<Rightarrow>
             let hoursWorked = hoursElapsed now (att_gateInTime a)
             in db_write UpdateAttendance
                  (set_gate_out attId now (hoursWorked \<ge> 9))
                  (bulk_loop now rest (count' + 1))
         | None \<Rightarrow> bulk_loop now rest count')"

text \<open>\<open>attendanceIds = None\<close> is a body without the key, or with a value that is not an
  array.\<close>

definition bulk_out :: "millis \<Rightarrow> string list option \<Rightarrow> db \<Rightarrow> bulk_res \<times> db" where
  "bulk_out now attendanceIds =
     try_catch
       (case attendanceIds of
          None \<Rightarrow>
            respond \<lparr>bulk_status = 400, bulk_success = None, bulk_count = None,
                     bulk_message = ''No attendance IDs provided''\<rparr>
        | Some ids \<Rightarrow>
            if ids = []
            then respond \<lparr>bulk_status = 400, bulk_success = None, bulk_count = None,
                          bulk_message = ''No attendance IDs provided''\<rparr>
            else
              db_bind (bulk_loop now ids 0)
                (\<lambda>count'.
                  respond \<lparr>bulk_status = 200, bulk_success = Some True,
                           bulk_count = Some count',
                           bulk_message = showNumber count' @ '' employees marked as Gate Out''\<rparr>))
       \<lparr>bulk_status = 500, bulk_success = None, bulk_count = None,
        bulk_message = ''Failed to process bulk gate out''\<rparr>"

subsection \<open>\<^verbatim>\<open>DELETE /api/rosters\<close>\<close>

definition delete_rosters :: "db \<Rightarrow> (nat \<times> string) \<times> db" where
  "delete_rosters =
     try_catch
       (db_write DeleteAttendance (\<lambda>t. t\<lparr>attendances := []\<rparr>)
         (db_write DeleteRosters (\<lambda>t. t\<lparr>rosters := []\<rparr>)
           (db_write DeleteEmployees (\<lambda>t. t\<lparr>employees := []\<rparr>)
             (respond (200, ''All roster records and employees have been deleted'')))))
       (500, ''Failed to delete roster'')"

subsection \<open>Requests one after the other, and two requests at once\<close>

text \<open>
  \<open>serial\<close> holds of the states that the routes reach when every request runs to its
  reply before the next one starts. Besides the three routes that write the attendance
  table, a step may replace the employee and roster tables (the maintenance routes write
  only these two) and change the fault schedule. The server does not run its requests
  that way: a handler gives way to other handlers at every \<^verbatim>\<open>await\<close>, and no transaction
  or lock keeps its calls together.
\<close>

definition empty_db :: db where
  "empty_db =
     \<lparr>tabs = \<lparr>employees = [], rosters = [], attendances = []\<rparr>, calls = [],
      failAfter = None\<rparr>"

inductive serial :: "db \<Rightarrow> bool" where
  start: "serial empty_db"
| entry: "serial d \<Longrightarrow> serial (snd (gate_entry weekdayName toFixed uuid now body d))"
| bulk: "serial d \<Longrightarrow> serial (snd (bulk_out now attendanceIds d))"
| wipe: "serial d \<Longrightarrow> serial (snd (delete_rosters d))"
| maintain:
    "serial d \<Longrightarrow>
     serial (d\<lparr>tabs := (tabs d)\<lparr>employees := es, rosters := rs\<rparr>, failAfter := fa\<rparr>)"

text \<open>
  The gate-entry route cut at the \<^verbatim>\<open>await\<close> of its write. \<open>entry_reads\<close> is the route up to
  that point: the three selects and the decision, which leaves either a reply or a
  write with the reply that follows it. \<open>entry_write\<close> is the rest. Run one after the
  other they are the route; between the two, another request may run.
\<close>

datatype pending = Finished entry_res | Write db_call "tables \<Rightarrow> tables" entry_res

definition active_decision ::
  "(nat \<Rightarrow> rat \<Rightarrow> string) \<Rightarrow> millis \<Rightarrow> employee \<Rightarrow> attendance \<Rightarrow> pending" where
  "active_decision toFixed now emp active =
     (let elapsed = hoursElapsed now (att_gateInTime active)
      in if elapsed < 1
         then Finished
           ((entry_json 400 ''Card already scanned'')
              \<lparr>res_action := Some ''none'',
               res_employeeName := Some (emp_name emp),
               res_hoursElapsed := Some (toFixed 2 elapsed)\<rparr>)
         else
           let isOvertime = (elapsed \<ge> 9)
           in Write UpdateAttendance
                (set_gate_out (att_id active) now isOvertime)
                ((entry_json 200
                   (''Gate Out recorded - '' @ toFixed 1 elapsed @ '' hours worked''))
                   \<lparr>res_success := Some True,
                    res_action := Some ''gate_out'',
                    res_employeeName := Some (emp_name emp),
                    res_hoursWorked := Some (toFixed 1 elapsed)\<rparr>))"

definition fresh_reads ::
  "(millis \<Rightarrow> string) \<Rightarrow> string \<Rightarrow> millis \<Rightarrow> bool \<Rightarrow> employee
     \<Rightarrow> db \<Rightarrow> pending option \<times> db" where
  "fresh_reads weekdayName uuid now allowWeekOff emp =
     db_select SelectRosters
       (\<lambda>t. find (\<lambda>r. ros_employeeId r = emp_id emp) (rosters t))
       (\<lambda>roster.
         let dayOfWeek = weekdayName now;
             isWeekOff =
               (case roster of
                  None \<Rightarrow> False
                | Some r \<Rightarrow> toLowerCase (ros_weekOff r) = toLowerCase dayOfWeek)
         in if isWeekOff \<and> \<not> allowWeekOff
            then respond
              (Finished
                ((entry_json 409 ''Employee is on week off. Confirmation required.'')
                   \<lparr>res_isWeekOff := Some True,
                    res_employeeName := Some (emp_name emp)\<rparr>))
            else respond
              (Write InsertAttendance
                (insert_attendance
                  \<lparr>att_id = uuid, att_employeeId = emp_id emp,
                   att_slpid = emp_slpid emp,
                   att_shiftName =
                     (case roster of None \<Rightarrow> ''General'' | Some r \<Rightarrow> ros_shiftName r),
                   att_department = emp_department emp,
                   att_isWeekOffEntry = (isWeekOff \<and> allowWeekOff),
                   att_isOvertime = False,
                   att_date = today_of now,
                   att_gateInTime = now,
                   att_gateOutTime = None\<rparr>)
                ((entry_json 200 ''Gate In recorded successfully'')
                   \<lparr>res_success := Some True,
                    res_action := Some ''gate_in'',
                    res_employeeName := Some (emp_name emp)\<rparr>)))"

definition entry_reads ::
  "(millis \<Rightarrow> string) \<Rightarrow> (nat \<Rightarrow> rat \<Rightarrow> string) \<Rightarrow> string \<Rightarrow> millis \<Rightarrow> entry_body
     \<Rightarrow> db \<Rightarrow> pending option \<times> db" where
  "entry_reads weekdayName toFixed uuid now body =
     (case body_slpid body of
        None \<Rightarrow> respond (Finished (entry_json 400 ''SLPID is required''))
      | Some slpid \<Rightarrow>
          if slpid = [] then respond (Finished (entry_json 400 ''SLPID is required''))
          else
            db_select SelectEmployees
              (\<lambda>t. find (\<lambda>e. emp_slpid e = toUpperCase slpid) (employees t))
              (\<lambda>employee.
                case employee of
                  None \<Rightarrow> respond (Finished (entry_json 404 ''Employee not found''))
                | Some emp \<Rightarrow>
                    if \<not> emp_isActive emp
                    then respond (Finished (entry_json 403 ''Employee is inactive''))
                    else
                      db_select SelectAttendance
                        (\<lambda>t. find (\<lambda>a. att_employeeId a = emp_id emp
                                        \<and> att_gateOutTime a = None)
                               (attendances t))
                        (\<lambda>activeEntry.
                          case activeEntry of
                            Some active \<Rightarrow> respond (active_decision toFixed now emp active)
                          | None \<Rightarrow>
                              fresh_reads weekdayName uuid now
                                (body_allowWeekOff body) emp)))"

definition entry_write :: "pending option \<Rightarrow> db \<Rightarrow> entry_res \<times> db" where
  \<comment> \<open>\<open>None\<close> is a route that threw in its reads: the \<^verbatim>\<open>catch\<close> replies\<close>
  "entry_write p =
     try_catch
       (case p of
          None \<Rightarrow> (\<lambda>d. (None, d))
        | Some (Finished r) \<Rightarrow> respond r
        | Some (Write c w r) \<Rightarrow> db_write c w (respond r))
       (entry_json 500 ''Failed to record entry'')"

definition run_alone :: "(db \<Rightarrow> pending option \<times> db) \<Rightarrow> db \<Rightarrow> entry_res \<times> db" where
  \<comment> \<open>the reads and then the write, with no other request in between\<close>
  "run_alone reads d = (let (p, d1) = reads d in entry_write p d1)"

text \<open>Two requests whose reads both come before either write: the reads of the first, the
  reads of the second, the write of the first, the write of the second. The result is
  the two replies and the handle.\<close>

definition interleaved ::
  "(db \<Rightarrow> pending option \<times> db) \<Rightarrow> (db \<Rightarrow> pending option \<times> db) \<Rightarrow> db
     \<Rightarrow> entry_res \<times> entry_res \<times> db" where
  "interleaved reads1 reads2 d =
     (let (p1, d1) = reads1 d;
          (p2, d2) = reads2 d1;
          (r1, d3) = entry_write p1 d2;
          (r2, d4) = entry_write p2 d3
      in (r1, r2, d4))"

definition open_entries :: "string \<Rightarrow> tables \<Rightarrow> attendance list" where
  \<comment> \<open>the rows of one employee with a null gate-out time, as the route selects them\<close>
  "open_entries eid t =
     filter (\<lambda>a. att_employeeId a = eid \<and> att_gateOutTime a = None) (attendances t)"

subsection \<open>\<^verbatim>\<open>GET /api/reports\<close>\<close>

text \<open>
  The query string: a parameter that is absent is \<open>None\<close>. An empty \<^verbatim>\<open>fromDate\<close> or
  \<^verbatim>\<open>toDate\<close> is falsy in \<^verbatim>\<open>!fromDate || !toDate\<close> and counts as absent; an empty
  \<^verbatim>\<open>department\<close> is falsy in \<^verbatim>\<open>department && ...\<close> and filters nothing.
\<close>

record report_query =
  q_fromDate :: "isodate option"
  q_toDate :: "isodate option"
  q_department :: "string option"
  q_onlyAbsent :: "string option"

text \<open>A row of the reply. \<open>rr_id\<close> is the attendance id of a presence row and \<open>None\<close>
  for an absence row, whose id is a fresh \<^verbatim>\<open>randomUUID()\<close>; \<open>rr_gateInTime\<close> is \<open>None\<close> for
  the empty string of an absence row.\<close>

record report_row =
  rr_id :: "string option"
  rr_slpid :: string
  rr_employeeName :: string
  rr_employeeIdCode :: string
  rr_gender :: string
  rr_department :: string
  rr_designation :: string
  rr_weekOff :: string
  rr_dateOfJoining :: string
  rr_date :: isodate
  rr_gateInTime :: "millis option"
  rr_gateOutTime :: "millis option"
  rr_shiftName :: string
  rr_totalHours :: string
  rr_otHours :: string
  rr_status :: string

definition absent_record :: "employee \<Rightarrow> roster option \<Rightarrow> isodate \<Rightarrow> report_row" where
  "absent_record emp ros date =
     \<lparr>rr_id = None, rr_slpid = emp_slpid emp, rr_employeeName = emp_name emp,
      rr_employeeIdCode = emp_employeeId emp, rr_gender = emp_gender emp,
      rr_department = emp_department emp, rr_designation = emp_designation emp,
      rr_weekOff = (case ros of None \<Rightarrow> [] | Some r \<Rightarrow> ros_weekOff r),
      rr_dateOfJoining = emp_dateOfJoining emp,
      rr_date = date, rr_gateInTime = None, rr_gateOutTime = None,
      rr_shiftName = (case ros of None \<Rightarrow> ''General'' | Some r \<Rightarrow> or_else (ros_shiftName r) ''General''),
      rr_totalHours = ''0.00'', rr_otHours = ''0.00'', rr_status = ''A''\<rparr>"

definition present_record ::
  "(nat \<Rightarrow> rat \<Rightarrow> string) \<Rightarrow> employee \<Rightarrow> roster option \<Rightarrow> attendance \<Rightarrow> report_row" where
  "present_record toFixed emp ros att =
     (let totalHours =
            (case att_gateOutTime att of
               Some gateOutTime \<Rightarrow> of_int (gateOutTime - att_gateInTime att) / (1000 * 60 * 60)
             | None \<Rightarrow> (0 :: rat))
      in \<lparr>rr_id = Some (att_id att), rr_slpid = att_slpid att, rr_employeeName = emp_name emp,
          rr_employeeIdCode = emp_employeeId emp, rr_gender = emp_gender emp,
          rr_department = att_department att, rr_designation = emp_designation emp,
          rr_weekOff = (case ros of None \<Rightarrow> [] | Some r \<Rightarrow> ros_weekOff r),
          rr_dateOfJoining = emp_dateOfJoining emp,
          rr_date = att_date att, rr_gateInTime = Some (att_gateInTime att),
          rr_gateOutTime = att_gateOutTime att,
          rr_shiftName = att_shiftName att,
          rr_totalHours = toFixed 2 totalHours,
          rr_otHours = toFixed 2 (if totalHours > 9 then totalHours - 9 else 0),
          rr_status = ''P''\<rparr>)"

definition isWeekOff :: "(millis \<Rightarrow> string) \<Rightarrow> roster option \<Rightarrow> isodate \<Rightarrow> bool" where
  \<comment> \<open>\<^verbatim>\<open>ros?.weekOff?.toLowerCase() === dayOfWeek.toLowerCase()\<close>, the day of the week
      being that of \<^verbatim>\<open>new Date(date)\<close>, midnight UTC of the date\<close>
  "isWeekOff weekdayName ros date =
     (let dayOfWeek = weekdayName (date * 86400000)
      in case ros of
           None \<Rightarrow> False
         | Some r \<Rightarrow> toLowerCase (ros_weekOff r) = toLowerCase dayOfWeek)"

definition records_of_day ::
  "(millis \<Rightarrow> string) \<Rightarrow> (nat \<Rightarrow> rat \<Rightarrow> string) \<Rightarrow> string option \<Rightarrow> attendance list
     \<Rightarrow> employee \<Rightarrow> roster option \<Rightarrow> isodate \<Rightarrow> report_row list" where
  \<comment> \<open>the body of \<^verbatim>\<open>dates.forEach(date => ...)\<close>: what one date pushes on \<^verbatim>\<open>records\<close>\<close>
  "records_of_day weekdayName toFixed onlyAbsent allAtt emp ros date =
     (let weekOff = isWeekOff weekdayName ros date;
          att = find (\<lambda>a. att_employeeId a = emp_id emp \<and> att_date a = date) allAtt
      in if onlyAbsent = Some ''true''
         then (if \<not> weekOff \<and> att = None then [absent_record emp ros date] else [])
         else (case att of
                 Some a \<Rightarrow> [present_record toFixed emp ros a]
               | None \<Rightarrow> if \<not> weekOff then [absent_record emp ros date] else []))"

definition records_of_employee ::
  "(millis \<Rightarrow> string) \<Rightarrow> (nat \<Rightarrow> rat \<Rightarrow> string) \<Rightarrow> string option \<Rightarrow> string option
     \<Rightarrow> roster list \<Rightarrow> attendance list \<Rightarrow> isodate list \<Rightarrow> employee \<Rightarrow> report_row list" where
  \<comment> \<open>the body of \<^verbatim>\<open>allEmp.forEach(emp => ...)\<close>\<close>
  "records_of_employee weekdayName toFixed department onlyAbsent allRos allAtt dates emp =
     (if (case department of None \<Rightarrow> False | Some dep \<Rightarrow> dep \<noteq> [] \<and> emp_department emp \<noteq> dep)
      then []
      else
        let ros = find (\<lambda>r. ros_employeeId r = emp_id emp) allRos
        in concat (map (records_of_day weekdayName toFixed onlyAbsent allAtt emp ros) dates))"

text \<open>
  The dates of the range,
  \<^verbatim>\<open>for (let d = new Date(fromDate); d <= new Date(toDate); d.setDate(d.getDate() + 1))\<close>:
  the loop starts at midnight UTC of \<open>fromDate\<close>, pushes the UTC date of \<open>d\<close> and moves
  \<open>d\<close> one local calendar day on, by the host's \<open>setNextDate\<close>. \<open>dates\<close> is the list pushed so
  far. The result is \<open>None\<close> when the loop does not end.
\<close>

partial_function (option) date_loop ::
  "(millis \<Rightarrow> millis) \<Rightarrow> millis \<Rightarrow> millis \<Rightarrow> isodate list \<Rightarrow> isodate list option" where
  "date_loop setNextDate stop d dates =
     (if d \<le> stop
      then date_loop setNextDate stop (setNextDate d) (dates @ [today_of d])
      else Some dates)"

record report_res =
  rep_status :: nat
  rep_message :: "string option"
  rep_records :: "report_row list"

text \<open>The route; its reply is \<open>None\<close> when the loop over the dates does not end and no
  reply is sent.\<close>

definition reports ::
  "(millis \<Rightarrow> millis) \<Rightarrow> (millis \<Rightarrow> string) \<Rightarrow> (nat \<Rightarrow> rat \<Rightarrow> string) \<Rightarrow> report_query
     \<Rightarrow> db \<Rightarrow> report_res option \<times> db" where
  "reports setNextDate weekdayName toFixed q =
     try_catch
       (case (q_fromDate q, q_toDate q) of
          (Some fromDate, Some toDate) \<Rightarrow>
            db_select SelectEmployees (\<lambda>t. filter emp_isActive (employees t))
              (\<lambda>allEmp.
                db_select SelectRosters rosters
                  (\<lambda>allRos.
                    db_select SelectAttendance
                      (\<lambda>t. filter (\<lambda>a. fromDate \<le> att_date a \<and> att_date a \<le> toDate)
                             (attendances t))
                      (\<lambda>allAtt.
                        case date_loop setNextDate (toDate * 86400000)
                               (fromDate * 86400000) [] of
                          None \<Rightarrow> respond None
                        | Some dates \<Rightarrow>
                            let records =
                                  concat (map (records_of_employee weekdayName toFixed
                                                 (q_department q) (q_onlyAbsent q)
                                                 allRos allAtt dates)
                                              allEmp)
                            in respond
                                 (Some \<lparr>rep_status = 200, rep_message = None,
                                        rep_records =
                                          sort_key (\<lambda>r. - rr_date r) records\<rparr>))))
        | _ \<Rightarrow> respond (Some \<lparr>rep_status = 400, rep_message = Some ''Dates required'',
                             rep_records = []\<rparr>))
       (Some \<lparr>rep_status = 500, rep_message = Some ''Failed to fetch reports'',
              rep_records = []\<rparr>)"

subsection \<open>The gate-entry screen\<close>



definition mutate :: "string \<Rightarrow> bool \<Rightarrow> entry_body" where
  \<comment> \<open>\<^verbatim>\<open>apiRequest("POST", "/api/gate/entry", { slpid: slpidValue, allowWeekOff })\<close>\<close>
  "mutate slpidValue allowWeekOff =
     \<lparr>body_slpid = Some slpidValue, body_allowWeekOff = allowWeekOff\<rparr>"




subsection \<open>The reports and gate-out screens\<close>

text \<open>\<^verbatim>\<open>handleSearch\<close> either shows the toast and returns, or refetches the report;
  \<^verbatim>\<open>handleBulkGateOut\<close> either shows the toast and returns, or posts the selected ids.
  The screen holds the two dates as instants and the selection as a set, listed here
  without repetition.\<close>

datatype 'a submitted = Toast string | Request 'a

definition formatDate :: "millis \<Rightarrow> isodate" where
  \<comment> \<open>\<^verbatim>\<open>date.toISOString().split("T")[0]\<close>\<close>
  "formatDate date = date div 86400000"

definition handleSearch ::
  "millis \<Rightarrow> millis \<Rightarrow> string \<Rightarrow> (isodate \<times> isodate \<times> string) submitted" where
  \<comment> \<open>the request is the key of the query that \<^verbatim>\<open>refetch\<close> runs\<close>
  "handleSearch fromDate toDate departmentFilter =
     (if fromDate > toDate then Toast ''From date cannot be after To date''
      else Request (formatDate fromDate, formatDate toDate,
                    if departmentFilter \<noteq> ''All'' then departmentFilter else []))"

definition isOT :: "present_row \<Rightarrow> bool" where
  \<comment> \<open>\<^verbatim>\<open>renderEmployee\<close> of the gate-out screen: \<^verbatim>\<open>item.hoursWorked >= 9\<close>\<close>
  "isOT item = (pr_hoursWorked item \<ge> 9)"

definition handleBulkGateOut :: "string list \<Rightarrow> string list option submitted" where
  \<comment> \<open>\<^verbatim>\<open>Array.from(selectedIds)\<close> lists the set in the order of first insertion\<close>
  "handleBulkGateOut selectedIds =
     (if length (rev (remdups (rev selectedIds))) = 0
      then Toast ''Please select employees to Gate Out''
      else Request (Some (rev (remdups (rev selectedIds)))))"

subsection \<open>Reading a reply\<close>

definition res_ok :: "nat \<Rightarrow> bool" where
  \<comment> \<open>\<^verbatim>\<open>Response.ok\<close> of the Fetch API: a status in the range 200 to 299\<close>
  "res_ok status = (200 \<le> status \<and> status \<le> 299)"

text \<open>
  What every reply of the gate-entry route looks like, relative to the tables \<open>t\<close> before
  the call and \<open>t'\<close> after it; \<open>body_shape\<close> is the same for a body of the route that may
  still throw.
\<close>

definition reply_shape :: "tables \<Rightarrow> entry_res \<Rightarrow> tables \<Rightarrow> bool" where
  "reply_shape t r t' =
     ((res_ok (res_status r) \<longleftrightarrow> res_success r = Some True)
      \<and> (res_ok (res_status r) \<longleftrightarrow>
           res_action r = Some ''gate_in'' \<or> res_action r = Some ''gate_out'')
      \<and> (\<not> res_ok (res_status r) \<longrightarrow> t' = t)
      \<and> (res_action r = Some ''none'' \<longrightarrow>
           res_status r = 400 \<and> res_message r = ''Card already scanned'')
      \<and> (res_isWeekOff r = Some True \<longrightarrow> res_status r = 409)
      \<and> res_status r \<in> {200, 400, 403, 404, 409, 500})"

definition outcome :: "entry_res \<times> db \<Rightarrow> entry_res \<times> tables" where
  \<comment> \<open>the reply of a call of the route and the tables it leaves\<close>
  "outcome run = (fst run, tabs (snd run))"

definition body_shape :: "tables \<Rightarrow> entry_res option \<times> db \<Rightarrow> bool" where
  "body_shape t res =
     (case res of
        (None, d') \<Rightarrow> tabs d' = t
      | (Some r, d') \<Rightarrow> reply_shape t r (tabs d'))"

subsection \<open>The calculator and the classification in the words of the specification\<close>

text \<open>
  The specification describes the hours and overtime calculator as two pure functions and
  the report as a classification of every pair of an employee and a date. The routes
  have no such functions; the definitions below follow the words of the specification and
  are compared with the routes in the theorems.
\<close>

definition spec_elapsedHours :: "millis \<Rightarrow> millis \<Rightarrow> rat" where
  \<comment> \<open>"(end - start) in hours, clamped to a minimum of 0"\<close>
  "spec_elapsedHours start end = max 0 (of_int (end - start) / 3600000)"

definition spec_isOvertime :: "rat \<Rightarrow> bool" where
  \<comment> \<open>"isOvertime(elapsedHours) = elapsedHours >= 9.0"\<close>
  "spec_isOvertime e = (e \<ge> 9)"

datatype day_status = PRESENT | WEEK_OFF | ABSENT

definition weekDays :: "string list" where
  \<comment> \<open>the seven names, as \<^verbatim>\<open>seed.ts\<close> lists them\<close>
  "weekDays = [''Sunday'', ''Monday'', ''Tuesday'', ''Wednesday'', ''Thursday'', ''Friday'',
               ''Saturday'']"

definition weekday_of_date :: "isodate \<Rightarrow> string" where
  \<comment> \<open>the weekday of a calendar date; day 0, 1970-01-01, was a Thursday\<close>
  "weekday_of_date date = weekDays ! nat ((date + 4) mod 7)"

definition is_rest_day :: "roster option \<Rightarrow> isodate \<Rightarrow> bool" where
  \<comment> \<open>"comparing the roster's rest-day name (case-insensitive) against the weekday
      name"; an employee without a roster has no rest day\<close>
  "is_rest_day ros date =
     (case ros of
        None \<Rightarrow> False
      | Some r \<Rightarrow> toLowerCase (ros_weekOff r) = toLowerCase (weekday_of_date date))"

definition status_code :: "day_status \<Rightarrow> string" where
  "status_code s = (case s of PRESENT \<Rightarrow> ''P'' | WEEK_OFF \<Rightarrow> ''WO'' | ABSENT \<Rightarrow> ''A'')"

definition spec_classify :: "tables \<Rightarrow> employee \<Rightarrow> isodate \<Rightarrow> day_status" where
  \<comment> \<open>"PRESENT if a session exists for that date; otherwise WEEK_OFF if it is the rest
      day; otherwise ABSENT"\<close>
  "spec_classify t emp date =
     (if \<exists>a \<in> set (attendances t). att_employeeId a = emp_id emp \<and> att_date a = date
      then PRESENT
      else if is_rest_day (find (\<lambda>r. ros_employeeId r = emp_id emp) (rosters t)) date
      then WEEK_OFF
      else ABSENT)"

definition selected_employees :: "string option \<Rightarrow> tables \<Rightarrow> employee list" where
  \<comment> \<open>"all active employees (optionally filtered by department)"; an empty filter
      selects every department\<close>
  "selected_employees department t =
     filter (\<lambda>e. emp_isActive e
                 \<and> (case department of
                        None \<Rightarrow> True
                      | Some dep \<Rightarrow> dep = [] \<or> emp_department e = dep))
       (employees t)"

text \<open>What the report route does with a classified pair: a presence row and an absence
  row are pushed, a rest day without an entry pushes nothing, and with
  \<^verbatim>\<open>onlyAbsent === "true"\<close> only absence rows are pushed. \<open>row_key\<close> reads the employee, the
  date and the status code off a row.\<close>

definition row_emitted :: "string option \<Rightarrow> day_status \<Rightarrow> bool" where
  "row_emitted onlyAbsent s =
     (if onlyAbsent = Some ''true'' then s = ABSENT else s \<noteq> WEEK_OFF)"

definition row_key :: "report_row \<Rightarrow> string \<times> isodate \<times> string" where
  "row_key r = (rr_employeeIdCode r, rr_date r, rr_status r)"

subsection \<open>Example data\<close>

text \<open>
  The first two employees of \<^verbatim>\<open>seed.ts\<close> with their rosters (shift \<^verbatim>\<open>shifts[i % 4]\<close>, rest
  day \<^verbatim>\<open>weekDays[i % 7]\<close>), a host whose zone is UTC, and a rendering of decimals that
  rounds the exact value half up (\<^verbatim>\<open>toFixed\<close> renders the double; the two agree on the
  values of the examples). Day 0 is Thursday 1970-01-01, so day 3 is a Sunday,
  day 4 a Monday and day 6 a Wednesday.
\<close>

definition utc_weekdayName :: "millis \<Rightarrow> string" where
  "utc_weekdayName ms = weekDays ! nat ((ms div 86400000 + 4) mod 7)"

definition utc_setNextDate :: "millis \<Rightarrow> millis" where
  "utc_setNextDate d = d + 86400000"

text \<open>A host five hours west of UTC, with no daylight-saving change: at midnight UTC of a
  date its calendar still shows the day before.\<close>

definition west_weekdayName :: "millis \<Rightarrow> string" where
  "west_weekdayName ms = weekDays ! nat (((ms - 18000000) div 86400000 + 4) mod 7)"

fun zero_pad :: "nat \<Rightarrow> string \<Rightarrow> string" where
  "zero_pad n s = (if length s < n then replicate (n - length s) (CHR ''0'') @ s else s)"

definition exact_toFixed :: "nat \<Rightarrow> rat \<Rightarrow> string" where
  \<comment> \<open>the sign of a negative number, then its absolute value rounded half up\<close>
  "exact_toFixed digits x =
     (let n = nat \<lfloor>\<bar>x\<bar> * 10 ^ digits + 1 / 2\<rfloor>
      in (if x < 0 then ''-'' else [])
         @ showNumber (n div 10 ^ digits)
         @ (if digits = 0 then [] else ''.'' @ zero_pad digits (showNumber (n mod 10 ^ digits))))"

definition rahul :: employee where
  "rahul =
     \<lparr>emp_id = ''e1'', emp_name = ''Rahul Kumar'', emp_slpid = ''SLP001'',
      emp_employeeId = ''EMP001'', emp_gender = ''Male'', emp_department = ''Inbound'',
      emp_designation = ''Associate'', emp_dateOfJoining = ''2023-01-15'',
      emp_isActive = True\<rparr>"

definition priya :: employee where
  "priya =
     \<lparr>emp_id = ''e2'', emp_name = ''Priya Sharma'', emp_slpid = ''SLP002'',
      emp_employeeId = ''EMP002'', emp_gender = ''Female'', emp_department = ''Outbound'',
      emp_designation = ''Associate'', emp_dateOfJoining = ''2023-02-20'',
      emp_isActive = True\<rparr>"

definition seed_tables :: tables where
  "seed_tables =
     \<lparr>employees = [rahul, priya],
      rosters =
        [\<lparr>ros_id = ''r1'', ros_employeeId = ''e1'', ros_shiftName = ''Morning'',
          ros_weekOff = ''Sunday''\<rparr>,
         \<lparr>ros_id = ''r2'', ros_employeeId = ''e2'', ros_shiftName = ''Evening'',
          ros_weekOff = ''Monday''\<rparr>],
      attendances = []\<rparr>"

definition seed_db :: db where
  "seed_db = \<lparr>tabs = seed_tables, calls = [], failAfter = None\<rparr>"

text \<open>The seeded tables after Rahul has been marked inactive.\<close>

definition rahul_left :: db where
  "rahul_left =
     \<lparr>tabs = seed_tables\<lparr>employees := [rahul\<lparr>emp_isActive := False\<rparr>, priya]\<rparr>,
      calls = [], failAfter = None\<rparr>"

text \<open>Rahul's entry of Wednesday, day 6, at 09:00 UTC, as the gate-in inserts it, and the
  same entry closed at 11:00.\<close>

definition rahul_in :: attendance where
  "rahul_in =
     \<lparr>att_id = ''a1'', att_employeeId = ''e1'', att_slpid = ''SLP001'',
      att_shiftName = ''Morning'', att_department = ''Inbound'', att_isWeekOffEntry = False,
      att_isOvertime = False, att_date = 6, att_gateInTime = 550800000,
      att_gateOutTime = None\<rparr>"

definition rahul_out :: attendance where
  "rahul_out = rahul_in\<lparr>att_gateOutTime := Some 558000000\<rparr>"

definition priya_in :: attendance where
  "priya_in =
     \<lparr>att_id = ''a2'', att_employeeId = ''e2'', att_slpid = ''SLP002'',
      att_shiftName = ''Evening'', att_department = ''Outbound'', att_isWeekOffEntry = False,
      att_isOvertime = False, att_date = 6, att_gateInTime = 554400000,
      att_gateOutTime = None\<rparr>"

definition with_attendance :: "attendance list \<Rightarrow> db" where
  "with_attendance rows = seed_db\<lparr>tabs := seed_tables\<lparr>attendances := rows\<rparr>\<rparr>"

definition after_gate_in :: db where
  \<comment> \<open>the seeded tables after Rahul's badge, typed in lower case, was read at 09:00\<close>
  "after_gate_in =
     snd (gate_entry utc_weekdayName exact_toFixed ''a1'' 550800000
            (mutate ''slp001'' False) seed_db)"

subsection \<open>The invariant of the attendance table\<close>

definition one_open :: "tables \<Rightarrow> bool" where
  \<comment> \<open>no employee has two rows with a null gate-out time\<close>
  "one_open t = (\<forall>eid. length (open_entries eid t) \<le> 1)"

section \<open>Properties\<close>

subsection \<open>Stepping through a route\<close>

lemma snd_try_catch: "snd (try_catch body caught d) = snd (body d)"
  by (simp add: try_catch_def split: prod.splits option.splits)

lemma snd_respond: "snd (respond r d) = d"
  by (simp add: respond_def)

text \<open>With storage that never fails a call is its query and the rest of the body.\<close>

lemma db_select_reliable:
  "failAfter d = None \<Longrightarrow> db_select c q k d = k (q (tabs d)) (d\<lparr>calls := calls d @ [c]\<rparr>)"
  by (simp add: db_select_def)

lemma db_write_reliable:
  "failAfter d = None \<Longrightarrow>
   db_write c w k d = k (d\<lparr>calls := calls d @ [c], tabs := w (tabs d)\<rparr>)"
  by (simp add: db_write_def)

text \<open>Whatever the fault schedule, a property of the tables that every write of a body
  keeps holds when the body is left.\<close>

lemma db_select_tabs:
  assumes "I (tabs d)"
    and "\<And>d'. tabs d' = tabs d \<Longrightarrow> I (tabs (snd (k (q (tabs d)) d')))"
  shows "I (tabs (snd (db_select c q k d)))"
  using assms by (simp add: db_select_def Let_def split: option.splits nat.splits)

lemma db_write_tabs:
  assumes "I (tabs d)"
    and "\<And>d'. tabs d' = w (tabs d) \<Longrightarrow> I (tabs (snd (k d')))"
  shows "I (tabs (snd (db_write c w k d)))"
  using assms by (simp add: db_write_def Let_def split: option.splits nat.splits)

lemma db_bind_tabs:
  assumes "I (tabs (snd (m d)))"
    and "\<And>a d'. m d = (Some a, d') \<Longrightarrow> I (tabs (snd (k a d')))"
  shows "I (tabs (snd (db_bind m k d)))"
proof (cases "m d")
  case (Pair r d')
  with assms show ?thesis
    by (cases r) (simp_all add: db_bind_def)
qed

lemma find_None_filter: "find P xs = None \<Longrightarrow> filter P xs = []"
  by (induction xs) (auto split: if_splits)

lemma filter_Cons_find: "filter P xs = x # ys \<Longrightarrow> find P xs = Some x"
  by (induction xs) (auto split: if_splits)

lemma filter_Nil_find: "filter P xs = [] \<Longrightarrow> find P xs = None"
  by (induction xs) (auto split: if_splits)

lemmas example_defs = with_attendance_def seed_db_def seed_tables_def rahul_def priya_def
  rahul_in_def rahul_out_def priya_in_def

subsection \<open>At most one open entry per employee\<close>

lemma filter_map_le:
  assumes "\<And>x. P (f x) \<Longrightarrow> P x"
  shows "length (filter P (map f xs)) \<le> length (filter P xs)"
  using assms by (induction xs) auto

lemma open_entries_set_gate_out:
  "length (open_entries eid (set_gate_out aid now ot t)) \<le> length (open_entries eid t)"
proof -
  let ?f = "\<lambda>a. if att_id a = aid
                then a\<lparr>att_gateOutTime := Some now, att_isOvertime := ot\<rparr> else a"
  let ?P = "\<lambda>a. att_employeeId a = eid \<and> att_gateOutTime a = None"
  have "length (filter ?P (map ?f (attendances t))) \<le> length (filter ?P (attendances t))"
    by (rule filter_map_le) (simp split: if_splits)
  then show ?thesis
    by (simp add: open_entries_def set_gate_out_def)
qed

lemma one_open_set_gate_out: "one_open t \<Longrightarrow> one_open (set_gate_out aid now ot t)"
  unfolding one_open_def using open_entries_set_gate_out order_trans by blast

lemma one_open_insert:
  assumes "one_open t" and "open_entries (att_employeeId row) t = []"
  shows "one_open (insert_attendance row t)"
  unfolding one_open_def
proof
  fix eid
  show "length (open_entries eid (insert_attendance row t)) \<le> 1"
  proof (cases "eid = att_employeeId row")
    case True
    with assms(2) show ?thesis
      by (simp add: open_entries_def insert_attendance_def)
  next
    case False
    then have "open_entries eid (insert_attendance row t) = open_entries eid t"
      by (auto simp add: open_entries_def insert_attendance_def)
    with assms(1) show ?thesis by (simp add: one_open_def)
  qed
qed

lemmas select_one_open = db_select_tabs [where I = one_open]
  and write_one_open = db_write_tabs [where I = one_open]
  and bind_one_open = db_bind_tabs [where I = one_open]

lemma entry_active_one_open:
  assumes "one_open (tabs d)"
  shows "one_open (tabs (snd (entry_active toFixed now emp active d)))"
proof (cases "hoursElapsed now (att_gateInTime active) < 1")
  case True
  with assms show ?thesis
    by (simp add: entry_active_def Let_def snd_respond)
next
  case False
  have "one_open (tabs (snd (db_write UpdateAttendance
          (set_gate_out (att_id active) now (hoursElapsed now (att_gateInTime active) \<ge> 9))
          (respond r) d)))" for r :: entry_res
    by (rule write_one_open [OF assms]) (simp add: snd_respond one_open_set_gate_out assms)
  with False show ?thesis
    by (simp add: entry_active_def Let_def)
qed

lemma entry_fresh_one_open:
  assumes "one_open (tabs d)" and "open_entries (emp_id emp) (tabs d) = []"
  shows "one_open (tabs (snd (entry_fresh weekdayName uuid now allow emp d)))"
  unfolding entry_fresh_def Let_def
proof (rule select_one_open [OF assms(1)], goal_cases)
  case (1 d')
  have inserted: "one_open (tabs (snd (db_write InsertAttendance (insert_attendance row)
                     (respond r) d')))"
    if "att_employeeId row = emp_id emp" for row and r :: entry_res
  proof (rule write_one_open, goal_cases)
    case 1
    show ?case using assms(1) \<open>tabs d' = tabs d\<close> by simp
  next
    case (2 d'')
    then show ?case
      using assms that \<open>tabs d' = tabs d\<close> by (simp add: snd_respond one_open_insert)
  qed
  show ?case
    using 1 assms(1) by (simp add: snd_respond inserted)
qed

lemma entry_employee_one_open:
  assumes "one_open (tabs d)"
  shows "one_open (tabs (snd ((case employee of
            None \<Rightarrow> respond (entry_json 404 ''Employee not found'')
          | Some emp \<Rightarrow>
              if \<not> emp_isActive emp
              then respond (entry_json 403 ''Employee is inactive'')
              else
                db_select SelectAttendance
                  (\<lambda>t. find (\<lambda>a. att_employeeId a = emp_id emp \<and> att_gateOutTime a = None)
                         (attendances t))
                  (\<lambda>activeEntry.
                    case activeEntry of
                      Some active \<Rightarrow> entry_active toFixed now emp active
                    | None \<Rightarrow> entry_fresh weekdayName uuid now allow emp)) d)))"
proof (cases employee)
  case None
  with assms show ?thesis by (simp add: snd_respond)
next
  case (Some emp)
  show ?thesis
  proof (cases "emp_isActive emp")
    case False
    with Some assms show ?thesis by (simp add: snd_respond)
  next
    case True
    have "one_open (tabs (snd (db_select SelectAttendance
              (\<lambda>t. find (\<lambda>a. att_employeeId a = emp_id emp \<and> att_gateOutTime a = None)
                     (attendances t))
              (\<lambda>activeEntry.
                case activeEntry of
                  Some active \<Rightarrow> entry_active toFixed now emp active
                | None \<Rightarrow> entry_fresh weekdayName uuid now allow emp) d)))"
    proof (rule select_one_open [OF assms])
      fix d' :: db
      assume same: "tabs d' = tabs d"
      show "one_open (tabs (snd ((case find (\<lambda>a. att_employeeId a = emp_id emp
                                            \<and> att_gateOutTime a = None)
                                         (attendances (tabs d)) of
                  Some active \<Rightarrow> entry_active toFixed now emp active
                | None \<Rightarrow> entry_fresh weekdayName uuid now allow emp) d')))"
      proof (cases "find (\<lambda>a. att_employeeId a = emp_id emp \<and> att_gateOutTime a = None)
                      (attendances (tabs d))")
        case None
        then have "open_entries (emp_id emp) (tabs d') = []"
          using same by (simp add: open_entries_def find_None_filter)
        with None assms same show ?thesis
          by (simp add: entry_fresh_one_open)
      next
        case (Some active)
        with assms same show ?thesis
          by (simp add: entry_active_one_open)
      qed
    qed
    with Some True show ?thesis by simp
  qed
qed

lemma gate_entry_one_open:
  assumes "one_open (tabs d)"
  shows "one_open (tabs (snd (gate_entry weekdayName toFixed uuid now body d)))"
proof (cases "body_slpid body")
  case None
  with assms show ?thesis
    by (simp add: gate_entry_def snd_try_catch snd_respond)
next
  case (Some slpid)
  show ?thesis
  proof (cases "slpid = []")
    case True
    with Some assms show ?thesis
      by (simp add: gate_entry_def snd_try_catch snd_respond)
  next
    case False
    with Some show ?thesis
      unfolding gate_entry_def snd_try_catch
      by (simp, intro select_one_open [OF assms] entry_employee_one_open)
        (simp add: assms)
  qed
qed

lemma bulk_loop_one_open:
  "one_open (tabs d) \<Longrightarrow> one_open (tabs (snd (bulk_loop now ids count' d)))"
proof (induction ids arbitrary: count' d)
  case Nil
  then show ?case by (simp add: snd_respond)
next
  case (Cons attId rest)
  show ?case
    unfolding bulk_loop.simps
  proof (rule select_one_open [OF Cons.prems])
    fix d' :: db
    assume same: "tabs d' = tabs d"
    then have d': "one_open (tabs d')" using Cons.prems by simp
    show "one_open (tabs (snd ((case find (\<lambda>a. att_id a = attId) (attendances (tabs d)) of
              Some a \<Rightarrow>
                let hoursWorked = hoursElapsed now (att_gateInTime a)
                in db_write UpdateAttendance (set_gate_out attId now (hoursWorked \<ge> 9))
                     (bulk_loop now rest (count' + 1))
            | None \<Rightarrow> bulk_loop now rest count') d')))"
    proof (cases "find (\<lambda>a. att_id a = attId) (attendances (tabs d))")
      case None
      with d' show ?thesis by (simp add: Cons.IH)
    next
      case (Some a)
      have "one_open (tabs (snd (db_write UpdateAttendance
              (set_gate_out attId now (hoursElapsed now (att_gateInTime a) \<ge> 9))
              (bulk_loop now rest (count' + 1)) d')))"
        by (rule write_one_open [OF d']) (simp add: Cons.IH one_open_set_gate_out d')
      with Some show ?thesis by simp
    qed
  qed
qed

lemma bulk_out_one_open:
  assumes "one_open (tabs d)"
  shows "one_open (tabs (snd (bulk_out now attendanceIds d)))"
proof (cases attendanceIds)
  case None
  with assms show ?thesis
    by (simp add: bulk_out_def snd_try_catch snd_respond)
next
  case (Some ids)
  show ?thesis
  proof (cases "ids = []")
    case True
    with Some assms show ?thesis
      by (simp add: bulk_out_def snd_try_catch snd_respond)
  next
    case False
    have "one_open (tabs (snd (db_bind (bulk_loop now ids 0) (\<lambda>c. respond (r c)) d)))"
      for r :: "nat \<Rightarrow> bulk_res"
    proof (rule bind_one_open)
      show "one_open (tabs (snd (bulk_loop now ids 0 d)))"
        using assms by (rule bulk_loop_one_open)
      fix a d'
      assume "bulk_loop now ids 0 d = (Some a, d')"
      then have "d' = snd (bulk_loop now ids 0 d)" by simp
      then show "one_open (tabs (snd (respond (r a) d')))"
        using assms by (simp add: snd_respond bulk_loop_one_open)
    qed
    with Some False show ?thesis
      by (simp add: bulk_out_def snd_try_catch)
  qed
qed

lemma delete_rosters_one_open:
  assumes "one_open (tabs d)"
  shows "one_open (tabs (snd (delete_rosters d)))"
proof -
  have empty: "one_open (t\<lparr>attendances := []\<rparr>)" for t
    by (simp add: one_open_def open_entries_def)
  have keep: "one_open t \<Longrightarrow> one_open (t\<lparr>rosters := rs\<rparr>)"
    "one_open t \<Longrightarrow> one_open (t\<lparr>employees := es\<rparr>)" for t rs es
    by (simp_all add: one_open_def open_entries_def)
  show ?thesis
    unfolding delete_rosters_def snd_try_catch
    by (intro write_one_open assms) (simp_all add: snd_respond empty keep)
qed

lemma serial_one_open: "serial d \<Longrightarrow> one_open (tabs d)"
proof (induction rule: serial.induct)
  case start
  show ?case by (simp add: empty_db_def one_open_def open_entries_def)
next
  case (maintain d es rs fa)
  then show ?case by (simp add: one_open_def open_entries_def)
qed (simp_all add: gate_entry_one_open bulk_out_one_open delete_rosters_one_open)

text \<open>The state after Rahul's gate-in on the seeded tables.\<close>

lemma after_gate_in_eq:
  "after_gate_in =
     (with_attendance [rahul_in])\<lparr>calls :=
        [SelectEmployees, SelectAttendance, SelectRosters, InsertAttendance]\<rparr>"
proof -
  have up: "toUpperCase ''slp001'' = ''SLP001''" by code_simp
  have day: "toLowerCase (utc_weekdayName 550800000) = ''wednesday''" by code_simp
  have sun: "toLowerCase ''Sunday'' = ''sunday''" by code_simp
  show ?thesis
    by (simp add: after_gate_in_def gate_entry_def try_catch_def entry_fresh_def
        db_select_reliable db_write_reliable respond_def mutate_def up day sun
        insert_attendance_def today_of_def entry_json_def example_defs)
qed

lemma serial_after_gate_in: "serial after_gate_in"
proof -
  have "serial seed_db"
    using serial.maintain [OF serial.start,
        where es = "[rahul, priya]" and rs = "rosters seed_tables" and fa = None]
    by (simp add: empty_db_def seed_db_def seed_tables_def)
  then show ?thesis
    unfolding after_gate_in_def by (rule serial.entry)
qed

lemma after_gate_in_one_open:
  "length (open_entries ''e1'' (tabs after_gate_in)) = 1 \<and> one_open (tabs after_gate_in)"
  using serial_one_open [OF serial_after_gate_in]
  by (simp add: after_gate_in_eq open_entries_def example_defs)

subsection \<open>Two scans of one badge at once\<close>

text \<open>The cut of the route is the route: its reads and then its write, with nothing in
  between, are \<open>gate_entry\<close>, whatever the fault schedule.\<close>

lemma run_alone_Finished:
  "run_alone (respond (Finished r)) d
     = try_catch (respond r) (entry_json 500 ''Failed to record entry'') d"
  by (simp add: run_alone_def respond_def entry_write_def)

lemma run_alone_Write:
  "run_alone (respond (Write c w r)) d
     = try_catch (db_write c w (respond r)) (entry_json 500 ''Failed to record entry'') d"
  by (simp add: run_alone_def respond_def entry_write_def)

lemma run_alone_select:
  assumes "\<And>x d'. run_alone (k' x) d'
             = try_catch (k x) (entry_json 500 ''Failed to record entry'') d'"
  shows "run_alone (db_select c q k') d
           = try_catch (db_select c q k) (entry_json 500 ''Failed to record entry'') d"
proof (cases "failAfter d")
  case None
  then show ?thesis
    using assms [of "q (tabs d)" "d\<lparr>calls := calls d @ [c]\<rparr>"]
    by (simp add: run_alone_def try_catch_def db_select_def)
next
  case (Some n)
  show ?thesis
  proof (cases n)
    case 0
    with Some show ?thesis
      by (simp add: run_alone_def try_catch_def db_select_def entry_write_def)
  next
    case (Suc m)
    with Some show ?thesis
      using assms [of "q (tabs d)" "d\<lparr>calls := calls d @ [c], failAfter := Some m\<rparr>"]
      by (simp add: run_alone_def try_catch_def db_select_def)
  qed
qed

lemma run_alone_active:
  "run_alone (respond (active_decision toFixed now emp active)) d
     = try_catch (entry_active toFixed now emp active)
         (entry_json 500 ''Failed to record entry'') d"
  by (simp add: active_decision_def entry_active_def Let_def run_alone_Finished
      run_alone_Write)

lemma run_alone_fresh:
  "run_alone (fresh_reads weekdayName uuid now allow emp) d
     = try_catch (entry_fresh weekdayName uuid now allow emp)
         (entry_json 500 ''Failed to record entry'') d"
  unfolding fresh_reads_def entry_fresh_def
  by (rule run_alone_select) (simp add: Let_def run_alone_Finished run_alone_Write)

lemma gate_entry_run_alone:
  "gate_entry weekdayName toFixed uuid now body d
     = run_alone (entry_reads weekdayName toFixed uuid now body) d"
proof (cases "body_slpid body")
  case None
  then show ?thesis
    by (simp add: gate_entry_def entry_reads_def run_alone_Finished)
next
  case (Some slpid)
  show ?thesis
  proof (cases "slpid = []")
    case True
    with Some show ?thesis
      by (simp add: gate_entry_def entry_reads_def run_alone_Finished)
  next
    case False
    have "run_alone (db_select SelectEmployees q
            (\<lambda>employee.
                case employee of
                  None \<Rightarrow> respond (Finished (entry_json 404 ''Employee not found''))
                | Some emp \<Rightarrow>
                    if \<not> emp_isActive emp
                    then respond (Finished (entry_json 403 ''Employee is inactive''))
                    else
                      db_select SelectAttendance
                        (\<lambda>t. find (\<lambda>a. att_employeeId a = emp_id emp
                                        \<and> att_gateOutTime a = None)
                               (attendances t))
                        (\<lambda>activeEntry.
                          case activeEntry of
                            Some active \<Rightarrow> respond (active_decision toFixed now emp active)
                          | None \<Rightarrow>
                              fresh_reads weekdayName uuid now
                                (body_allowWeekOff body) emp))) d
          = try_catch (db_select SelectEmployees q
            (\<lambda>employee.
                case employee of
                  None \<Rightarrow> respond (entry_json 404 ''Employee not found'')
                | Some emp \<Rightarrow>
                    if \<not> emp_isActive emp
                    then respond (entry_json 403 ''Employee is inactive'')
                    else
                      db_select SelectAttendance
                        (\<lambda>t. find (\<lambda>a. att_employeeId a = emp_id emp
                                        \<and> att_gateOutTime a = None)
                               (attendances t))
                        (\<lambda>activeEntry.
                          case activeEntry of
                            Some active \<Rightarrow> entry_active toFixed now emp active
                          | None \<Rightarrow>
                              entry_fresh weekdayName uuid now
                                (body_allowWeekOff body) emp)))
              (entry_json 500 ''Failed to record entry'') d"
      for q :: "tables \<Rightarrow> employee option"
    proof (rule run_alone_select, goal_cases)
      case (1 employee d')
      show ?case
      proof (cases employee)
        case None
        then show ?thesis by (simp add: run_alone_Finished)
      next
        case (Some emp)
        show ?thesis
        proof (cases "emp_isActive emp")
          case False
          with Some show ?thesis by (simp add: run_alone_Finished)
        next
          case True
          have "run_alone (db_select SelectAttendance q'
                  (\<lambda>activeEntry.
                    case activeEntry of
                      Some active \<Rightarrow> respond (active_decision toFixed now emp active)
                    | None \<Rightarrow>
                        fresh_reads weekdayName uuid now (body_allowWeekOff body) emp)) d'
                = try_catch (db_select SelectAttendance q'
                  (\<lambda>activeEntry.
                    case activeEntry of
                      Some active \<Rightarrow> entry_active toFixed now emp active
                    | None \<Rightarrow>
                        entry_fresh weekdayName uuid now (body_allowWeekOff body) emp))
                    (entry_json 500 ''Failed to record entry'') d'"
            for q' :: "tables \<Rightarrow> attendance option"
            by (rule run_alone_select)
              (simp add: run_alone_active run_alone_fresh split: option.splits)
          with Some True show ?thesis by simp
        qed
      qed
    qed
    with Some False show ?thesis
      by (simp add: gate_entry_def entry_reads_def)
  qed
qed

text \<open>
  C1. The invariant holds of requests that run one after the other (\<open>serial_one_open\<close>),
  and it does not hold of the server. Two scans of badge SLP001 on the seeded tables,
  the second read before the first has written: each finds no open entry of Rahul, each
  is answered 200 with action gate_in, and the attendance table then holds two entries
  of Rahul with a null gate-out time.
\<close>

theorem overlapping_scans_open_two_entries:
  "(let (r1, r2, d) =
          interleaved
            (entry_reads utc_weekdayName exact_toFixed ''a1'' 550800000
               (mutate ''SLP001'' False))
            (entry_reads utc_weekdayName exact_toFixed ''a2'' 550800500
               (mutate ''slp001'' False))
            seed_db
    in res_status r1 = 200 \<and> res_action r1 = Some ''gate_in''
       \<and> res_status r2 = 200 \<and> res_action r2 = Some ''gate_in''
       \<and> map att_id (open_entries ''e1'' (tabs d)) = [''a1'', ''a2'']
       \<and> length (open_entries ''e1'' (tabs d)) = 2
       \<and> \<not> one_open (tabs d))"
proof -
  have up: "toUpperCase ''slp001'' = ''SLP001''" "toUpperCase ''SLP001'' = ''SLP001''"
    by code_simp+
  have day: "toLowerCase (utc_weekdayName 550800000) = ''wednesday''"
    "toLowerCase (utc_weekdayName 550800500) = ''wednesday''" by code_simp+
  have sun: "toLowerCase ''Sunday'' = ''sunday''" by code_simp
  have two: "\<not> one_open t" if "length (open_entries ''e1'' t) = 2" for t
    using that by (auto simp add: one_open_def intro!: exI [of _ "''e1''"])
  show ?thesis
    by (simp add: interleaved_def entry_reads_def fresh_reads_def entry_write_def
        try_catch_def db_select_reliable db_write_reliable respond_def mutate_def up day sun
        insert_attendance_def today_of_def entry_json_def open_entries_def two
        example_defs)
qed

subsection \<open>A badge read at the gate\<close>

text \<open>With storage that answers, the route for an active employee is the branch for
  the first open entry, or the branch for a fresh scan.\<close>

lemma gate_entry_active:
  assumes "failAfter d = None" and "slpid \<noteq> []"
    and "find (\<lambda>e. emp_slpid e = toUpperCase slpid) (employees (tabs d)) = Some emp"
    and "emp_isActive emp"
    and "open_entries (emp_id emp) (tabs d) = active # others"
  shows "gate_entry weekdayName toFixed uuid now \<lparr>body_slpid = Some slpid, body_allowWeekOff = allow\<rparr> d =
    try_catch (entry_active toFixed now emp active) (entry_json 500 ''Failed to record entry'')
      (d\<lparr>calls := calls d @ [SelectEmployees, SelectAttendance]\<rparr>)"
proof -
  from assms(5) have "find (\<lambda>a. att_employeeId a = emp_id emp \<and> att_gateOutTime a = None)
      (attendances (tabs d)) = Some active"
    unfolding open_entries_def by (rule filter_Cons_find)
  with assms(1-4) show ?thesis
    by (simp add: gate_entry_def try_catch_def db_select_reliable)
qed

lemma gate_entry_fresh:
  assumes "failAfter d = None" and "slpid \<noteq> []"
    and "find (\<lambda>e. emp_slpid e = toUpperCase slpid) (employees (tabs d)) = Some emp"
    and "emp_isActive emp"
    and "open_entries (emp_id emp) (tabs d) = []"
  shows "gate_entry weekdayName toFixed uuid now \<lparr>body_slpid = Some slpid, body_allowWeekOff = allow\<rparr> d =
    try_catch (entry_fresh weekdayName uuid now allow emp) (entry_json 500 ''Failed to record entry'')
      (d\<lparr>calls := calls d @ [SelectEmployees, SelectAttendance]\<rparr>)"
proof -
  from assms(5) have "find (\<lambda>a. att_employeeId a = emp_id emp \<and> att_gateOutTime a = None)
      (attendances (tabs d)) = None"
    unfolding open_entries_def by (rule filter_Nil_find)
  with assms(1-4) show ?thesis
    by (simp add: gate_entry_def try_catch_def db_select_reliable)
qed

lemma gate_entry_duplicate:
  assumes "failAfter d = None" and "slpid \<noteq> []"
    and "find (\<lambda>e. emp_slpid e = toUpperCase slpid) (employees (tabs d)) = Some emp"
    and "emp_isActive emp"
    and "open_entries (emp_id emp) (tabs d) = active # others"
    and "hoursElapsed now (att_gateInTime active) < 1"
  shows "gate_entry weekdayName toFixed uuid now
           \<lparr>body_slpid = Some slpid, body_allowWeekOff = allow\<rparr> d =
         (\<lparr>res_status = 400, res_success = None, res_action = Some ''none'',
           res_message = ''Card already scanned'',
           res_employeeName = Some (emp_name emp),
           res_hoursElapsed = Some (toFixed 2 (hoursElapsed now (att_gateInTime active))),
           res_hoursWorked = None, res_isWeekOff = None\<rparr>,
          d\<lparr>calls := calls d @ [SelectEmployees, SelectAttendance]\<rparr>)"
  using assms(6)
  by (simp add: gate_entry_active [OF assms(1-5)] try_catch_def entry_active_def Let_def
      respond_def entry_json_def)

text \<open>
  C2. A gate-entry call for an active employee whose open entry began at least one hour
  before \<open>now\<close> is a gate-out: the reply has status 200 and action \<^verbatim>\<open>gate_out\<close> and carries
  the employee's name and the elapsed hours (rendered by \<^verbatim>\<open>toFixed(1)\<close>); the update is
  written, and in the table the gate-out time of the entry is \<open>now\<close> and its overtime flag
  is \<open>elapsed \<ge> 9\<close>; nothing else changes. The open entry is the first one of the
  employee in table order, the only one when the requests before it have run one
  after the other.
\<close>

theorem gate_out_after_one_hour:
  assumes "failAfter d = None" and "slpid \<noteq> []"
    and "find (\<lambda>e. emp_slpid e = toUpperCase slpid) (employees (tabs d)) = Some emp"
    and "emp_isActive emp"
    and "open_entries (emp_id emp) (tabs d) = active # others"
    and "hoursElapsed now (att_gateInTime active) \<ge> 1"
  shows "gate_entry weekdayName toFixed uuid now
           \<lparr>body_slpid = Some slpid, body_allowWeekOff = allow\<rparr> d =
         (\<lparr>res_status = 200, res_success = Some True, res_action = Some ''gate_out'',
           res_message = ''Gate Out recorded - ''
              @ toFixed 1 (hoursElapsed now (att_gateInTime active)) @ '' hours worked'',
           res_employeeName = Some (emp_name emp), res_hoursElapsed = None,
           res_hoursWorked = Some (toFixed 1 (hoursElapsed now (att_gateInTime active))),
           res_isWeekOff = None\<rparr>,
          d\<lparr>calls := calls d @ [SelectEmployees, SelectAttendance, UpdateAttendance],
            tabs := (tabs d)\<lparr>attendances :=
              map (\<lambda>a. if att_id a = att_id active
                       then a\<lparr>att_gateOutTime := Some now,
                              att_isOvertime := (hoursElapsed now (att_gateInTime active) \<ge> 9)\<rparr>
                       else a)
                  (attendances (tabs d))\<rparr>\<rparr>)"
  using assms(1,6)
  by (simp add: gate_entry_active [OF assms(1-5)] try_catch_def entry_active_def Let_def
      db_write_reliable respond_def entry_json_def set_gate_out_def)

theorem gate_out_after_one_hour_witness:
  "failAfter (with_attendance [rahul_in]) = None
   \<and> open_entries (emp_id rahul) (tabs (with_attendance [rahul_in])) = [rahul_in]
   \<and> hoursElapsed 584100000 (att_gateInTime rahul_in) = 37 / 4
   \<and> gate_entry utc_weekdayName exact_toFixed ''u2'' 584100000
        \<lparr>body_slpid = Some ''slp001'', body_allowWeekOff = False\<rparr> (with_attendance [rahul_in]) =
      (\<lparr>res_status = 200, res_success = Some True, res_action = Some ''gate_out'',
        res_message = ''Gate Out recorded - 9.3 hours worked'',
        res_employeeName = Some ''Rahul Kumar'', res_hoursElapsed = None,
        res_hoursWorked = Some ''9.3'', res_isWeekOff = None\<rparr>,
       \<lparr>tabs = seed_tables\<lparr>attendances :=
                 [rahul_in\<lparr>att_gateOutTime := Some 584100000, att_isOvertime := True\<rparr>]\<rparr>,
        calls = [SelectEmployees, SelectAttendance, UpdateAttendance],
        failAfter = None\<rparr>)"
proof -
  have h1: "failAfter (with_attendance [rahul_in]) = None"
    by (simp add: example_defs)
  have h2: "''slp001'' \<noteq> []" by simp
  have up: "toUpperCase ''slp001'' = ''SLP001''" by code_simp
  have h3: "find (\<lambda>e. emp_slpid e = toUpperCase ''slp001'')
              (employees (tabs (with_attendance [rahul_in]))) = Some rahul"
    by (simp add: up example_defs)
  have h4: "emp_isActive rahul" by (simp add: rahul_def)
  have h5: "open_entries (emp_id rahul) (tabs (with_attendance [rahul_in])) = [rahul_in]"
    by (simp add: open_entries_def example_defs)
  have el: "hoursElapsed 584100000 (att_gateInTime rahul_in) = 37 / 4"
    by (simp add: hoursElapsed_def rahul_in_def)
  have h6: "hoursElapsed 584100000 (att_gateInTime rahul_in) \<ge> 1"
    by (simp add: el)
  have fx: "exact_toFixed 1 (37 / 4) = ''9.3''" "exact_toFixed (Suc 0) (37 / 4) = ''9.3''"
    by code_simp+
  have "gate_entry utc_weekdayName exact_toFixed ''u2'' 584100000
        \<lparr>body_slpid = Some ''slp001'', body_allowWeekOff = False\<rparr> (with_attendance [rahul_in]) =
      (\<lparr>res_status = 200, res_success = Some True, res_action = Some ''gate_out'',
        res_message = ''Gate Out recorded - 9.3 hours worked'',
        res_employeeName = Some ''Rahul Kumar'', res_hoursElapsed = None,
        res_hoursWorked = Some ''9.3'', res_isWeekOff = None\<rparr>,
       \<lparr>tabs = seed_tables\<lparr>attendances :=
                 [rahul_in\<lparr>att_gateOutTime := Some 584100000, att_isOvertime := True\<rparr>]\<rparr>,
        calls = [SelectEmployees, SelectAttendance, UpdateAttendance],
        failAfter = None\<rparr>)"
    unfolding gate_out_after_one_hour [OF h1 h2 h3 h4 h5 h6] el
    by (simp add: fx example_defs)
  with h1 h5 el show ?thesis by simp
qed

text \<open>
  C3. A gate-entry call for an active employee whose open entry began less than one hour
  before \<open>now\<close> is answered "Card already scanned" with action \<^verbatim>\<open>none\<close> and changes no
  table; so any number of scans of the badge, each less than one hour after the gate-in,
  are all answered that way and leave the tables as they were.
\<close>

theorem duplicate_scan_window:
  assumes "failAfter d = None" and "slpid \<noteq> []"
    and "find (\<lambda>e. emp_slpid e = toUpperCase slpid) (employees (tabs d)) = Some emp"
    and "emp_isActive emp"
    and "open_entries (emp_id emp) (tabs d) = active # others"
    and "\<forall>(uuid, now) \<in> set scans. hoursElapsed now (att_gateInTime active) < 1"
  shows "tabs (snd (scan_all weekdayName toFixed
                 \<lparr>body_slpid = Some slpid, body_allowWeekOff = allow\<rparr> scans d)) = tabs d
       \<and> fst (scan_all weekdayName toFixed
                 \<lparr>body_slpid = Some slpid, body_allowWeekOff = allow\<rparr> scans d) =
           map (\<lambda>(uuid, now).
                 \<lparr>res_status = 400, res_success = None, res_action = Some ''none'',
                  res_message = ''Card already scanned'',
                  res_employeeName = Some (emp_name emp),
                  res_hoursElapsed = Some (toFixed 2 (hoursElapsed now (att_gateInTime active))),
                  res_hoursWorked = None, res_isWeekOff = None\<rparr>) scans"
  using assms
proof (induction scans arbitrary: d)
  case Nil
  show ?case by simp
next
  case (Cons scan scans)
  let ?body = "\<lparr>body_slpid = Some slpid, body_allowWeekOff = allow\<rparr>"
  let ?reply = "\<lambda>(uuid :: string, now).
                 \<lparr>res_status = 400, res_success = None, res_action = Some ''none'',
                  res_message = ''Card already scanned'',
                  res_employeeName = Some (emp_name emp),
                  res_hoursElapsed = Some (toFixed 2 (hoursElapsed now (att_gateInTime active))),
                  res_hoursWorked = None, res_isWeekOff = None\<rparr>"
  obtain uuid now where scan: "scan = (uuid, now)" by (cases scan)
  let ?d1 = "d\<lparr>calls := calls d @ [SelectEmployees, SelectAttendance]\<rparr>"
  from Cons.prems(6) scan have "hoursElapsed now (att_gateInTime active) < 1" by simp
  note first = gate_entry_duplicate [OF Cons.prems(1-5) this]
  obtain rs d2 where run: "scan_all weekdayName toFixed ?body scans ?d1 = (rs, d2)"
    by (cases "scan_all weekdayName toFixed ?body scans ?d1")
  have "tabs (snd (scan_all weekdayName toFixed ?body scans ?d1)) = tabs ?d1
       \<and> fst (scan_all weekdayName toFixed ?body scans ?d1) = map ?reply scans"
    using Cons.prems by (intro Cons.IH) simp_all
  with run have rest: "tabs d2 = tabs d" "rs = map ?reply scans"
    by simp_all
  show ?case
    by (simp add: scan first run rest)
qed

theorem duplicate_scan_window_witness:
  "hoursElapsed 552600000 (att_gateInTime rahul_in) = 1 / 2
   \<and> hoursElapsed 554000000 (att_gateInTime rahul_in) = 8 / 9
   \<and> tabs (snd (scan_all utc_weekdayName exact_toFixed
               \<lparr>body_slpid = Some ''SLP001'', body_allowWeekOff = False\<rparr>
               [(''u2'', 552600000), (''u3'', 554000000)] (with_attendance [rahul_in])))
       = seed_tables\<lparr>attendances := [rahul_in]\<rparr>
   \<and> map (\<lambda>r. (res_status r, res_message r, res_hoursElapsed r))
         (fst (scan_all utc_weekdayName exact_toFixed
               \<lparr>body_slpid = Some ''SLP001'', body_allowWeekOff = False\<rparr>
               [(''u2'', 552600000), (''u3'', 554000000)] (with_attendance [rahul_in])))
       = [(400, ''Card already scanned'', Some ''0.50''),
          (400, ''Card already scanned'', Some ''0.89'')]"
proof -
  have h1: "failAfter (with_attendance [rahul_in]) = None"
    by (simp add: example_defs)
  have h2: "''SLP001'' \<noteq> []" by simp
  have up: "toUpperCase ''SLP001'' = ''SLP001''" by code_simp
  have h3: "find (\<lambda>e. emp_slpid e = toUpperCase ''SLP001'')
              (employees (tabs (with_attendance [rahul_in]))) = Some rahul"
    by (simp add: up example_defs)
  have h4: "emp_isActive rahul" by (simp add: rahul_def)
  have h5: "open_entries (emp_id rahul) (tabs (with_attendance [rahul_in])) = [rahul_in]"
    by (simp add: open_entries_def example_defs)
  have el: "hoursElapsed 552600000 (att_gateInTime rahul_in) = 1 / 2"
    "hoursElapsed 554000000 (att_gateInTime rahul_in) = 8 / 9"
    by (simp_all add: hoursElapsed_def rahul_in_def)
  have h6: "\<forall>(uuid, now) \<in> set [(''u2'' :: string, 552600000), (''u3'', 554000000)].
       hoursElapsed now (att_gateInTime rahul_in) < 1"
    by (simp add: el)
  have fx: "exact_toFixed 2 (1 / 2) = ''0.50''" "exact_toFixed 2 (8 / 9) = ''0.89''"
    by code_simp+
  note window = duplicate_scan_window [OF h1 h2 h3 h4 h5 h6,
      of utc_weekdayName exact_toFixed False]
  have tabs: "tabs (with_attendance [rahul_in]) = seed_tables\<lparr>attendances := [rahul_in]\<rparr>"
    by (simp add: with_attendance_def seed_db_def)
  from window el show ?thesis
    by (simp add: fx tabs rahul_def)
qed

text \<open>
  C4. A fresh scan (no open entry) on the rest day of the employee's roster without the
  override is answered "week off, confirmation required" (status 409) and creates no
  entry; the same badge sent again with the override, still on the rest day, is a gate-in
  that appends one entry whose week-off flag is set.
\<close>

theorem week_off_gate:
  assumes "failAfter d = None" and "slpid \<noteq> []"
    and "find (\<lambda>e. emp_slpid e = toUpperCase slpid) (employees (tabs d)) = Some emp"
    and "emp_isActive emp"
    and "open_entries (emp_id emp) (tabs d) = []"
    and "find (\<lambda>r. ros_employeeId r = emp_id emp) (rosters (tabs d)) = Some ros"
    and "toLowerCase (ros_weekOff ros) = toLowerCase (weekdayName now)"
    and "toLowerCase (ros_weekOff ros) = toLowerCase (weekdayName now')"
  shows "gate_entry weekdayName toFixed uuid now
           \<lparr>body_slpid = Some slpid, body_allowWeekOff = False\<rparr> d =
         (\<lparr>res_status = 409, res_success = None, res_action = None,
           res_message = ''Employee is on week off. Confirmation required.'',
           res_employeeName = Some (emp_name emp), res_hoursElapsed = None,
           res_hoursWorked = None, res_isWeekOff = Some True\<rparr>,
          d\<lparr>calls := calls d @ [SelectEmployees, SelectAttendance, SelectRosters]\<rparr>)
       \<and> gate_entry weekdayName toFixed uuid' now'
           \<lparr>body_slpid = Some slpid, body_allowWeekOff = True\<rparr>
           (d\<lparr>calls := calls d @ [SelectEmployees, SelectAttendance, SelectRosters]\<rparr>) =
         (\<lparr>res_status = 200, res_success = Some True, res_action = Some ''gate_in'',
           res_message = ''Gate In recorded successfully'',
           res_employeeName = Some (emp_name emp), res_hoursElapsed = None,
           res_hoursWorked = None, res_isWeekOff = None\<rparr>,
          d\<lparr>calls := calls d @ [SelectEmployees, SelectAttendance, SelectRosters,
                                 SelectEmployees, SelectAttendance, SelectRosters,
                                 InsertAttendance],
            tabs := (tabs d)\<lparr>attendances := attendances (tabs d) @
              [\<lparr>att_id = uuid', att_employeeId = emp_id emp, att_slpid = emp_slpid emp,
                att_shiftName = ros_shiftName ros, att_department = emp_department emp,
                att_isWeekOffEntry = True, att_isOvertime = False,
                att_date = today_of now', att_gateInTime = now',
                att_gateOutTime = None\<rparr>]\<rparr>\<rparr>)"
proof -
  let ?d1 = "d\<lparr>calls := calls d @ [SelectEmployees, SelectAttendance, SelectRosters]\<rparr>"
  have first: "gate_entry weekdayName toFixed uuid now
           \<lparr>body_slpid = Some slpid, body_allowWeekOff = False\<rparr> d =
         (\<lparr>res_status = 409, res_success = None, res_action = None,
           res_message = ''Employee is on week off. Confirmation required.'',
           res_employeeName = Some (emp_name emp), res_hoursElapsed = None,
           res_hoursWorked = None, res_isWeekOff = Some True\<rparr>, ?d1)"
    using assms(1,6,7)
    by (simp add: gate_entry_fresh [OF assms(1-5)] try_catch_def entry_fresh_def Let_def
        db_select_reliable respond_def entry_json_def)
  have second: "gate_entry weekdayName toFixed uuid' now'
           \<lparr>body_slpid = Some slpid, body_allowWeekOff = True\<rparr> ?d1 =
         (\<lparr>res_status = 200, res_success = Some True, res_action = Some ''gate_in'',
           res_message = ''Gate In recorded successfully'',
           res_employeeName = Some (emp_name emp), res_hoursElapsed = None,
           res_hoursWorked = None, res_isWeekOff = None\<rparr>,
          d\<lparr>calls := calls d @ [SelectEmployees, SelectAttendance, SelectRosters,
                                 SelectEmployees, SelectAttendance, SelectRosters,
                                 InsertAttendance],
            tabs := (tabs d)\<lparr>attendances := attendances (tabs d) @
              [\<lparr>att_id = uuid', att_employeeId = emp_id emp, att_slpid = emp_slpid emp,
                att_shiftName = ros_shiftName ros, att_department = emp_department emp,
                att_isWeekOffEntry = True, att_isOvertime = False,
                att_date = today_of now', att_gateInTime = now',
                att_gateOutTime = None\<rparr>]\<rparr>\<rparr>)"
    using assms(1-6,8)
    by (subst gate_entry_fresh [where emp = emp])
      (simp_all add: try_catch_def entry_fresh_def Let_def db_select_reliable db_write_reliable
        respond_def entry_json_def insert_attendance_def)
  from first second show ?thesis by (rule conjI)
qed

theorem week_off_gate_witness:
  "toLowerCase ''Monday'' = toLowerCase (utc_weekdayName 378000000)
   \<and> gate_entry utc_weekdayName exact_toFixed ''u1'' 378000000
        \<lparr>body_slpid = Some ''SLP002'', body_allowWeekOff = False\<rparr> seed_db =
      (\<lparr>res_status = 409, res_success = None, res_action = None,
        res_message = ''Employee is on week off. Confirmation required.'',
        res_employeeName = Some ''Priya Sharma'', res_hoursElapsed = None,
        res_hoursWorked = None, res_isWeekOff = Some True\<rparr>,
       seed_db\<lparr>calls := [SelectEmployees, SelectAttendance, SelectRosters]\<rparr>)
   \<and> attendances (tabs (snd (gate_entry utc_weekdayName exact_toFixed ''u2'' 378060000
        \<lparr>body_slpid = Some ''SLP002'', body_allowWeekOff = True\<rparr>
        (seed_db\<lparr>calls := [SelectEmployees, SelectAttendance, SelectRosters]\<rparr>)))) =
      [\<lparr>att_id = ''u2'', att_employeeId = ''e2'', att_slpid = ''SLP002'',
        att_shiftName = ''Evening'', att_department = ''Outbound'',
        att_isWeekOffEntry = True, att_isOvertime = False, att_date = 4,
        att_gateInTime = 378060000, att_gateOutTime = None\<rparr>]"
proof -
  let ?ros = "\<lparr>ros_id = ''r2'', ros_employeeId = ''e2'', ros_shiftName = ''Evening'',
               ros_weekOff = ''Monday''\<rparr>"
  have h1: "failAfter seed_db = None" by (simp add: seed_db_def)
  have h2: "''SLP002'' \<noteq> []" by simp
  have up: "toUpperCase ''SLP002'' = ''SLP002''" by code_simp
  have h3: "find (\<lambda>e. emp_slpid e = toUpperCase ''SLP002'') (employees (tabs seed_db))
            = Some priya"
    by (simp add: up example_defs)
  have h4: "emp_isActive priya" by (simp add: priya_def)
  have h5: "open_entries (emp_id priya) (tabs seed_db) = []"
    by (simp add: open_entries_def example_defs)
  have h6: "find (\<lambda>r. ros_employeeId r = emp_id priya) (rosters (tabs seed_db)) = Some ?ros"
    by (simp add: example_defs)
  have day: "toLowerCase ''Monday'' = toLowerCase (utc_weekdayName 378000000)"
    "toLowerCase ''Monday'' = toLowerCase (utc_weekdayName 378060000)"
    by code_simp+
  have h7: "toLowerCase (ros_weekOff ?ros) = toLowerCase (utc_weekdayName 378000000)"
    and h8: "toLowerCase (ros_weekOff ?ros) = toLowerCase (utc_weekdayName 378060000)"
    using day by simp_all
  note gate = week_off_gate [OF h1 h2 h3 h4 h5 h6 h7 h8,
      of exact_toFixed "''u1''" "''u2''"]
  have today: "today_of 378060000 = 4" by (simp add: today_of_def)
  from gate day(1) show ?thesis
    by (simp add: today example_defs)
qed

subsection \<open>Hours and overtime\<close>

lemma clamp_ge_iff: "(9 \<le> max 0 (x::rat)) = (9 \<le> x)"
  by auto

text \<open>
  Where the routes agree with the calculator of the specification. The hours of an open
  entry in the list of present employees are the elapsed hours clamped at 0, for all
  timestamps; the overtime mark of the gate-out screen, and the overtime flag that the
  gate-entry route and the bulk gate-out route store when they close an entry, are
  \<open>elapsed \<ge> 9\<close> of the clamped hours. An entry closed exactly 9 hours (32400000 ms)
  after its gate-in is flagged, one closed after 8.999 hours (32396400 ms) is not.
\<close>

lemma present_hours_clamped:
  "pr_hoursWorked (present_item now att emp) = spec_elapsedHours (att_gateInTime att) now
   \<and> 0 \<le> pr_hoursWorked (present_item now att emp)
   \<and> isOT (present_item now att emp)
       = spec_isOvertime (spec_elapsedHours (att_gateInTime att) now)"
  by (simp add: isOT_def present_item_def spec_elapsedHours_def hoursElapsed_def
      spec_isOvertime_def)

lemma overtime_flag_at_close:
  "failAfter d = None \<Longrightarrow> hoursElapsed now (att_gateInTime active) \<ge> 1 \<Longrightarrow>
     tabs (snd (entry_active toFixed now e active d))
       = set_gate_out (att_id active) now
           (spec_isOvertime (spec_elapsedHours (att_gateInTime active) now)) (tabs d)"
  "failAfter d = None \<Longrightarrow> find (\<lambda>a. att_id a = attId) (attendances (tabs d)) = Some active \<Longrightarrow>
     tabs (snd (bulk_loop now [attId] count' d))
       = set_gate_out attId now
           (spec_isOvertime (spec_elapsedHours (att_gateInTime active) now)) (tabs d)"
  by (simp_all add: entry_active_def Let_def db_select_reliable db_write_reliable respond_def
      spec_isOvertime_def spec_elapsedHours_def hoursElapsed_def clamp_ge_iff)

lemma overtime_boundary:
  "spec_isOvertime (spec_elapsedHours start (start + 32400000))"
  "\<not> spec_isOvertime (spec_elapsedHours start (start + 32396400))"
  by (simp_all add: spec_isOvertime_def spec_elapsedHours_def)

text \<open>
  C5. The elapsed hours are not clamped at 0 in the gate-entry route and in the report.
  Rahul's entry began at 09:00 (550800000 ms). A scan of his badge read by a clock that
  stands at 08:00 is answered "Card already scanned" with the elapsed hours \<^verbatim>\<open>toFixed(2)\<close>
  of \<open>-1\<close>; the same entry with a gate-out time of 08:00 has the total hours \<^verbatim>\<open>toFixed(2)\<close>
  of \<open>-1\<close> in its report row, the text \<^verbatim>\<open>-1.00\<close>. The calculator of the specification gives
  0 hours for both, and so does the list of present employees for the open entry.
\<close>

theorem elapsed_hours_not_clamped:
  "spec_elapsedHours 550800000 547200000 = 0
   \<and> pr_hoursWorked (present_item 547200000 rahul_in (Some rahul)) = 0
   \<and> fst (gate_entry weekdayName toFixed uuid 547200000 (mutate ''SLP001'' False)
             (with_attendance [rahul_in]))
       = \<lparr>res_status = 400, res_success = None, res_action = Some ''none'',
          res_message = ''Card already scanned'',
          res_employeeName = Some ''Rahul Kumar'',
          res_hoursElapsed = Some (toFixed 2 (- 1)),
          res_hoursWorked = None, res_isWeekOff = None\<rparr>
   \<and> rr_totalHours (present_record toFixed rahul None
                        (rahul_in\<lparr>att_gateOutTime := Some 547200000\<rparr>))
       = toFixed 2 (- 1)
   \<and> exact_toFixed 2 (- 1) = ''-1.00''"
proof -
  have up: "toUpperCase ''SLP001'' = ''SLP001''" by code_simp
  have el: "hoursElapsed 547200000 550800000 = - 1"
    by (simp add: hoursElapsed_def)
  have r: "exact_toFixed 2 (- 1) = ''-1.00''" by code_simp
  have dup: "gate_entry weekdayName toFixed uuid 547200000
           \<lparr>body_slpid = Some ''SLP001'', body_allowWeekOff = False\<rparr>
           (with_attendance [rahul_in]) =
         (\<lparr>res_status = 400, res_success = None, res_action = Some ''none'',
           res_message = ''Card already scanned'',
           res_employeeName = Some (emp_name rahul),
           res_hoursElapsed = Some (toFixed 2 (hoursElapsed 547200000 (att_gateInTime rahul_in))),
           res_hoursWorked = None, res_isWeekOff = None\<rparr>,
          (with_attendance [rahul_in])\<lparr>calls := calls (with_attendance [rahul_in])
             @ [SelectEmployees, SelectAttendance]\<rparr>)"
    by (rule gate_entry_duplicate [where others = "[]"])
      (simp_all add: up el open_entries_def example_defs)
  have rep: "rr_totalHours (present_record toFixed rahul None
                        (rahul_in\<lparr>att_gateOutTime := Some 547200000\<rparr>))
       = toFixed 2 (- 1)"
    by (simp add: present_record_def rahul_in_def)
  have reply: "fst (gate_entry weekdayName toFixed uuid 547200000 (mutate ''SLP001'' False)
             (with_attendance [rahul_in]))
       = \<lparr>res_status = 400, res_success = None, res_action = Some ''none'',
          res_message = ''Card already scanned'',
          res_employeeName = Some ''Rahul Kumar'',
          res_hoursElapsed = Some (toFixed 2 (- 1)),
          res_hoursWorked = None, res_isWeekOff = None\<rparr>"
    unfolding mutate_def dup by (simp add: el rahul_in_def rahul_def)
  have spec: "spec_elapsedHours 550800000 547200000 = 0"
    by (simp add: spec_elapsedHours_def)
  have present: "pr_hoursWorked (present_item 547200000 rahul_in (Some rahul)) = 0"
    by (simp add: present_item_def hoursElapsed_def rahul_in_def)
  from spec present reply rep r show ?thesis by blast
qed

subsection \<open>Bulk gate-out\<close>

text \<open>
  C6. The bulk gate-out route closes again an entry that is already closed, and counts
  an identifier once for every time it is listed. Rahul's entry, closed at 11:00 after
  two hours, is sent to the route at 20:00: its gate-out time becomes 20:00, its overtime
  flag becomes true and the count is 1. With the open entries of Rahul and Priya and the
  list \<^verbatim>\<open>[a1, a2, a1]\<close> the count is 3.
\<close>

theorem bulk_out_closes_again:
  "bulk_out 590400000 (Some [''a1'']) (with_attendance [rahul_out]) =
     (\<lparr>bulk_status = 200, bulk_success = Some True, bulk_count = Some 1,
       bulk_message = ''1 employees marked as Gate Out''\<rparr>,
      \<lparr>tabs = seed_tables\<lparr>attendances :=
                [rahul_in\<lparr>att_gateOutTime := Some 590400000, att_isOvertime := True\<rparr>]\<rparr>,
       calls = [SelectAttendance, UpdateAttendance], failAfter = None\<rparr>)
   \<and> bulk_count (fst (bulk_out 590400000 (Some [''a1'', ''a2'', ''a1''])
                        (with_attendance [rahul_in, priya_in]))) = Some 3"
proof -
  have n1: "showNumber 1 = ''1''" "showNumber (Suc 0) = ''1''" by code_simp+
  show ?thesis
    by (simp add: bulk_out_def try_catch_def db_bind_def db_select_reliable db_write_reliable
        respond_def example_defs set_gate_out_def hoursElapsed_def n1)
qed

subsection \<open>The attendance report\<close>

lemma find_filter_same:
  assumes "\<And>x. P x \<Longrightarrow> Q x"
  shows "find P (filter Q xs) = find P xs"
  using assms by (induction xs) auto

lemma concat_if_filter:
  "concat (map (\<lambda>x. if P x then [g x] else []) xs) = map g (filter P xs)"
  by (induction xs) simp_all

lemma concat_product_filter:
  "concat (map (\<lambda>e. map (g e) (filter (P e) ds)) es)
   = map (\<lambda>(e, d). g e d) (filter (\<lambda>(e, d). P e d) (List.product es ds))"
  by (induction es) (simp_all add: filter_map o_def)

lemma records_of_day_key:
  assumes "fromDate \<le> date" and "date \<le> toDate"
    and "weekdayName (date * 86400000) = weekday_of_date date"
  shows "map row_key
           (records_of_day weekdayName toFixed onlyAbsent
              (filter (\<lambda>a. fromDate \<le> att_date a \<and> att_date a \<le> toDate) (attendances t))
              emp (find (\<lambda>r. ros_employeeId r = emp_id emp) (rosters t)) date)
         = (if row_emitted onlyAbsent (spec_classify t emp date)
            then [(emp_employeeId emp, date,
                   status_code (spec_classify t emp date))]
            else [])"
proof -
  let ?P = "\<lambda>a. att_employeeId a = emp_id emp \<and> att_date a = date"
  have same: "find ?P (filter (\<lambda>a. fromDate \<le> att_date a \<and> att_date a \<le> toDate)
                         (attendances t)) = find ?P (attendances t)"
    using assms(1,2) by (intro find_filter_same) simp
  have rest: "isWeekOff weekdayName ros date = is_rest_day ros date" for ros
    by (simp add: isWeekOff_def is_rest_day_def assms(3))
  show ?thesis
  proof (cases "find ?P (attendances t)")
    case None
    then have noex: "\<not> (\<exists>a \<in> set (attendances t). ?P a)"
      by (simp add: find_None_iff)
    have "spec_classify t emp date =
            (if isWeekOff weekdayName (find (\<lambda>r. ros_employeeId r = emp_id emp) (rosters t)) date
             then WEEK_OFF else ABSENT)"
      unfolding spec_classify_def rest using noex by (simp only: if_False)
    with None show ?thesis
      by (simp add: records_of_day_def same Let_def row_emitted_def
          row_key_def absent_record_def status_code_def)
  next
    case (Some a)
    then have a: "a \<in> set (attendances t)" "?P a"
      by (auto simp: find_Some_iff)
    then have ex: "\<exists>a \<in> set (attendances t). ?P a" by blast
    have "spec_classify t emp date = PRESENT"
      unfolding spec_classify_def using ex by (simp only: if_True)
    with Some a(2) show ?thesis
      by (simp add: records_of_day_def same Let_def row_emitted_def
          row_key_def present_record_def status_code_def)
  qed
qed

lemma records_of_employee_key:
  assumes "\<forall>date \<in> set dates. fromDate \<le> date \<and> date \<le> toDate
             \<and> weekdayName (date * 86400000) = weekday_of_date date"
  shows "map row_key
           (records_of_employee weekdayName toFixed department onlyAbsent (rosters t)
              (filter (\<lambda>a. fromDate \<le> att_date a \<and> att_date a \<le> toDate) (attendances t))
              dates emp)
         = (if (case department of None \<Rightarrow> True | Some dep \<Rightarrow> dep = [] \<or> emp_department emp = dep)
            then map (\<lambda>date. (emp_employeeId emp, date,
                              status_code (spec_classify t emp date)))
                   (filter (\<lambda>date. row_emitted onlyAbsent (spec_classify t emp date))
                      dates)
            else [])"
proof -
  let ?day = "records_of_day weekdayName toFixed onlyAbsent
                (filter (\<lambda>a. fromDate \<le> att_date a \<and> att_date a \<le> toDate) (attendances t))
                emp (find (\<lambda>r. ros_employeeId r = emp_id emp) (rosters t))"
  have "map row_key (concat (map ?day dates))
        = concat (map (\<lambda>date. if row_emitted onlyAbsent (spec_classify t emp date)
                               then [(emp_employeeId emp, date,
                                      status_code (spec_classify t emp date))]
                               else []) dates)"
    using assms by (simp add: map_concat o_def records_of_day_key cong: map_cong)
  also have "\<dots> = map (\<lambda>date. (emp_employeeId emp, date,
                              status_code (spec_classify t emp date)))
                   (filter (\<lambda>date. row_emitted onlyAbsent (spec_classify t emp date))
                      dates)"
    by (rule concat_if_filter)
  finally show ?thesis
    by (cases department) (simp_all add: records_of_employee_def Let_def)
qed

lemma concat_selected:
  assumes "\<And>e. e \<in> set es \<Longrightarrow> \<not> S e \<Longrightarrow> f e = []"
  shows "concat (map f (filter A es)) = concat (map f (filter (\<lambda>e. A e \<and> S e) es))"
  using assms by (induction es) auto

lemma report_records_key:
  assumes "\<forall>date. fromDate \<le> date \<and> date \<le> toDate
             \<longrightarrow> weekdayName (date * 86400000) = weekday_of_date date"
  shows "map row_key
     (concat (map (records_of_employee weekdayName toFixed department onlyAbsent (rosters t)
                     (filter (\<lambda>a. fromDate \<le> att_date a \<and> att_date a \<le> toDate) (attendances t))
                     [fromDate..toDate])
                  (filter emp_isActive (employees t))))
   = map (\<lambda>(e, date). (emp_employeeId e, date, status_code (spec_classify t e date)))
       (filter (\<lambda>(e, date). row_emitted onlyAbsent (spec_classify t e date))
          (List.product (selected_employees department t) [fromDate..toDate]))"
proof -
  let ?sel = "\<lambda>e :: employee.
    (case department of None \<Rightarrow> True | Some dep \<Rightarrow> dep = [] \<or> emp_department e = dep)"
  let ?emp = "records_of_employee weekdayName toFixed department onlyAbsent (rosters t)
                (filter (\<lambda>a. fromDate \<le> att_date a \<and> att_date a \<le> toDate) (attendances t))
                [fromDate..toDate]"
  let ?g = "\<lambda>e date. (emp_employeeId e, date, status_code (spec_classify t e date))"
  let ?P = "\<lambda>e date. row_emitted onlyAbsent (spec_classify t e date)"
  have range: "\<forall>date \<in> set [fromDate..toDate]. fromDate \<le> date \<and> date \<le> toDate
                  \<and> weekdayName (date * 86400000) = weekday_of_date date"
    using assms by simp
  have key: "map row_key (?emp e)
             = (if ?sel e then map (?g e) (filter (?P e) [fromDate..toDate]) else [])" for e
    by (rule records_of_employee_key [OF range])
  have "map row_key (concat (map ?emp (filter emp_isActive (employees t))))
        = concat (map (\<lambda>e. map row_key (?emp e)) (filter emp_isActive (employees t)))"
    by (simp add: map_concat o_def)
  also have "\<dots> = concat (map (\<lambda>e. map row_key (?emp e))
                        (filter (\<lambda>e. emp_isActive e \<and> ?sel e) (employees t)))"
    by (rule concat_selected) (simp add: key)
  also have "\<dots> = concat (map (\<lambda>e. map (?g e) (filter (?P e) [fromDate..toDate]))
                        (filter (\<lambda>e. emp_isActive e \<and> ?sel e) (employees t)))"
    by (rule arg_cong [where f = concat]) (simp add: key)
  also have "\<dots> = map (\<lambda>(e, d). ?g e d) (filter (\<lambda>(e, d). ?P e d)
                  (List.product (filter (\<lambda>e. emp_isActive e \<and> ?sel e) (employees t))
                     [fromDate..toDate]))"
    by (rule concat_product_filter)
  finally show ?thesis
    by (simp add: selected_employees_def)
qed

lemma today_of_midnight: "today_of (date * 86400000) = date"
  by (simp add: today_of_def)

text \<open>On a host where a local day after midnight UTC of every date of the range is 24
  hours later, the loop ends and its dates are those of the range, each once. For an
  inverted range it ends at once on every host.\<close>

lemma date_loop_steps:
  assumes "\<forall>date. fromDate \<le> date \<and> date \<le> toDate
             \<longrightarrow> setNextDate (date * 86400000) = (date + 1) * 86400000"
    and "fromDate \<le> date"
  shows "date_loop setNextDate (toDate * 86400000) (date * 86400000) acc
           = Some (acc @ [date..toDate])"
  using assms(2)
proof (induction "nat (toDate + 1 - date)" arbitrary: date acc)
  case 0
  then have "toDate < date" by simp
  then show ?case
    by (subst date_loop.simps) (simp add: upto.simps)
next
  case (Suc n)
  then have le: "date \<le> toDate" by simp
  with Suc.prems assms(1)
  have step: "setNextDate (date * 86400000) = (date + 1) * 86400000" by blast
  have "date_loop setNextDate (toDate * 86400000) ((date + 1) * 86400000) (acc @ [date])
          = Some ((acc @ [date]) @ [date + 1..toDate])"
    using Suc.hyps(2) Suc.prems by (intro Suc.hyps(1)) simp_all
  moreover have "[date..toDate] = date # [date + 1..toDate]"
    using le by (simp add: upto.simps)
  ultimately show ?case
    using le by (subst date_loop.simps) (simp add: step today_of_midnight)
qed

lemma date_loop_inverted:
  "toDate < fromDate \<Longrightarrow>
   date_loop setNextDate (toDate * 86400000) (fromDate * 86400000) [] = Some []"
  by (subst date_loop.simps) simp

lemma reports_reliable:
  assumes "failAfter d = None" and "q_fromDate q = Some fromDate" and "q_toDate q = Some toDate"
    and "date_loop setNextDate (toDate * 86400000) (fromDate * 86400000) [] = Some dates"
  shows "reports setNextDate weekdayName toFixed q d =
     (Some \<lparr>rep_status = 200, rep_message = None,
       rep_records = sort_key (\<lambda>r. - rr_date r)
         (concat (map (records_of_employee weekdayName toFixed (q_department q) (q_onlyAbsent q)
                         (rosters (tabs d))
                         (filter (\<lambda>a. fromDate \<le> att_date a \<and> att_date a \<le> toDate)
                            (attendances (tabs d)))
                         dates)
                      (filter emp_isActive (employees (tabs d)))))\<rparr>,
      d\<lparr>calls := calls d @ [SelectEmployees, SelectRosters, SelectAttendance]\<rparr>)"
  using assms
  by (simp add: reports_def try_catch_def db_select_reliable respond_def Let_def)

lemma seed_days:
  "toLowerCase (utc_weekdayName (3 * 86400000)) = ''sunday''"
  "toLowerCase (utc_weekdayName (5 * 86400000)) = ''tuesday''"
  "toLowerCase (utc_weekdayName (6 * 86400000)) = ''wednesday''"
  "toLowerCase (utc_weekdayName (7 * 86400000)) = ''thursday''"
  "toLowerCase (weekday_of_date 3) = ''sunday''"
  "toLowerCase (weekday_of_date 5) = ''tuesday''"
  "toLowerCase (weekday_of_date 6) = ''wednesday''"
  "toLowerCase (weekday_of_date 7) = ''thursday''"
  "toLowerCase ''Sunday'' = ''sunday''"
  "toLowerCase ''Monday'' = ''monday''"
  by code_simp+

lemma utc_host:
  "utc_setNextDate (date * 86400000) = (date + 1) * 86400000"
  "utc_weekdayName (date * 86400000) = weekday_of_date date"
  by (simp_all add: utc_setNextDate_def utc_weekdayName_def weekday_of_date_def)

text \<open>
  C7, as amended. The host is one where, for every date of the range, a local day after
  midnight UTC of the date is 24 hours later and the local weekday at midnight UTC of the
  date is the weekday of the date (a host on UTC, or east of it with no change of its
  offset in the range). For storage that answers and a query with both dates, the report
  route then replies, with status 200, and pushes at most one row for every pair of a
  selected employee (active, of the department asked for) and a date of the range: a row
  with status "P" when the employee has an entry of that date, a row with status "A"
  when there is no entry and the date is not the rest day, and no row for a rest day
  without an entry; with \<^verbatim>\<open>onlyAbsent=true\<close> only the "A" rows are pushed. So the number of
  rows is the number of employees times the number of days less the pairs that push
  nothing, and it is that product when every pair pushes a row.
\<close>

theorem report_rows:
  assumes "failAfter d = None" and "q_fromDate q = Some fromDate" and "q_toDate q = Some toDate"
    and "\<forall>date. fromDate \<le> date \<and> date \<le> toDate
           \<longrightarrow> setNextDate (date * 86400000) = (date + 1) * 86400000"
    and "\<forall>date. fromDate \<le> date \<and> date \<le> toDate
           \<longrightarrow> weekdayName (date * 86400000) = weekday_of_date date"
  shows "\<exists>reply. fst (reports setNextDate weekdayName toFixed q d) = Some reply \<and>
        (let pairs = List.product (selected_employees (q_department q) (tabs d))
                       [fromDate..toDate];
             shown = filter (\<lambda>(e, date). row_emitted (q_onlyAbsent q)
                                (spec_classify (tabs d) e date)) pairs
         in rep_status reply = 200
          \<and> mset (map row_key (rep_records reply))
              = mset (map (\<lambda>(e, date). (emp_employeeId e, date,
                             status_code (spec_classify (tabs d) e date))) shown)
          \<and> length (rep_records reply)
              + length (filter (\<lambda>(e, date). \<not> row_emitted (q_onlyAbsent q)
                                 (spec_classify (tabs d) e date)) pairs)
              = length (selected_employees (q_department q) (tabs d))
                  * nat (toDate - fromDate + 1)
          \<and> ((\<forall>(e, date) \<in> set pairs.
                 row_emitted (q_onlyAbsent q) (spec_classify (tabs d) e date))
               \<longrightarrow> length (rep_records reply)
                     = length (selected_employees (q_department q) (tabs d))
                         * nat (toDate - fromDate + 1))
          \<and> (q_onlyAbsent q = Some ''true''
               \<longrightarrow> (\<forall>r \<in> set (rep_records reply). rr_status r = ''A'')))"
proof -
  let ?pairs = "List.product (selected_employees (q_department q) (tabs d)) [fromDate..toDate]"
  let ?P = "\<lambda>(e, date). row_emitted (q_onlyAbsent q) (spec_classify (tabs d) e date)"
  let ?g = "\<lambda>(e, date). (emp_employeeId e, date,
                         status_code (spec_classify (tabs d) e date))"
  let ?recs = "concat (map (records_of_employee weekdayName toFixed (q_department q)
                         (q_onlyAbsent q) (rosters (tabs d))
                         (filter (\<lambda>a. fromDate \<le> att_date a \<and> att_date a \<le> toDate)
                            (attendances (tabs d)))
                         [fromDate..toDate])
                      (filter emp_isActive (employees (tabs d))))"
  have "date_loop setNextDate (toDate * 86400000) (fromDate * 86400000) []
          = Some ([] @ [fromDate..toDate])"
    by (rule date_loop_steps [OF assms(4)]) simp
  then have dates: "date_loop setNextDate (toDate * 86400000) (fromDate * 86400000) []
          = Some [fromDate..toDate]"
    by simp
  obtain reply where sent: "fst (reports setNextDate weekdayName toFixed q d) = Some reply"
    and reply: "rep_status reply = 200"
      "rep_records reply = sort_key (\<lambda>r. - rr_date r) ?recs"
    by (simp add: reports_reliable [OF assms(1-3) dates])
  have keys: "map row_key ?recs = map ?g (filter ?P ?pairs)"
    by (rule report_records_key [OF assms(5)])
  have "mset (map row_key (rep_records reply)) = mset (map row_key ?recs)"
    by (simp add: reply)
  then have bag: "mset (map row_key (rep_records reply)) = mset (map ?g (filter ?P ?pairs))"
    by (simp only: keys)
  have "length (rep_records reply) = length (map row_key ?recs)"
    by (simp add: reply)
  then have len: "length (rep_records reply) = length (filter ?P ?pairs)"
    by (simp only: keys length_map)
  have all: "length (filter ?P ?pairs) + length (filter (\<lambda>x. \<not> ?P x) ?pairs) = length ?pairs"
    by (rule sum_length_filter_compl)
  have compl: "(\<lambda>x. \<not> ?P x) = (\<lambda>(e, date). \<not> row_emitted (q_onlyAbsent q)
                                 (spec_classify (tabs d) e date))"
    by auto
  have size: "length ?pairs = length (selected_employees (q_department q) (tabs d))
                  * nat (toDate - fromDate + 1)"
    by (simp add: length_product)
  have count: "length (rep_records reply)
              + length (filter (\<lambda>(e, date). \<not> row_emitted (q_onlyAbsent q)
                                 (spec_classify (tabs d) e date)) ?pairs)
              = length (selected_employees (q_department q) (tabs d))
                  * nat (toDate - fromDate + 1)"
    using all by (simp only: len compl size)
  have full: "length (rep_records reply)
                     = length (selected_employees (q_department q) (tabs d))
                         * nat (toDate - fromDate + 1)"
    if "\<forall>(e, date) \<in> set ?pairs.
          row_emitted (q_onlyAbsent q) (spec_classify (tabs d) e date)"
  proof -
    from that have "filter ?P ?pairs = ?pairs"
      by (intro filter_True) auto
    with len size show ?thesis by simp
  qed
  have absent: "\<forall>r \<in> set (rep_records reply). rr_status r = ''A''"
    if only: "q_onlyAbsent q = Some ''true''"
  proof
    fix r assume "r \<in> set (rep_records reply)"
    then have "r \<in> set ?recs" by (simp add: reply)
    then have "row_key r \<in> set (map row_key ?recs)" by simp
    then have "row_key r \<in> set (map ?g (filter ?P ?pairs))" by (simp only: keys)
    then obtain e date where "row_key r = ?g (e, date)" and "?P (e, date)"
      by auto
    with only show "rr_status r = ''A''"
      by (simp add: row_key_def row_emitted_def status_code_def)
  qed
  from reply(1) bag count full absent
  have "let pairs = ?pairs; shown = filter ?P pairs
        in rep_status reply = 200
          \<and> mset (map row_key (rep_records reply)) = mset (map ?g shown)
          \<and> length (rep_records reply)
              + length (filter (\<lambda>(e, date). \<not> row_emitted (q_onlyAbsent q)
                                 (spec_classify (tabs d) e date)) pairs)
              = length (selected_employees (q_department q) (tabs d))
                  * nat (toDate - fromDate + 1)
          \<and> ((\<forall>(e, date) \<in> set pairs.
                 row_emitted (q_onlyAbsent q) (spec_classify (tabs d) e date))
               \<longrightarrow> length (rep_records reply)
                     = length (selected_employees (q_department q) (tabs d))
                         * nat (toDate - fromDate + 1))
          \<and> (q_onlyAbsent q = Some ''true''
               \<longrightarrow> (\<forall>r \<in> set (rep_records reply). rr_status r = ''A''))"
    by (simp only: Let_def) blast
  with sent show ?thesis by blast
qed

theorem report_rows_witness:
  "failAfter (with_attendance [rahul_out]) = None
   \<and> (\<forall>date. utc_setNextDate (date * 86400000) = (date + 1) * 86400000)
   \<and> (\<forall>date. utc_weekdayName (date * 86400000) = weekday_of_date date)
   \<and> map (\<lambda>(e, date). spec_classify (tabs (with_attendance [rahul_out])) e date)
         (List.product (selected_employees None (tabs (with_attendance [rahul_out]))) [5..7])
       = [ABSENT, PRESENT, ABSENT, ABSENT, ABSENT, ABSENT]
   \<and> (\<exists>reply. fst (reports utc_setNextDate utc_weekdayName exact_toFixed
          \<lparr>q_fromDate = Some 5, q_toDate = Some 7, q_department = None, q_onlyAbsent = None\<rparr>
          (with_attendance [rahul_out])) = Some reply
        \<and> rep_status reply = 200
        \<and> length (rep_records reply) = 6
        \<and> mset (map row_key (rep_records reply))
            = mset [(''EMP001'', 5, ''A''), (''EMP001'', 6, ''P''), (''EMP001'', 7, ''A''),
                    (''EMP002'', 5, ''A''), (''EMP002'', 6, ''A''), (''EMP002'', 7, ''A'')])"
proof -
  let ?d = "with_attendance [rahul_out]"
  let ?q = "\<lparr>q_fromDate = Some 5, q_toDate = Some 7, q_department = None, q_onlyAbsent = None\<rparr>"
  have h1: "failAfter ?d = None" by (simp add: example_defs)
  have q: "q_fromDate ?q = Some 5" "q_toDate ?q = Some 7" by simp_all
  have steps: "\<forall>date. 5 \<le> date \<and> date \<le> 7
                 \<longrightarrow> utc_setNextDate (date * 86400000) = (date + 1) * 86400000"
    and days: "\<forall>date. 5 \<le> date \<and> date \<le> 7
                 \<longrightarrow> utc_weekdayName (date * 86400000) = weekday_of_date date"
    by (simp_all add: utc_host)
  have sel: "selected_employees None (tabs ?d) = [rahul, priya]"
    by (simp add: selected_employees_def example_defs)
  have upto: "[5 :: int..7] = [5, 6, 7]" by (simp add: upto.simps)
  have ids: "emp_employeeId rahul = ''EMP001''" "emp_employeeId priya = ''EMP002''"
    by (simp_all add: rahul_def priya_def)
  have cls: "spec_classify (tabs ?d) rahul 5 = ABSENT"
    "spec_classify (tabs ?d) rahul 6 = PRESENT"
    "spec_classify (tabs ?d) rahul 7 = ABSENT"
    "spec_classify (tabs ?d) priya 5 = ABSENT"
    "spec_classify (tabs ?d) priya 6 = ABSENT"
    "spec_classify (tabs ?d) priya 7 = ABSENT"
    using seed_days by (simp_all add: spec_classify_def is_rest_day_def example_defs)
  have shown: "\<forall>(e, date) \<in> set (List.product (selected_employees None (tabs ?d)) [5..7]).
         row_emitted None (spec_classify (tabs ?d) e date)"
    using sel by (simp add: upto cls row_emitted_def)
  from report_rows [OF h1 q steps days, of exact_toFixed]
  obtain reply where sent: "fst (reports utc_setNextDate utc_weekdayName exact_toFixed ?q ?d)
                              = Some reply"
    and rows: "let pairs = List.product (selected_employees (q_department ?q) (tabs ?d)) [5..7];
             shown = filter (\<lambda>(e, date). row_emitted (q_onlyAbsent ?q)
                                (spec_classify (tabs ?d) e date)) pairs
         in rep_status reply = 200
          \<and> mset (map row_key (rep_records reply))
              = mset (map (\<lambda>(e, date). (emp_employeeId e, date,
                             status_code (spec_classify (tabs ?d) e date))) shown)
          \<and> length (rep_records reply)
              + length (filter (\<lambda>(e, date). \<not> row_emitted (q_onlyAbsent ?q)
                                 (spec_classify (tabs ?d) e date)) pairs)
              = length (selected_employees (q_department ?q) (tabs ?d))
                  * nat (7 - 5 + 1)
          \<and> ((\<forall>(e, date) \<in> set pairs.
                 row_emitted (q_onlyAbsent ?q) (spec_classify (tabs ?d) e date))
               \<longrightarrow> length (rep_records reply)
                     = length (selected_employees (q_department ?q) (tabs ?d))
                         * nat (7 - 5 + 1))
          \<and> (q_onlyAbsent ?q = Some ''true''
               \<longrightarrow> (\<forall>r \<in> set (rep_records reply). rr_status r = ''A''))"
    by blast
  from rows have st: "rep_status reply = 200"
    by (simp add: Let_def)
  from rows have len: "length (rep_records reply) = 6"
    using shown by (simp add: Let_def sel)
  from rows have bag: "mset (map row_key (rep_records reply))
       = mset [(''EMP001'', 5, ''A''), (''EMP001'', 6, ''P''), (''EMP001'', 7, ''A''),
               (''EMP002'', 5, ''A''), (''EMP002'', 6, ''A''), (''EMP002'', 7, ''A'')]"
    by (simp add: Let_def sel upto cls row_emitted_def status_code_def ids)
  have classes: "map (\<lambda>(e, date). spec_classify (tabs ?d) e date)
         (List.product (selected_employees None (tabs ?d)) [5..7])
       = [ABSENT, PRESENT, ABSENT, ABSENT, ABSENT, ABSENT]"
    by (simp add: sel upto cls)
  from sent st len bag have "\<exists>reply.
        fst (reports utc_setNextDate utc_weekdayName exact_toFixed ?q ?d) = Some reply
        \<and> rep_status reply = 200
        \<and> length (rep_records reply) = 6
        \<and> mset (map row_key (rep_records reply))
            = mset [(''EMP001'', 5, ''A''), (''EMP001'', 6, ''P''), (''EMP001'', 7, ''A''),
                    (''EMP002'', 5, ''A''), (''EMP002'', 6, ''A''), (''EMP002'', 7, ''A'')]"
    by blast
  with h1 classes utc_host show ?thesis by blast
qed

text \<open>
  C7 as stated fails: on the seeded tables, for the one-day range of Sunday, day 3, the
  rest day of Rahul, the report holds the absence row of Priya and no row for Rahul, one
  row for two employees and one day.
\<close>

theorem report_omits_week_off:
  "spec_classify (tabs seed_db) rahul 3 = WEEK_OFF
   \<and> selected_employees None (tabs seed_db) = [rahul, priya]
   \<and> map_option (\<lambda>reply. map row_key (rep_records reply))
        (fst (reports utc_setNextDate utc_weekdayName exact_toFixed
           \<lparr>q_fromDate = Some 3, q_toDate = Some 3, q_department = None,
            q_onlyAbsent = None\<rparr> seed_db))
       = Some [(''EMP002'', 3, ''A'')]
   \<and> map_option (\<lambda>reply. length (rep_records reply))
        (fst (reports utc_setNextDate utc_weekdayName exact_toFixed
           \<lparr>q_fromDate = Some 3, q_toDate = Some 3, q_department = None,
            q_onlyAbsent = None\<rparr> seed_db))
       \<noteq> Some (length (selected_employees None (tabs seed_db)) * length [3 :: int..3])"
proof -
  have h1: "failAfter seed_db = None" by (simp add: seed_db_def)
  have sel: "selected_employees None (tabs seed_db) = [rahul, priya]"
    by (simp add: selected_employees_def example_defs)
  have cls: "spec_classify (tabs seed_db) rahul 3 = WEEK_OFF"
    using seed_days by (simp add: spec_classify_def is_rest_day_def example_defs)
  have upto: "[3 :: int..3] = [3]" by (simp add: upto.simps)
  have q: "q_fromDate \<lparr>q_fromDate = Some 3, q_toDate = Some 3, q_department = None,
            q_onlyAbsent = None\<rparr> = Some 3"
      "q_toDate \<lparr>q_fromDate = Some 3, q_toDate = Some 3, q_department = None,
            q_onlyAbsent = None\<rparr> = Some 3"
    by simp_all
  have "date_loop utc_setNextDate (3 * 86400000) (3 * 86400000) [] = Some ([] @ [3..3])"
    by (rule date_loop_steps [where fromDate = 3]) (simp_all add: utc_host)
  then have dates: "date_loop utc_setNextDate (3 * 86400000) (3 * 86400000) [] = Some [3]"
    by (simp add: upto)
  have rows: "fst (reports utc_setNextDate utc_weekdayName exact_toFixed
           \<lparr>q_fromDate = Some 3, q_toDate = Some 3, q_department = None,
            q_onlyAbsent = None\<rparr> seed_db)
      = Some \<lparr>rep_status = 200, rep_message = None, rep_records =
          [absent_record priya (Some \<lparr>ros_id = ''r2'', ros_employeeId = ''e2'',
             ros_shiftName = ''Evening'', ros_weekOff = ''Monday''\<rparr>) 3]\<rparr>"
    unfolding reports_reliable [OF h1 q dates]
    using seed_days
    by (simp add: records_of_employee_def records_of_day_def
        isWeekOff_def Let_def example_defs)
  show ?thesis
    by (simp add: rows sel cls upto row_key_def absent_record_def priya_def)
qed

text \<open>The condition on the host is needed. On the host five hours west of UTC the weekday
  read at midnight UTC of Sunday, day 3, is Saturday: the report for that day has an
  absence row for Rahul, whose rest day it is, and on Monday, day 4, which the host reads
  as Sunday, it has no row for him.\<close>

lemma report_west_of_utc:
  "map_option (\<lambda>reply. map row_key (rep_records reply))
        (fst (reports utc_setNextDate west_weekdayName exact_toFixed
           \<lparr>q_fromDate = Some 3, q_toDate = Some 4, q_department = Some ''Inbound'',
            q_onlyAbsent = None\<rparr> seed_db))
       = Some [(''EMP001'', 3, ''A'')]
   \<and> spec_classify (tabs seed_db) rahul 3 = WEEK_OFF
   \<and> spec_classify (tabs seed_db) rahul 4 = ABSENT"
proof -
  have h1: "failAfter seed_db = None" by (simp add: seed_db_def)
  have days: "toLowerCase (west_weekdayName (3 * 86400000)) = ''saturday''"
    "toLowerCase (west_weekdayName (4 * 86400000)) = ''sunday''"
    "toLowerCase (weekday_of_date 3) = ''sunday''"
    "toLowerCase (weekday_of_date 4) = ''monday''"
    "toLowerCase ''Sunday'' = ''sunday''"
    by code_simp+
  have upto: "[3 :: int..4] = [3, 4]" by (simp add: upto.simps)
  have q: "q_fromDate \<lparr>q_fromDate = Some 3, q_toDate = Some 4, q_department = Some ''Inbound'',
            q_onlyAbsent = None\<rparr> = Some 3"
      "q_toDate \<lparr>q_fromDate = Some 3, q_toDate = Some 4, q_department = Some ''Inbound'',
            q_onlyAbsent = None\<rparr> = Some 4"
    by simp_all
  have "date_loop utc_setNextDate (4 * 86400000) (3 * 86400000) [] = Some ([] @ [3..4])"
    by (rule date_loop_steps [where fromDate = 3]) (simp_all add: utc_host)
  then have dates: "date_loop utc_setNextDate (4 * 86400000) (3 * 86400000) [] = Some [3, 4]"
    by (simp add: upto)
  have rows: "fst (reports utc_setNextDate west_weekdayName exact_toFixed
           \<lparr>q_fromDate = Some 3, q_toDate = Some 4, q_department = Some ''Inbound'',
            q_onlyAbsent = None\<rparr> seed_db)
      = Some \<lparr>rep_status = 200, rep_message = None, rep_records =
          [absent_record rahul (Some \<lparr>ros_id = ''r1'', ros_employeeId = ''e1'',
             ros_shiftName = ''Morning'', ros_weekOff = ''Sunday''\<rparr>) 3]\<rparr>"
    unfolding reports_reliable [OF h1 q dates]
    using days
    by (simp add: records_of_employee_def records_of_day_def
        isWeekOff_def Let_def example_defs)
  have cls: "spec_classify (tabs seed_db) rahul 3 = WEEK_OFF"
    "spec_classify (tabs seed_db) rahul 4 = ABSENT"
    using days by (simp_all add: spec_classify_def is_rest_day_def example_defs)
  have keys: "map_option (\<lambda>reply. map row_key (rep_records reply))
        (fst (reports utc_setNextDate west_weekdayName exact_toFixed
           \<lparr>q_fromDate = Some 3, q_toDate = Some 4, q_department = Some ''Inbound'',
            q_onlyAbsent = None\<rparr> seed_db))
       = Some [(''EMP001'', 3, ''A'')]"
    by (simp add: rows row_key_def absent_record_def rahul_def)
  from keys cls show ?thesis by blast
qed

subsection \<open>The replies of the gate-entry route\<close>

lemma body_shape_respond:
  "tabs d = t \<Longrightarrow> reply_shape t r t \<Longrightarrow> body_shape t (respond r d)"
  by (simp add: body_shape_def respond_def)

lemma body_shape_select:
  assumes "tabs d = t" and "\<And>d'. tabs d' = t \<Longrightarrow> body_shape t (k (q t) d')"
  shows "body_shape t (db_select c q k d)"
proof (cases "failAfter d")
  case None
  have "body_shape t (k (q t) (d\<lparr>calls := calls d @ [c]\<rparr>))"
    by (rule assms(2)) (simp add: assms(1))
  with None assms(1) show ?thesis by (simp add: db_select_def)
next
  case (Some n)
  show ?thesis
  proof (cases n)
    case 0
    with Some assms(1) show ?thesis by (simp add: db_select_def body_shape_def)
  next
    case (Suc m)
    have "body_shape t (k (q t) (d\<lparr>calls := calls d @ [c], failAfter := Some m\<rparr>))"
      by (rule assms(2)) (simp add: assms(1))
    with Some Suc assms(1) show ?thesis by (simp add: db_select_def)
  qed
qed

lemma body_shape_write_respond:
  assumes "tabs d = t" and "reply_shape t r (w t)"
  shows "body_shape t (db_write c w (respond r) d)"
  using assms
  by (simp add: db_write_def Let_def body_shape_def respond_def split: option.splits nat.splits)

lemma reply_shape_simple [simp]:
  "reply_shape t (entry_json 400 ''SLPID is required'') t"
  "reply_shape t (entry_json 404 ''Employee not found'') t"
  "reply_shape t (entry_json 403 ''Employee is inactive'') t"
  "reply_shape t (entry_json 500 ''Failed to record entry'') t"
  by (simp_all add: reply_shape_def entry_json_def res_ok_def)

lemma body_shape_active:
  assumes "tabs d = t"
  shows "body_shape t (entry_active toFixed now emp active d)"
proof (cases "hoursElapsed now (att_gateInTime active) < 1")
  case True
  then show ?thesis
    unfolding entry_active_def Let_def
    by (simp add: assms body_shape_respond reply_shape_def entry_json_def res_ok_def)
next
  case False
  then show ?thesis
    unfolding entry_active_def Let_def
    by (simp add: assms body_shape_write_respond reply_shape_def entry_json_def res_ok_def)
qed

lemma body_shape_fresh:
  assumes "tabs d = t"
  shows "body_shape t (entry_fresh weekdayName uuid now allow emp d)"
  unfolding entry_fresh_def Let_def
proof (rule body_shape_select [OF assms], goal_cases)
  case (1 d')
  then show ?case
    by (simp add: body_shape_respond body_shape_write_respond reply_shape_def entry_json_def
        res_ok_def)
qed

lemma body_shape_entry_body:
  assumes "tabs d = t"
  shows "body_shape t
    ((case body_slpid body of
          None \<Rightarrow> respond (entry_json 400 ''SLPID is required'')
        | Some slpid \<Rightarrow>
            if slpid = [] then respond (entry_json 400 ''SLPID is required'')
            else
              db_select SelectEmployees
                (\<lambda>t. find (\<lambda>e. emp_slpid e = toUpperCase slpid) (employees t))
                (\<lambda>employee.
                  case employee of
                    None \<Rightarrow> respond (entry_json 404 ''Employee not found'')
                  | Some emp \<Rightarrow>
                      if \<not> emp_isActive emp
                      then respond (entry_json 403 ''Employee is inactive'')
                      else
                        db_select SelectAttendance
                          (\<lambda>t. find (\<lambda>a. att_employeeId a = emp_id emp
                                          \<and> att_gateOutTime a = None)
                                 (attendances t))
                          (\<lambda>activeEntry.
                            case activeEntry of
                              Some active \<Rightarrow> entry_active toFixed now emp active
                            | None \<Rightarrow>
                                entry_fresh weekdayName uuid now
                                  (body_allowWeekOff body) emp))) d)"
proof (cases "body_slpid body")
  case None
  then show ?thesis by (simp add: assms body_shape_respond)
next
  case (Some slpid)
  show ?thesis
  proof (cases "slpid = []")
    case True
    with Some show ?thesis by (simp add: assms body_shape_respond)
  next
    case False
    have inner: "body_shape t ((case employee of
                    None \<Rightarrow> respond (entry_json 404 ''Employee not found'')
                  | Some emp \<Rightarrow>
                      if \<not> emp_isActive emp
                      then respond (entry_json 403 ''Employee is inactive'')
                      else
                        db_select SelectAttendance
                          (\<lambda>t. find (\<lambda>a. att_employeeId a = emp_id emp
                                          \<and> att_gateOutTime a = None)
                                 (attendances t))
                          (\<lambda>activeEntry.
                            case activeEntry of
                              Some active \<Rightarrow> entry_active toFixed now emp active
                            | None \<Rightarrow>
                                entry_fresh weekdayName uuid now
                                  (body_allowWeekOff body) emp)) d')"
      if d': "tabs d' = t" for employee d'
    proof (cases employee)
      case None
      then show ?thesis by (simp add: d' body_shape_respond)
    next
      case (Some emp)
      have "body_shape t (db_select SelectAttendance
                          (\<lambda>t. find (\<lambda>a. att_employeeId a = emp_id emp
                                          \<and> att_gateOutTime a = None)
                                 (attendances t))
                          (\<lambda>activeEntry.
                            case activeEntry of
                              Some active \<Rightarrow> entry_active toFixed now emp active
                            | None \<Rightarrow>
                                entry_fresh weekdayName uuid now
                                  (body_allowWeekOff body) emp) d')"
      proof (rule body_shape_select [OF d'], goal_cases)
        case (1 d'')
        then show ?case
          by (cases "find (\<lambda>a. att_employeeId a = emp_id emp \<and> att_gateOutTime a = None)
                       (attendances t)")
            (simp_all add: body_shape_active body_shape_fresh)
      qed
      with Some show ?thesis by (simp add: d' body_shape_respond)
    qed
    from Some False show ?thesis
      by (simp, intro body_shape_select [OF assms] inner)
  qed
qed

lemma try_catch_reply_shape:
  assumes "body_shape t (b d)"
  shows "reply_shape t (fst (try_catch b (entry_json 500 ''Failed to record entry'') d))
           (tabs (snd (try_catch b (entry_json 500 ''Failed to record entry'') d)))"
  using assms by (cases "b d") (auto simp: body_shape_def try_catch_def split: option.splits)

lemma gate_entry_reply_shape:
  "reply_shape (tabs d) (fst (gate_entry weekdayName toFixed uuid now body d))
     (tabs (snd (gate_entry weekdayName toFixed uuid now body d)))"
  unfolding gate_entry_def
  by (rule try_catch_reply_shape) (rule body_shape_entry_body [OF refl])

lemma gate_entry_week_off:
  assumes "failAfter d = None" and "slpid \<noteq> []"
    and "find (\<lambda>e. emp_slpid e = toUpperCase slpid) (employees (tabs d)) = Some emp"
    and "emp_isActive emp"
    and "open_entries (emp_id emp) (tabs d) = []"
    and "find (\<lambda>r. ros_employeeId r = emp_id emp) (rosters (tabs d)) = Some ros"
    and "toLowerCase (ros_weekOff ros) = toLowerCase (weekdayName now)"
  shows "gate_entry weekdayName toFixed uuid now
           \<lparr>body_slpid = Some slpid, body_allowWeekOff = False\<rparr> d =
         (\<lparr>res_status = 409, res_success = None, res_action = None,
           res_message = ''Employee is on week off. Confirmation required.'',
           res_employeeName = Some (emp_name emp), res_hoursElapsed = None,
           res_hoursWorked = None, res_isWeekOff = Some True\<rparr>,
          d\<lparr>calls := calls d @ [SelectEmployees, SelectAttendance, SelectRosters]\<rparr>)"
  using assms(1,6,7)
  by (simp add: gate_entry_fresh [OF assms(1-5)] try_catch_def entry_fresh_def Let_def
      db_select_reliable respond_def entry_json_def)

text \<open>Two replies that are not failures: Rahul's badge read again half an hour after his
  gate-in, and Priya's badge read on her rest day, Monday, day 4.\<close>

lemma duplicate_example:
  "gate_entry utc_weekdayName exact_toFixed ''u2'' 552600000
     \<lparr>body_slpid = Some ''SLP001'', body_allowWeekOff = False\<rparr> (with_attendance [rahul_in]) =
   (\<lparr>res_status = 400, res_success = None, res_action = Some ''none'',
     res_message = ''Card already scanned'', res_employeeName = Some ''Rahul Kumar'',
     res_hoursElapsed = Some ''0.50'', res_hoursWorked = None, res_isWeekOff = None\<rparr>,
    (with_attendance [rahul_in])\<lparr>calls := [SelectEmployees, SelectAttendance]\<rparr>)"
proof -
  have h1: "failAfter (with_attendance [rahul_in]) = None"
    by (simp add: example_defs)
  have h2: "''SLP001'' \<noteq> []" by simp
  have up: "toUpperCase ''SLP001'' = ''SLP001''" by code_simp
  have h3: "find (\<lambda>e. emp_slpid e = toUpperCase ''SLP001'')
              (employees (tabs (with_attendance [rahul_in]))) = Some rahul"
    by (simp add: up example_defs)
  have h4: "emp_isActive rahul" by (simp add: rahul_def)
  have h5: "open_entries (emp_id rahul) (tabs (with_attendance [rahul_in])) = [rahul_in]"
    by (simp add: open_entries_def example_defs)
  have el: "hoursElapsed 552600000 (att_gateInTime rahul_in) = 1 / 2"
    by (simp add: hoursElapsed_def rahul_in_def)
  have h6: "hoursElapsed 552600000 (att_gateInTime rahul_in) < 1"
    by (simp add: el)
  have fx: "exact_toFixed 2 (1 / 2) = ''0.50''" by code_simp
  have none: "calls (with_attendance [rahul_in]) = []"
    by (simp add: example_defs)
  show ?thesis
    unfolding gate_entry_duplicate [OF h1 h2 h3 h4 h5 h6] el
    by (simp add: fx none rahul_def)
qed

lemma week_off_example:
  "gate_entry utc_weekdayName exact_toFixed ''u1'' 378000000
     \<lparr>body_slpid = Some ''SLP002'', body_allowWeekOff = False\<rparr> seed_db =
   (\<lparr>res_status = 409, res_success = None, res_action = None,
     res_message = ''Employee is on week off. Confirmation required.'',
     res_employeeName = Some ''Priya Sharma'', res_hoursElapsed = None,
     res_hoursWorked = None, res_isWeekOff = Some True\<rparr>,
    seed_db\<lparr>calls := [SelectEmployees, SelectAttendance, SelectRosters]\<rparr>)"
proof -
  let ?ros = "\<lparr>ros_id = ''r2'', ros_employeeId = ''e2'', ros_shiftName = ''Evening'',
               ros_weekOff = ''Monday''\<rparr>"
  have h1: "failAfter seed_db = None" by (simp add: seed_db_def)
  have h2: "''SLP002'' \<noteq> []" by simp
  have up: "toUpperCase ''SLP002'' = ''SLP002''" by code_simp
  have h3: "find (\<lambda>e. emp_slpid e = toUpperCase ''SLP002'') (employees (tabs seed_db))
            = Some priya"
    by (simp add: up example_defs)
  have h4: "emp_isActive priya" by (simp add: priya_def)
  have h5: "open_entries (emp_id priya) (tabs seed_db) = []"
    by (simp add: open_entries_def example_defs)
  have h6: "find (\<lambda>r. ros_employeeId r = emp_id priya) (rosters (tabs seed_db)) = Some ?ros"
    by (simp add: example_defs)
  have day: "toLowerCase ''Monday'' = toLowerCase (utc_weekdayName 378000000)"
    by code_simp
  have h7: "toLowerCase (ros_weekOff ?ros) = toLowerCase (utc_weekdayName 378000000)"
    using day by simp
  have none: "calls seed_db = []" by (simp add: seed_db_def)
  show ?thesis
    unfolding gate_entry_week_off [where weekdayName = utc_weekdayName and now = 378000000,
        OF h1 h2 h3 h4 h5 h6 h7]
    by (simp add: none priya_def)
qed

text \<open>What a call of the route does along each of its paths, read off the fault
  schedule of the handle.\<close>

lemma select_ok:
  "answers d n \<Longrightarrow> 0 < n \<Longrightarrow> db_select c q kont d = kont (q (tabs d)) (tick c d)"
  by (cases "failAfter d"; cases n)
    (auto simp: answers_def db_select_def tick_def Let_def split: nat.splits)

lemma write_ok:
  "answers d n \<Longrightarrow> 0 < n \<Longrightarrow>
   db_write c w kont d = kont ((tick c d)\<lparr>tabs := w (tabs d)\<rparr>)"
  by (cases d; cases "failAfter d"; cases n)
    (auto simp: answers_def db_write_def tick_def Let_def split: nat.splits)

lemma select_fault:
  "failAfter d = Some 0 \<Longrightarrow> db_select c q kont d = (None, d\<lparr>calls := calls d @ [c]\<rparr>)"
  by (simp add: db_select_def)

lemma write_fault:
  "failAfter d = Some 0 \<Longrightarrow> db_write c w kont d = (None, d\<lparr>calls := calls d @ [c]\<rparr>)"
  by (simp add: db_write_def)

lemma tabs_tick [simp]: "tabs (tick c d) = tabs d"
  by (simp add: tick_def split: option.splits)

lemma answers_tick: "answers d n \<Longrightarrow> answers (tick c d) (n - 1)"
  by (auto simp: answers_def tick_def split: option.splits)

lemma fault_tick: "failAfter d = Some n \<Longrightarrow> failAfter (tick c d) = Some (n - 1)"
  by (simp add: tick_def)

lemma fault_answers: "failAfter d = Some n \<Longrightarrow> answers d n"
  by (simp add: answers_def)

lemma answers_fewer: "answers d n \<Longrightarrow> m \<le> n \<Longrightarrow> answers d m"
  by (auto simp: answers_def split: option.splits)

lemma outcome_caught:
  "b d = (None, d') \<Longrightarrow> outcome (try_catch b h d) = (h, tabs d')"
  by (simp add: outcome_def try_catch_def)

lemma outcome_replied:
  "b d = (Some r, d') \<Longrightarrow> outcome (try_catch b h d) = (r, tabs d')"
  by (simp add: outcome_def try_catch_def)

lemma entry_fault_first:
  assumes "failAfter d = Some 0" and "slpid \<noteq> []"
  shows "outcome (gate_entry weekdayName toFixed uuid now
            \<lparr>body_slpid = Some slpid, body_allowWeekOff = allow\<rparr> d)
         = (entry_json 500 ''Failed to record entry'', tabs d)"
  using assms by (simp add: gate_entry_def outcome_def try_catch_def select_fault)

lemma entry_not_found:
  assumes "answers d 1" and "slpid \<noteq> []"
    and "find (\<lambda>e. emp_slpid e = toUpperCase slpid) (employees (tabs d)) = None"
  shows "outcome (gate_entry weekdayName toFixed uuid now
            \<lparr>body_slpid = Some slpid, body_allowWeekOff = allow\<rparr> d)
         = (entry_json 404 ''Employee not found'', tabs d)"
  using assms(2,3)
  by (simp add: gate_entry_def outcome_def try_catch_def select_ok [OF assms(1)] respond_def)

lemma entry_inactive:
  assumes "answers d 1" and "slpid \<noteq> []"
    and "find (\<lambda>e. emp_slpid e = toUpperCase slpid) (employees (tabs d)) = Some emp"
    and "\<not> emp_isActive emp"
  shows "outcome (gate_entry weekdayName toFixed uuid now
            \<lparr>body_slpid = Some slpid, body_allowWeekOff = allow\<rparr> d)
         = (entry_json 403 ''Employee is inactive'', tabs d)"
  using assms(2-4)
  by (simp add: gate_entry_def outcome_def try_catch_def select_ok [OF assms(1)] respond_def)

lemma entry_found:
  assumes "answers d n" and "0 < n" and "slpid \<noteq> []"
    and "find (\<lambda>e. emp_slpid e = toUpperCase slpid) (employees (tabs d)) = Some emp"
    and "emp_isActive emp"
  shows "gate_entry weekdayName toFixed uuid now
            \<lparr>body_slpid = Some slpid, body_allowWeekOff = allow\<rparr> d
         = try_catch
             (db_select SelectAttendance
                (\<lambda>t. find (\<lambda>a. att_employeeId a = emp_id emp \<and> att_gateOutTime a = None)
                       (attendances t))
                (\<lambda>activeEntry.
                  case activeEntry of
                    Some active \<Rightarrow> entry_active toFixed now emp active
                  | None \<Rightarrow> entry_fresh weekdayName uuid now allow emp))
             (entry_json 500 ''Failed to record entry'') (tick SelectEmployees d)"
  using assms(3-5)
  by (simp add: gate_entry_def try_catch_def select_ok [OF assms(1,2)])

lemma entry_fault_second:
  assumes "failAfter d = Some 1" and "slpid \<noteq> []"
    and "find (\<lambda>e. emp_slpid e = toUpperCase slpid) (employees (tabs d)) = Some emp"
    and "emp_isActive emp"
  shows "outcome (gate_entry weekdayName toFixed uuid now
            \<lparr>body_slpid = Some slpid, body_allowWeekOff = allow\<rparr> d)
         = (entry_json 500 ''Failed to record entry'', tabs d)"
proof -
  have "failAfter (tick SelectEmployees d) = Some 0"
    using fault_tick [OF assms(1)] by simp
  then show ?thesis
    unfolding entry_found [OF fault_answers [OF assms(1)] zero_less_one assms(2-4)]
    by (simp add: outcome_def try_catch_def select_fault)
qed

lemma entry_open:
  assumes "answers d n" and "1 < n" and "slpid \<noteq> []"
    and "find (\<lambda>e. emp_slpid e = toUpperCase slpid) (employees (tabs d)) = Some emp"
    and "emp_isActive emp"
    and "open_entries (emp_id emp) (tabs d) = active # others"
  shows "gate_entry weekdayName toFixed uuid now
            \<lparr>body_slpid = Some slpid, body_allowWeekOff = allow\<rparr> d
         = try_catch (entry_active toFixed now emp active)
             (entry_json 500 ''Failed to record entry'')
             (tick SelectAttendance (tick SelectEmployees d))"
proof -
  from assms(2) have pos: "0 < n" "0 < n - 1" by simp_all
  from assms(6) have "find (\<lambda>a. att_employeeId a = emp_id emp \<and> att_gateOutTime a = None)
      (attendances (tabs d)) = Some active"
    unfolding open_entries_def by (rule filter_Cons_find)
  then show ?thesis
    unfolding entry_found [OF assms(1) pos(1) assms(3-5)]
    by (simp add: try_catch_def select_ok [OF answers_tick [OF assms(1)] pos(2)])
qed

lemma entry_none:
  assumes "answers d n" and "1 < n" and "slpid \<noteq> []"
    and "find (\<lambda>e. emp_slpid e = toUpperCase slpid) (employees (tabs d)) = Some emp"
    and "emp_isActive emp"
    and "open_entries (emp_id emp) (tabs d) = []"
  shows "gate_entry weekdayName toFixed uuid now
            \<lparr>body_slpid = Some slpid, body_allowWeekOff = allow\<rparr> d
         = try_catch (entry_fresh weekdayName uuid now allow emp)
             (entry_json 500 ''Failed to record entry'')
             (tick SelectAttendance (tick SelectEmployees d))"
proof -
  from assms(2) have pos: "0 < n" "0 < n - 1" by simp_all
  from assms(6) have "find (\<lambda>a. att_employeeId a = emp_id emp \<and> att_gateOutTime a = None)
      (attendances (tabs d)) = None"
    unfolding open_entries_def by (rule filter_Nil_find)
  then show ?thesis
    unfolding entry_found [OF assms(1) pos(1) assms(3-5)]
    by (simp add: try_catch_def select_ok [OF answers_tick [OF assms(1)] pos(2)])
qed

lemma entry_duplicate:
  assumes "answers d 2" and "slpid \<noteq> []"
    and "find (\<lambda>e. emp_slpid e = toUpperCase slpid) (employees (tabs d)) = Some emp"
    and "emp_isActive emp"
    and "open_entries (emp_id emp) (tabs d) = active # others"
    and "hoursElapsed now (att_gateInTime active) < 1"
  shows "outcome (gate_entry weekdayName toFixed uuid now
            \<lparr>body_slpid = Some slpid, body_allowWeekOff = allow\<rparr> d)
         = (\<lparr>res_status = 400, res_success = None, res_action = Some ''none'',
             res_message = ''Card already scanned'',
             res_employeeName = Some (emp_name emp),
             res_hoursElapsed = Some (toFixed 2 (hoursElapsed now (att_gateInTime active))),
             res_hoursWorked = None, res_isWeekOff = None\<rparr>, tabs d)"
proof -
  have n: "(1 :: nat) < 2" by simp
  show ?thesis
    unfolding entry_open [OF assms(1) n assms(2-5)]
    using assms(6)
    by (simp add: outcome_def try_catch_def entry_active_def Let_def respond_def
        entry_json_def)
qed

lemma entry_fault_update:
  assumes "failAfter d = Some 2" and "slpid \<noteq> []"
    and "find (\<lambda>e. emp_slpid e = toUpperCase slpid) (employees (tabs d)) = Some emp"
    and "emp_isActive emp"
    and "open_entries (emp_id emp) (tabs d) = active # others"
    and "hoursElapsed now (att_gateInTime active) \<ge> 1"
  shows "outcome (gate_entry weekdayName toFixed uuid now
            \<lparr>body_slpid = Some slpid, body_allowWeekOff = allow\<rparr> d)
         = (entry_json 500 ''Failed to record entry'', tabs d)"
proof -
  have n: "(1 :: nat) < 2" by simp
  have "failAfter (tick SelectAttendance (tick SelectEmployees d)) = Some 0"
    using fault_tick [OF fault_tick [OF assms(1)]] by simp
  then show ?thesis
    unfolding entry_open [OF fault_answers [OF assms(1)] n assms(2-5)]
    using assms(6)
    by (simp add: outcome_def try_catch_def entry_active_def Let_def write_fault)
qed

lemma entry_gate_out:
  assumes "answers d 3" and "slpid \<noteq> []"
    and "find (\<lambda>e. emp_slpid e = toUpperCase slpid) (employees (tabs d)) = Some emp"
    and "emp_isActive emp"
    and "open_entries (emp_id emp) (tabs d) = active # others"
    and "hoursElapsed now (att_gateInTime active) \<ge> 1"
  shows "outcome (gate_entry weekdayName toFixed uuid now
            \<lparr>body_slpid = Some slpid, body_allowWeekOff = allow\<rparr> d)
         = (\<lparr>res_status = 200, res_success = Some True, res_action = Some ''gate_out'',
             res_message = ''Gate Out recorded - ''
                @ toFixed 1 (hoursElapsed now (att_gateInTime active)) @ '' hours worked'',
             res_employeeName = Some (emp_name emp), res_hoursElapsed = None,
             res_hoursWorked = Some (toFixed 1 (hoursElapsed now (att_gateInTime active))),
             res_isWeekOff = None\<rparr>,
            set_gate_out (att_id active) now
              (hoursElapsed now (att_gateInTime active) \<ge> 9) (tabs d))"
proof -
  have "answers (tick SelectAttendance (tick SelectEmployees d)) 1"
    using answers_tick [OF answers_tick [OF assms(1)]] by simp
  then have w: "db_write c w kont (tick SelectAttendance (tick SelectEmployees d))
      = kont ((tick c (tick SelectAttendance (tick SelectEmployees d)))
                \<lparr>tabs := w (tabs (tick SelectAttendance (tick SelectEmployees d)))\<rparr>)"
    for c w and kont :: "db \<Rightarrow> entry_res option \<times> db"
    by (rule write_ok) simp
  have n: "(1 :: nat) < 3" by simp
  show ?thesis
    unfolding entry_open [OF assms(1) n assms(2-5)]
    using assms(6)
    by (simp add: outcome_def try_catch_def entry_active_def Let_def w respond_def
        entry_json_def)
qed

lemma entry_fault_roster:
  assumes "failAfter d = Some 2" and "slpid \<noteq> []"
    and "find (\<lambda>e. emp_slpid e = toUpperCase slpid) (employees (tabs d)) = Some emp"
    and "emp_isActive emp"
    and "open_entries (emp_id emp) (tabs d) = []"
  shows "outcome (gate_entry weekdayName toFixed uuid now
            \<lparr>body_slpid = Some slpid, body_allowWeekOff = allow\<rparr> d)
         = (entry_json 500 ''Failed to record entry'', tabs d)"
proof -
  have n: "(1 :: nat) < 2" by simp
  have "failAfter (tick SelectAttendance (tick SelectEmployees d)) = Some 0"
    using fault_tick [OF fault_tick [OF assms(1)]] by simp
  then show ?thesis
    unfolding entry_none [OF fault_answers [OF assms(1)] n assms(2-5)]
    by (simp add: outcome_def try_catch_def entry_fresh_def select_fault)
qed

lemma entry_rostered:
  assumes "answers d n" and "2 < n" and "slpid \<noteq> []"
    and "find (\<lambda>e. emp_slpid e = toUpperCase slpid) (employees (tabs d)) = Some emp"
    and "emp_isActive emp"
    and "open_entries (emp_id emp) (tabs d) = []"
  shows "gate_entry weekdayName toFixed uuid now
            \<lparr>body_slpid = Some slpid, body_allowWeekOff = allow\<rparr> d
         = try_catch
             (let roster = find (\<lambda>r. ros_employeeId r = emp_id emp) (rosters (tabs d));
                  isWeekOff =
                    (case roster of
                       None \<Rightarrow> False
                     | Some r \<Rightarrow> toLowerCase (ros_weekOff r) = toLowerCase (weekdayName now))
              in if isWeekOff \<and> \<not> allow
                 then respond
                   ((entry_json 409 ''Employee is on week off. Confirmation required.'')
                      \<lparr>res_isWeekOff := Some True,
                       res_employeeName := Some (emp_name emp)\<rparr>)
                 else
                   db_write InsertAttendance
                     (insert_attendance
                       \<lparr>att_id = uuid, att_employeeId = emp_id emp,
                        att_slpid = emp_slpid emp,
                        att_shiftName =
                          (case roster of None \<Rightarrow> ''General'' | Some r \<Rightarrow> ros_shiftName r),
                        att_department = emp_department emp,
                        att_isWeekOffEntry = (isWeekOff \<and> allow),
                        att_isOvertime = False,
                        att_date = today_of now,
                        att_gateInTime = now,
                        att_gateOutTime = None\<rparr>)
                     (respond
                       ((entry_json 200 ''Gate In recorded successfully'')
                          \<lparr>res_success := Some True,
                           res_action := Some ''gate_in'',
                           res_employeeName := Some (emp_name emp)\<rparr>)))
             (entry_json 500 ''Failed to record entry'')
             (tick SelectRosters (tick SelectAttendance (tick SelectEmployees d)))"
proof -
  from assms(2) have pos: "1 < n" "0 < n - 1 - 1" by simp_all
  have "answers (tick SelectAttendance (tick SelectEmployees d)) (n - 1 - 1)"
    by (intro answers_tick assms(1))
  then have s: "db_select c q kont (tick SelectAttendance (tick SelectEmployees d))
      = kont (q (tabs (tick SelectAttendance (tick SelectEmployees d))))
          (tick c (tick SelectAttendance (tick SelectEmployees d)))"
    for c and q :: "tables \<Rightarrow> roster option"
      and kont :: "roster option \<Rightarrow> db \<Rightarrow> entry_res option \<times> db"
    using pos(2) by (rule select_ok)
  show ?thesis
    unfolding entry_none [OF assms(1) pos(1) assms(3-6)]
    by (simp add: try_catch_def entry_fresh_def s Let_def)
qed

lemma entry_week_off:
  assumes "answers d 3" and "slpid \<noteq> []"
    and "find (\<lambda>e. emp_slpid e = toUpperCase slpid) (employees (tabs d)) = Some emp"
    and "emp_isActive emp"
    and "open_entries (emp_id emp) (tabs d) = []"
    and "(case find (\<lambda>r. ros_employeeId r = emp_id emp) (rosters (tabs d)) of
            None \<Rightarrow> False
          | Some r \<Rightarrow> toLowerCase (ros_weekOff r) = toLowerCase (weekdayName now))"
    and "\<not> allow"
  shows "outcome (gate_entry weekdayName toFixed uuid now
            \<lparr>body_slpid = Some slpid, body_allowWeekOff = allow\<rparr> d)
         = (\<lparr>res_status = 409, res_success = None, res_action = None,
             res_message = ''Employee is on week off. Confirmation required.'',
             res_employeeName = Some (emp_name emp), res_hoursElapsed = None,
             res_hoursWorked = None, res_isWeekOff = Some True\<rparr>, tabs d)"
proof -
  have n: "(2 :: nat) < 3" by simp
  show ?thesis
    unfolding entry_rostered [OF assms(1) n assms(2-5)]
    using assms(6,7)
    by (simp add: outcome_def try_catch_def Let_def respond_def entry_json_def)
qed

lemma entry_fault_insert:
  assumes "failAfter d = Some 3" and "slpid \<noteq> []"
    and "find (\<lambda>e. emp_slpid e = toUpperCase slpid) (employees (tabs d)) = Some emp"
    and "emp_isActive emp"
    and "open_entries (emp_id emp) (tabs d) = []"
    and "\<not> ((case find (\<lambda>r. ros_employeeId r = emp_id emp) (rosters (tabs d)) of
            None \<Rightarrow> False
          | Some r \<Rightarrow> toLowerCase (ros_weekOff r) = toLowerCase (weekdayName now))
          \<and> \<not> allow)"
  shows "outcome (gate_entry weekdayName toFixed uuid now
            \<lparr>body_slpid = Some slpid, body_allowWeekOff = allow\<rparr> d)
         = (entry_json 500 ''Failed to record entry'', tabs d)"
proof -
  have n: "(2 :: nat) < 3" by simp
  have "failAfter (tick SelectRosters (tick SelectAttendance (tick SelectEmployees d)))
          = Some 0"
    using fault_tick [OF fault_tick [OF fault_tick [OF assms(1)]]] by simp
  then have w: "db_write c w kont
        (tick SelectRosters (tick SelectAttendance (tick SelectEmployees d)))
      = (None, (tick SelectRosters (tick SelectAttendance (tick SelectEmployees d)))
                 \<lparr>calls := calls (tick SelectRosters (tick SelectAttendance
                                     (tick SelectEmployees d))) @ [c]\<rparr>)"
    for c w and kont :: "db \<Rightarrow> entry_res option \<times> db"
    by (rule write_fault)
  show ?thesis
    unfolding entry_rostered [OF fault_answers [OF assms(1)] n assms(2-5)]
    using assms(6)
    by (auto simp add: outcome_def try_catch_def Let_def w)
qed

lemma entry_gate_in:
  assumes "answers d 4" and "slpid \<noteq> []"
    and "find (\<lambda>e. emp_slpid e = toUpperCase slpid) (employees (tabs d)) = Some emp"
    and "emp_isActive emp"
    and "open_entries (emp_id emp) (tabs d) = []"
    and "\<not> ((case find (\<lambda>r. ros_employeeId r = emp_id emp) (rosters (tabs d)) of
            None \<Rightarrow> False
          | Some r \<Rightarrow> toLowerCase (ros_weekOff r) = toLowerCase (weekdayName now))
          \<and> \<not> allow)"
  shows "outcome (gate_entry weekdayName toFixed uuid now
            \<lparr>body_slpid = Some slpid, body_allowWeekOff = allow\<rparr> d)
         = (\<lparr>res_status = 200, res_success = Some True, res_action = Some ''gate_in'',
             res_message = ''Gate In recorded successfully'',
             res_employeeName = Some (emp_name emp), res_hoursElapsed = None,
             res_hoursWorked = None, res_isWeekOff = None\<rparr>,
            insert_attendance
              \<lparr>att_id = uuid, att_employeeId = emp_id emp, att_slpid = emp_slpid emp,
               att_shiftName =
                 (case find (\<lambda>r. ros_employeeId r = emp_id emp) (rosters (tabs d)) of
                    None \<Rightarrow> ''General'' | Some r \<Rightarrow> ros_shiftName r),
               att_department = emp_department emp,
               att_isWeekOffEntry =
                 ((case find (\<lambda>r. ros_employeeId r = emp_id emp) (rosters (tabs d)) of
                     None \<Rightarrow> False
                   | Some r \<Rightarrow> toLowerCase (ros_weekOff r) = toLowerCase (weekdayName now))
                  \<and> allow),
               att_isOvertime = False, att_date = today_of now, att_gateInTime = now,
               att_gateOutTime = None\<rparr> (tabs d))"
proof -
  have n: "(2 :: nat) < 4" by simp
  have "answers (tick SelectRosters (tick SelectAttendance (tick SelectEmployees d))) 1"
    using answers_tick [OF answers_tick [OF answers_tick [OF assms(1)]]] by simp
  then have w: "db_write c w kont
        (tick SelectRosters (tick SelectAttendance (tick SelectEmployees d)))
      = kont ((tick c (tick SelectRosters (tick SelectAttendance (tick SelectEmployees d))))
                \<lparr>tabs := w (tabs (tick SelectRosters (tick SelectAttendance
                                      (tick SelectEmployees d))))\<rparr>)"
    for c w and kont :: "db \<Rightarrow> entry_res option \<times> db"
    by (rule write_ok) simp
  show ?thesis
    unfolding entry_rostered [OF assms(1) n assms(2-5)]
    using assms(6)
    by (auto simp add: outcome_def try_catch_def Let_def w respond_def entry_json_def)
qed

lemma entry_no_badge:
  "outcome (gate_entry weekdayName toFixed uuid now
      \<lparr>body_slpid = None, body_allowWeekOff = allow\<rparr> d)
     = (entry_json 400 ''SLPID is required'', tabs d)"
  "outcome (gate_entry weekdayName toFixed uuid now
      \<lparr>body_slpid = Some [], body_allowWeekOff = allow\<rparr> d)
     = (entry_json 400 ''SLPID is required'', tabs d)"
  by (simp_all add: gate_entry_def outcome_def try_catch_def respond_def)

text \<open>
  C8, as amended. Every situation of a scan has its own reply. A body without a badge
  code, or with an empty one, is answered 400 "SLPID is required". When a call of the
  storage fails, whichever it is, the reply is 500 "Failed to record entry" and no table
  is changed. When the storage answers: an unknown badge is answered 404 "Employee not
  found" and an inactive employee 403 "Employee is inactive"; a scan less than one hour
  after the gate-in of the open entry, the duplicate scan, is answered with status 400,
  the status of the validation failure, with action \<^verbatim>\<open>none\<close> and the message "Card already
  scanned", and changes no table; a scan of one hour or more after it is the gate-out,
  status 200; a scan without an open entry on the rest day and without the override, the
  week-off confirmation, is answered with status 409 and \<^verbatim>\<open>isWeekOff: true\<close> and changes no
  table; every other scan without an open entry is the gate-in, status 200. So the
  replies with a 2xx status, for which the Fetch API reports \<^verbatim>\<open>ok\<close>, are exactly the
  replies with \<^verbatim>\<open>success: true\<close>, and exactly the gate-in and the gate-out; the two decision
  outcomes travel with the failures and differ from them by their status, message and
  fields; no reply without a 2xx status changes a table.
\<close>

theorem entry_reply_channel:
  "(let scan = outcome (gate_entry weekdayName toFixed uuid now
                  \<lparr>body_slpid = Some slpid, body_allowWeekOff = allow\<rparr> d);
        failure = (entry_json 500 ''Failed to record entry'', tabs d);
        employee = find (\<lambda>e. emp_slpid e = toUpperCase slpid) (employees (tabs d));
        restDay = (\<lambda>emp. case find (\<lambda>r. ros_employeeId r = emp_id emp) (rosters (tabs d)) of
                     None \<Rightarrow> False
                   | Some r \<Rightarrow> toLowerCase (ros_weekOff r) = toLowerCase (weekdayName now))
    in outcome (gate_entry weekdayName toFixed uuid now
                  \<lparr>body_slpid = None, body_allowWeekOff = allow\<rparr> d)
         = (entry_json 400 ''SLPID is required'', tabs d)
     \<and> outcome (gate_entry weekdayName toFixed uuid now
                  \<lparr>body_slpid = Some [], body_allowWeekOff = allow\<rparr> d)
         = (entry_json 400 ''SLPID is required'', tabs d)
     \<and> (slpid \<noteq> [] \<longrightarrow>
          (failAfter d = Some 0 \<longrightarrow> scan = failure)
        \<and> (answers d 1 \<and> employee = None \<longrightarrow>
             scan = (entry_json 404 ''Employee not found'', tabs d))
        \<and> (\<forall>emp. employee = Some emp \<longrightarrow>
             (answers d 1 \<and> \<not> emp_isActive emp \<longrightarrow>
                scan = (entry_json 403 ''Employee is inactive'', tabs d))
           \<and> (emp_isActive emp \<longrightarrow>
                (failAfter d = Some 1 \<longrightarrow> scan = failure)
              \<and> (\<forall>active others. open_entries (emp_id emp) (tabs d) = active # others \<longrightarrow>
                   (answers d 2 \<and> hoursElapsed now (att_gateInTime active) < 1 \<longrightarrow>
                      scan =
                        (\<lparr>res_status = 400, res_success = None, res_action = Some ''none'',
                          res_message = ''Card already scanned'',
                          res_employeeName = Some (emp_name emp),
                          res_hoursElapsed =
                            Some (toFixed 2 (hoursElapsed now (att_gateInTime active))),
                          res_hoursWorked = None, res_isWeekOff = None\<rparr>, tabs d))
                 \<and> (hoursElapsed now (att_gateInTime active) \<ge> 1 \<longrightarrow>
                      (failAfter d = Some 2 \<longrightarrow> scan = failure)
                    \<and> (answers d 3 \<longrightarrow>
                         scan =
                           (\<lparr>res_status = 200, res_success = Some True,
                             res_action = Some ''gate_out'',
                             res_message = ''Gate Out recorded - ''
                               @ toFixed 1 (hoursElapsed now (att_gateInTime active))
                               @ '' hours worked'',
                             res_employeeName = Some (emp_name emp),
                             res_hoursElapsed = None,
                             res_hoursWorked =
                               Some (toFixed 1 (hoursElapsed now (att_gateInTime active))),
                             res_isWeekOff = None\<rparr>,
                            set_gate_out (att_id active) now
                              (hoursElapsed now (att_gateInTime active) \<ge> 9) (tabs d)))))
              \<and> (open_entries (emp_id emp) (tabs d) = [] \<longrightarrow>
                   (failAfter d = Some 2 \<longrightarrow> scan = failure)
                 \<and> (answers d 3 \<and> restDay emp \<and> \<not> allow \<longrightarrow>
                      scan =
                        (\<lparr>res_status = 409, res_success = None, res_action = None,
                          res_message = ''Employee is on week off. Confirmation required.'',
                          res_employeeName = Some (emp_name emp), res_hoursElapsed = None,
                          res_hoursWorked = None, res_isWeekOff = Some True\<rparr>, tabs d))
                 \<and> (\<not> (restDay emp \<and> \<not> allow) \<longrightarrow>
                      (failAfter d = Some 3 \<longrightarrow> scan = failure)
                    \<and> (answers d 4 \<longrightarrow>
                         scan =
                           (\<lparr>res_status = 200, res_success = Some True,
                             res_action = Some ''gate_in'',
                             res_message = ''Gate In recorded successfully'',
                             res_employeeName = Some (emp_name emp),
                             res_hoursElapsed = None, res_hoursWorked = None,
                             res_isWeekOff = None\<rparr>,
                            insert_attendance
                              \<lparr>att_id = uuid, att_employeeId = emp_id emp,
                               att_slpid = emp_slpid emp,
                               att_shiftName =
                                 (case find (\<lambda>r. ros_employeeId r = emp_id emp)
                                         (rosters (tabs d)) of
                                    None \<Rightarrow> ''General'' | Some r \<Rightarrow> ros_shiftName r),
                               att_department = emp_department emp,
                               att_isWeekOffEntry = (restDay emp \<and> allow),
                               att_isOvertime = False, att_date = today_of now,
                               att_gateInTime = now, att_gateOutTime = None\<rparr>
                              (tabs d)))))))))
   \<and> (let reply = fst (gate_entry weekdayName toFixed uuid now body d);
          after = tabs (snd (gate_entry weekdayName toFixed uuid now body d))
      in (res_ok (res_status reply) \<longleftrightarrow> res_success reply = Some True)
       \<and> (res_ok (res_status reply) \<longleftrightarrow>
            res_action reply = Some ''gate_in'' \<or> res_action reply = Some ''gate_out'')
       \<and> (\<not> res_ok (res_status reply) \<longrightarrow> after = tabs d)
       \<and> (res_action reply = Some ''none'' \<longrightarrow>
            res_status reply = 400 \<and> res_message reply = ''Card already scanned'')
       \<and> (res_isWeekOff reply = Some True \<longrightarrow> res_status reply = 409)
       \<and> res_status reply \<in> {200, 400, 403, 404, 409, 500})"
proof (rule conjI)
  show "let scan = outcome (gate_entry weekdayName toFixed uuid now
                  \<lparr>body_slpid = Some slpid, body_allowWeekOff = allow\<rparr> d);
        failure = (entry_json 500 ''Failed to record entry'', tabs d);
        employee = find (\<lambda>e. emp_slpid e = toUpperCase slpid) (employees (tabs d));
        restDay = (\<lambda>emp. case find (\<lambda>r. ros_employeeId r = emp_id emp) (rosters (tabs d)) of
                     None \<Rightarrow> False
                   | Some r \<Rightarrow> toLowerCase (ros_weekOff r) = toLowerCase (weekdayName now))
    in outcome (gate_entry weekdayName toFixed uuid now
                  \<lparr>body_slpid = None, body_allowWeekOff = allow\<rparr> d)
         = (entry_json 400 ''SLPID is required'', tabs d)
     \<and> outcome (gate_entry weekdayName toFixed uuid now
                  \<lparr>body_slpid = Some [], body_allowWeekOff = allow\<rparr> d)
         = (entry_json 400 ''SLPID is required'', tabs d)
     \<and> (slpid \<noteq> [] \<longrightarrow>
          (failAfter d = Some 0 \<longrightarrow> scan = failure)
        \<and> (answers d 1 \<and> employee = None \<longrightarrow>
             scan = (entry_json 404 ''Employee not found'', tabs d))
        \<and> (\<forall>emp. employee = Some emp \<longrightarrow>
             (answers d 1 \<and> \<not> emp_isActive emp \<longrightarrow>
                scan = (entry_json 403 ''Employee is inactive'', tabs d))
           \<and> (emp_isActive emp \<longrightarrow>
                (failAfter d = Some 1 \<longrightarrow> scan = failure)
              \<and> (\<forall>active others. open_entries (emp_id emp) (tabs d) = active # others \<longrightarrow>
                   (answers d 2 \<and> hoursElapsed now (att_gateInTime active) < 1 \<longrightarrow>
                      scan =
                        (\<lparr>res_status = 400, res_success = None, res_action = Some ''none'',
                          res_message = ''Card already scanned'',
                          res_employeeName = Some (emp_name emp),
                          res_hoursElapsed =
                            Some (toFixed 2 (hoursElapsed now (att_gateInTime active))),
                          res_hoursWorked = None, res_isWeekOff = None\<rparr>, tabs d))
                 \<and> (hoursElapsed now (att_gateInTime active) \<ge> 1 \<longrightarrow>
                      (failAfter d = Some 2 \<longrightarrow> scan = failure)
                    \<and> (answers d 3 \<longrightarrow>
                         scan =
                           (\<lparr>res_status = 200, res_success = Some True,
                             res_action = Some ''gate_out'',
                             res_message = ''Gate Out recorded - ''
                               @ toFixed 1 (hoursElapsed now (att_gateInTime active))
                               @ '' hours worked'',
                             res_employeeName = Some (emp_name emp),
                             res_hoursElapsed = None,
                             res_hoursWorked =
                               Some (toFixed 1 (hoursElapsed now (att_gateInTime active))),
                             res_isWeekOff = None\<rparr>,
                            set_gate_out (att_id active) now
                              (hoursElapsed now (att_gateInTime active) \<ge> 9) (tabs d)))))
              \<and> (open_entries (emp_id emp) (tabs d) = [] \<longrightarrow>
                   (failAfter d = Some 2 \<longrightarrow> scan = failure)
                 \<and> (answers d 3 \<and> restDay emp \<and> \<not> allow \<longrightarrow>
                      scan =
                        (\<lparr>res_status = 409, res_success = None, res_action = None,
                          res_message = ''Employee is on week off. Confirmation required.'',
                          res_employeeName = Some (emp_name emp), res_hoursElapsed = None,
                          res_hoursWorked = None, res_isWeekOff = Some True\<rparr>, tabs d))
                 \<and> (\<not> (restDay emp \<and> \<not> allow) \<longrightarrow>
                      (failAfter d = Some 3 \<longrightarrow> scan = failure)
                    \<and> (answers d 4 \<longrightarrow>
                         scan =
                           (\<lparr>res_status = 200, res_success = Some True,
                             res_action = Some ''gate_in'',
                             res_message = ''Gate In recorded successfully'',
                             res_employeeName = Some (emp_name emp),
                             res_hoursElapsed = None, res_hoursWorked = None,
                             res_isWeekOff = None\<rparr>,
                            insert_attendance
                              \<lparr>att_id = uuid, att_employeeId = emp_id emp,
                               att_slpid = emp_slpid emp,
                               att_shiftName =
                                 (case find (\<lambda>r. ros_employeeId r = emp_id emp)
                                         (rosters (tabs d)) of
                                    None \<Rightarrow> ''General'' | Some r \<Rightarrow> ros_shiftName r),
                               att_department = emp_department emp,
                               att_isWeekOffEntry = (restDay emp \<and> allow),
                               att_isOvertime = False, att_date = today_of now,
                               att_gateInTime = now, att_gateOutTime = None\<rparr>
                              (tabs d))))))))"
    unfolding Let_def
    apply (intro conjI impI allI)
    subgoal by (rule entry_no_badge)
    subgoal by (rule entry_no_badge)
    subgoal by (rule entry_fault_first)
    subgoal by (rule entry_not_found) auto
    subgoal by (rule entry_inactive) auto
    subgoal by (rule entry_fault_second)
    subgoal by (rule entry_duplicate) auto
    subgoal by (rule entry_fault_update)
    subgoal by (rule entry_gate_out)
    subgoal by (rule entry_fault_roster)
    subgoal by (rule entry_week_off) auto
    subgoal by (rule entry_fault_insert)
    subgoal by (rule entry_gate_in)
    done
next
  have "reply_shape (tabs d) (fst (gate_entry weekdayName toFixed uuid now body d))
          (tabs (snd (gate_entry weekdayName toFixed uuid now body d)))"
    by (rule gate_entry_reply_shape)
  then show "let reply = fst (gate_entry weekdayName toFixed uuid now body d);
          after = tabs (snd (gate_entry weekdayName toFixed uuid now body d))
      in (res_ok (res_status reply) \<longleftrightarrow> res_success reply = Some True)
       \<and> (res_ok (res_status reply) \<longleftrightarrow>
            res_action reply = Some ''gate_in'' \<or> res_action reply = Some ''gate_out'')
       \<and> (\<not> res_ok (res_status reply) \<longrightarrow> after = tabs d)
       \<and> (res_action reply = Some ''none'' \<longrightarrow>
            res_status reply = 400 \<and> res_message reply = ''Card already scanned'')
       \<and> (res_isWeekOff reply = Some True \<longrightarrow> res_status reply = 409)
       \<and> res_status reply \<in> {200, 400, 403, 404, 409, 500}"
    unfolding reply_shape_def Let_def .
qed

theorem entry_reply_channel_witness:
  "outcome (gate_entry utc_weekdayName exact_toFixed ''u1'' 550800000
       \<lparr>body_slpid = Some ''SLP999'', body_allowWeekOff = False\<rparr> seed_db)
     = (entry_json 404 ''Employee not found'', seed_tables)
   \<and> outcome (gate_entry utc_weekdayName exact_toFixed ''u1'' 550800000
       \<lparr>body_slpid = Some ''slp001'', body_allowWeekOff = False\<rparr> rahul_left)
     = (entry_json 403 ''Employee is inactive'', tabs rahul_left)
   \<and> outcome (gate_entry utc_weekdayName exact_toFixed ''u2'' 552600000
       \<lparr>body_slpid = Some ''SLP001'', body_allowWeekOff = False\<rparr> (with_attendance [rahul_in]))
     = (\<lparr>res_status = 400, res_success = None, res_action = Some ''none'',
         res_message = ''Card already scanned'', res_employeeName = Some ''Rahul Kumar'',
         res_hoursElapsed = Some ''0.50'', res_hoursWorked = None, res_isWeekOff = None\<rparr>,
        seed_tables\<lparr>attendances := [rahul_in]\<rparr>)
   \<and> outcome (gate_entry utc_weekdayName exact_toFixed ''u1'' 378000000
       \<lparr>body_slpid = Some ''SLP002'', body_allowWeekOff = False\<rparr> seed_db)
     = (\<lparr>res_status = 409, res_success = None, res_action = None,
         res_message = ''Employee is on week off. Confirmation required.'',
         res_employeeName = Some ''Priya Sharma'', res_hoursElapsed = None,
         res_hoursWorked = None, res_isWeekOff = Some True\<rparr>, seed_tables)
   \<and> outcome (gate_entry utc_weekdayName exact_toFixed ''a1'' 550800000
       \<lparr>body_slpid = Some ''SLP001'', body_allowWeekOff = False\<rparr>
       (seed_db\<lparr>failAfter := Some 3\<rparr>))
     = (entry_json 500 ''Failed to record entry'', seed_tables)
   \<and> outcome (gate_entry utc_weekdayName exact_toFixed ''a1'' 550800000
       \<lparr>body_slpid = Some ''SLP001'', body_allowWeekOff = False\<rparr> seed_db)
     = (\<lparr>res_status = 200, res_success = Some True, res_action = Some ''gate_in'',
         res_message = ''Gate In recorded successfully'',
         res_employeeName = Some ''Rahul Kumar'', res_hoursElapsed = None,
         res_hoursWorked = None, res_isWeekOff = None\<rparr>,
        seed_tables\<lparr>attendances := [rahul_in]\<rparr>)"
proof -
  have up: "toUpperCase ''SLP999'' = ''SLP999''" "toUpperCase ''slp001'' = ''SLP001''"
    "toUpperCase ''SLP001'' = ''SLP001''" "toUpperCase ''SLP002'' = ''SLP002''"
    by code_simp+
  have days: "toLowerCase (utc_weekdayName 378000000) = ''monday''"
    "toLowerCase (utc_weekdayName 550800000) = ''wednesday''"
    "toLowerCase ''Monday'' = ''monday''" "toLowerCase ''Sunday'' = ''sunday''"
    by code_simp+
  have fx: "exact_toFixed 2 (1 / 2) = ''0.50''" by code_simp
  have el: "hoursElapsed 552600000 550800000 = 1 / 2"
    by (simp add: hoursElapsed_def)
  have ok: "answers seed_db n" "answers rahul_left n" "answers (with_attendance [rahul_in]) n"
    for n
    by (simp_all add: answers_def example_defs rahul_left_def)
  have not_found: "outcome (gate_entry utc_weekdayName exact_toFixed ''u1'' 550800000
       \<lparr>body_slpid = Some ''SLP999'', body_allowWeekOff = False\<rparr> seed_db)
     = (entry_json 404 ''Employee not found'', seed_tables)"
    using entry_reply_channel [where d = seed_db and slpid = "''SLP999''"
        and weekdayName = utc_weekdayName and toFixed = exact_toFixed and uuid = "''u1''"
        and now = 550800000 and allow = False] ok(1)
    by (simp add: Let_def up example_defs)
  have inactive: "outcome (gate_entry utc_weekdayName exact_toFixed ''u1'' 550800000
       \<lparr>body_slpid = Some ''slp001'', body_allowWeekOff = False\<rparr> rahul_left)
     = (entry_json 403 ''Employee is inactive'', tabs rahul_left)"
    using entry_reply_channel [where d = rahul_left and slpid = "''slp001''"
        and weekdayName = utc_weekdayName and toFixed = exact_toFixed and uuid = "''u1''"
        and now = 550800000 and allow = False] ok(2)
    by (simp add: Let_def up rahul_left_def seed_tables_def rahul_def priya_def)
  have duplicate: "outcome (gate_entry utc_weekdayName exact_toFixed ''u2'' 552600000
       \<lparr>body_slpid = Some ''SLP001'', body_allowWeekOff = False\<rparr> (with_attendance [rahul_in]))
     = (\<lparr>res_status = 400, res_success = None, res_action = Some ''none'',
         res_message = ''Card already scanned'', res_employeeName = Some ''Rahul Kumar'',
         res_hoursElapsed = Some ''0.50'', res_hoursWorked = None, res_isWeekOff = None\<rparr>,
        seed_tables\<lparr>attendances := [rahul_in]\<rparr>)"
    using entry_reply_channel [where d = "with_attendance [rahul_in]" and slpid = "''SLP001''"
        and weekdayName = utc_weekdayName and toFixed = exact_toFixed and uuid = "''u2''"
        and now = 552600000 and allow = False] ok(3)
    by (simp add: Let_def up el fx open_entries_def with_attendance_def seed_db_def
        seed_tables_def rahul_def priya_def rahul_in_def)
  have week_off: "outcome (gate_entry utc_weekdayName exact_toFixed ''u1'' 378000000
       \<lparr>body_slpid = Some ''SLP002'', body_allowWeekOff = False\<rparr> seed_db)
     = (\<lparr>res_status = 409, res_success = None, res_action = None,
         res_message = ''Employee is on week off. Confirmation required.'',
         res_employeeName = Some ''Priya Sharma'', res_hoursElapsed = None,
         res_hoursWorked = None, res_isWeekOff = Some True\<rparr>, seed_tables)"
    using entry_reply_channel [where d = seed_db and slpid = "''SLP002''"
        and weekdayName = utc_weekdayName and toFixed = exact_toFixed and uuid = "''u1''"
        and now = 378000000 and allow = False] ok(1)
    by (simp add: Let_def up days open_entries_def seed_db_def seed_tables_def rahul_def
        priya_def)
  have fault: "outcome (gate_entry utc_weekdayName exact_toFixed ''a1'' 550800000
       \<lparr>body_slpid = Some ''SLP001'', body_allowWeekOff = False\<rparr>
       (seed_db\<lparr>failAfter := Some 3\<rparr>))
     = (entry_json 500 ''Failed to record entry'', seed_tables)"
    using entry_reply_channel [where d = "seed_db\<lparr>failAfter := Some 3\<rparr>"
        and slpid = "''SLP001''"
        and weekdayName = utc_weekdayName and toFixed = exact_toFixed and uuid = "''a1''"
        and now = 550800000 and allow = False]
    by (simp add: Let_def up days answers_def open_entries_def seed_db_def seed_tables_def
        rahul_def priya_def)
  have gate_in: "outcome (gate_entry utc_weekdayName exact_toFixed ''a1'' 550800000
       \<lparr>body_slpid = Some ''SLP001'', body_allowWeekOff = False\<rparr> seed_db)
     = (\<lparr>res_status = 200, res_success = Some True, res_action = Some ''gate_in'',
         res_message = ''Gate In recorded successfully'',
         res_employeeName = Some ''Rahul Kumar'', res_hoursElapsed = None,
         res_hoursWorked = None, res_isWeekOff = None\<rparr>,
        seed_tables\<lparr>attendances := [rahul_in]\<rparr>)"
    using entry_reply_channel [where d = seed_db and slpid = "''SLP001''"
        and weekdayName = utc_weekdayName and toFixed = exact_toFixed and uuid = "''a1''"
        and now = 550800000 and allow = False] ok(1)
    by (simp add: Let_def up days open_entries_def insert_attendance_def today_of_def
        seed_db_def seed_tables_def rahul_def priya_def rahul_in_def)
  from not_found inactive duplicate week_off fault gate_in show ?thesis
    by (intro conjI)
qed

text \<open>
  C8 as stated fails: the reply to the duplicate scan has status 400, which is not
  \<^verbatim>\<open>ok\<close> and is the status of the reply to a body without a badge code, and the reply to
  the scan on the rest day has status 409.
\<close>

theorem decision_outcomes_are_error_replies:
  "res_status (fst (gate_entry utc_weekdayName exact_toFixed ''u2'' 552600000
       \<lparr>body_slpid = Some ''SLP001'', body_allowWeekOff = False\<rparr> (with_attendance [rahul_in])))
     = 400
   \<and> \<not> res_ok 400
   \<and> res_status (fst (gate_entry utc_weekdayName exact_toFixed ''u2'' 552600000
       \<lparr>body_slpid = None, body_allowWeekOff = False\<rparr> (with_attendance [rahul_in])))
     = 400
   \<and> res_status (fst (gate_entry utc_weekdayName exact_toFixed ''u1'' 378000000
       \<lparr>body_slpid = Some ''SLP002'', body_allowWeekOff = False\<rparr> seed_db))
     = 409
   \<and> \<not> res_ok 409"
  by (simp add: duplicate_example week_off_example res_ok_def)
    (simp add: gate_entry_def try_catch_def respond_def entry_json_def)

subsection \<open>Malformed requests\<close>

lemma records_of_employee_no_dates:
  "records_of_employee weekdayName toFixed department onlyAbsent allRos allAtt [] = (\<lambda>emp. [])"
  by (rule ext) (simp add: records_of_employee_def)

lemma concat_map_empty: "concat (map (\<lambda>x. []) xs) = []"
  by (induction xs) simp_all

lemma reports_missing_dates:
  assumes "q_fromDate q = None \<or> q_toDate q = None"
  shows "reports setNextDate weekdayName toFixed q d =
           (Some \<lparr>rep_status = 400, rep_message = Some ''Dates required'', rep_records = []\<rparr>, d)"
  using assms
  by (auto simp: reports_def try_catch_def respond_def split: option.splits)

lemma reports_inverted:
  assumes "failAfter d = None" and "q_fromDate q = Some fromDate" and "q_toDate q = Some toDate"
    and "fromDate > toDate"
  shows "reports setNextDate weekdayName toFixed q d =
           (Some \<lparr>rep_status = 200, rep_message = None, rep_records = []\<rparr>,
            d\<lparr>calls := calls d @ [SelectEmployees, SelectRosters, SelectAttendance]\<rparr>)"
proof -
  from assms(4)
  have "date_loop setNextDate (toDate * 86400000) (fromDate * 86400000) [] = Some []"
    by (rule date_loop_inverted)
  then show ?thesis
    by (simp add: reports_reliable [OF assms(1-3)] records_of_employee_no_dates
        concat_map_empty)
qed

text \<open>
  C9, as amended. A body without a badge code (or with an empty one) and a body without
  a list of identifiers (or with an empty list) are answered with status 400 before any
  storage call: the handle, with its tables and its list of calls, is returned as it was;
  the gate-out screen sends no request for an empty selection. A report query without
  one of its dates is answered with status 400 in the same way. A range with
  \<open>fromDate > toDate\<close> is refused by the reports screen, which shows a toast and sends no
  request; the report route itself does not refuse it: it reads the three tables and
  replies with status 200 and no rows, and changes no table, on every host.
\<close>

theorem malformed_input:
  "gate_entry weekdayName toFixed uuid now \<lparr>body_slpid = None, body_allowWeekOff = allow\<rparr> d
     = (entry_json 400 ''SLPID is required'', d)
   \<and> gate_entry weekdayName toFixed uuid now \<lparr>body_slpid = Some [], body_allowWeekOff = allow\<rparr> d
     = (entry_json 400 ''SLPID is required'', d)
   \<and> bulk_out now None d
     = (\<lparr>bulk_status = 400, bulk_success = None, bulk_count = None,
         bulk_message = ''No attendance IDs provided''\<rparr>, d)
   \<and> bulk_out now (Some []) d
     = (\<lparr>bulk_status = 400, bulk_success = None, bulk_count = None,
         bulk_message = ''No attendance IDs provided''\<rparr>, d)
   \<and> handleBulkGateOut [] = Toast ''Please select employees to Gate Out''
   \<and> (q_fromDate q = None \<or> q_toDate q = None \<longrightarrow>
        reports setNextDate weekdayName toFixed q d
          = (Some \<lparr>rep_status = 400, rep_message = Some ''Dates required'', rep_records = []\<rparr>, d))
   \<and> (fromInstant > toInstant \<longrightarrow>
        handleSearch fromInstant toInstant departmentFilter
          = Toast ''From date cannot be after To date'')
   \<and> (failAfter d = None \<and> q_fromDate q = Some fromDate \<and> q_toDate q = Some toDate
        \<and> fromDate > toDate \<longrightarrow>
        reports setNextDate weekdayName toFixed q d
          = (Some \<lparr>rep_status = 200, rep_message = None, rep_records = []\<rparr>,
             d\<lparr>calls := calls d @ [SelectEmployees, SelectRosters, SelectAttendance]\<rparr>))"
proof (intro conjI impI)
  show "gate_entry weekdayName toFixed uuid now \<lparr>body_slpid = None, body_allowWeekOff = allow\<rparr> d
     = (entry_json 400 ''SLPID is required'', d)"
    by (simp add: gate_entry_def try_catch_def respond_def)
  show "gate_entry weekdayName toFixed uuid now \<lparr>body_slpid = Some [], body_allowWeekOff = allow\<rparr> d
     = (entry_json 400 ''SLPID is required'', d)"
    by (simp add: gate_entry_def try_catch_def respond_def)
  show "bulk_out now None d
     = (\<lparr>bulk_status = 400, bulk_success = None, bulk_count = None,
         bulk_message = ''No attendance IDs provided''\<rparr>, d)"
    by (simp add: bulk_out_def try_catch_def respond_def)
  show "bulk_out now (Some []) d
     = (\<lparr>bulk_status = 400, bulk_success = None, bulk_count = None,
         bulk_message = ''No attendance IDs provided''\<rparr>, d)"
    by (simp add: bulk_out_def try_catch_def respond_def)
  show "handleBulkGateOut [] = Toast ''Please select employees to Gate Out''"
    by (simp add: handleBulkGateOut_def)
next
  assume "q_fromDate q = None \<or> q_toDate q = None"
  then show "reports setNextDate weekdayName toFixed q d
          = (Some \<lparr>rep_status = 400, rep_message = Some ''Dates required'', rep_records = []\<rparr>, d)"
    by (rule reports_missing_dates)
next
  assume "fromInstant > toInstant"
  then show "handleSearch fromInstant toInstant departmentFilter
          = Toast ''From date cannot be after To date''"
    by (simp add: handleSearch_def)
next
  assume "failAfter d = None \<and> q_fromDate q = Some fromDate \<and> q_toDate q = Some toDate
        \<and> fromDate > toDate"
  then show "reports setNextDate weekdayName toFixed q d
          = (Some \<lparr>rep_status = 200, rep_message = None, rep_records = []\<rparr>,
             d\<lparr>calls := calls d @ [SelectEmployees, SelectRosters, SelectAttendance]\<rparr>)"
    by (simp add: reports_inverted)
qed

theorem malformed_input_witness:
  "q_fromDate \<lparr>q_fromDate = None, q_toDate = Some 5, q_department = None, q_onlyAbsent = None\<rparr> = None
   \<and> reports utc_setNextDate utc_weekdayName exact_toFixed
        \<lparr>q_fromDate = None, q_toDate = Some 5, q_department = None, q_onlyAbsent = None\<rparr> seed_db
      = (Some \<lparr>rep_status = 400, rep_message = Some ''Dates required'', rep_records = []\<rparr>, seed_db)
   \<and> handleSearch 604800000 432000000 ''All'' = Toast ''From date cannot be after To date''
   \<and> failAfter seed_db = None
   \<and> reports utc_setNextDate utc_weekdayName exact_toFixed
        \<lparr>q_fromDate = Some 7, q_toDate = Some 5, q_department = None, q_onlyAbsent = None\<rparr> seed_db
      = (Some \<lparr>rep_status = 200, rep_message = None, rep_records = []\<rparr>,
         seed_db\<lparr>calls := [SelectEmployees, SelectRosters, SelectAttendance]\<rparr>)"
proof -
  have ok: "failAfter seed_db = None" and none: "calls seed_db = []"
    by (simp_all add: seed_db_def)
  note missing = malformed_input [where weekdayName = utc_weekdayName
      and setNextDate = utc_setNextDate and toFixed = exact_toFixed and d = seed_db
      and q = "\<lparr>q_fromDate = None, q_toDate = Some 5, q_department = None,
                q_onlyAbsent = None\<rparr>"
      and fromInstant = 604800000 and toInstant = 432000000 and departmentFilter = "''All''"]
  note inverted = malformed_input [where weekdayName = utc_weekdayName
      and setNextDate = utc_setNextDate and toFixed = exact_toFixed and d = seed_db
      and q = "\<lparr>q_fromDate = Some 7, q_toDate = Some 5, q_department = None,
                q_onlyAbsent = None\<rparr>"
      and fromDate = 7 and toDate = 5]
  from missing inverted ok none show ?thesis by simp
qed

text \<open>
  C9 as stated fails: the report route answers the range from day 7 to day 5 on the
  seeded tables with status 200 after three reads of the storage.
\<close>

theorem inverted_range_is_read:
  "reports utc_setNextDate utc_weekdayName exact_toFixed
     \<lparr>q_fromDate = Some 7, q_toDate = Some 5, q_department = None, q_onlyAbsent = None\<rparr> seed_db
   = (Some \<lparr>rep_status = 200, rep_message = None, rep_records = []\<rparr>,
      seed_db\<lparr>calls := [SelectEmployees, SelectRosters, SelectAttendance]\<rparr>)
   \<and> res_ok 200"
proof -
  have "failAfter seed_db = None" "calls seed_db = []" by (simp_all add: seed_db_def)
  then show ?thesis
    by (simp add: reports_inverted [where fromDate = 7 and toDate = 5] res_ok_def)
qed
subsection \<open>Badge codes in upper case\<close>




lemma toUpperCase_append: "toUpperCase (s @ t) = toUpperCase s @ toUpperCase t"
  by (simp add: toUpperCase_def)


lemma length_toUpperCase: "length s \<le> length (toUpperCase s)"
  by (induction s) (simp_all add: toUpperCase_def upper_chars_def)













end
